theory Spec2Isabelle
  imports Complex_Main "HOL-Library.Log_Nat"
begin

section \<open>The XTV reader (xtvReader.py, xdrfile.py)\<close>

text \<open>
  A shallow embedding of the XTV reader. The program is Python 2: \<open>str\<close> is a byte
  string (a \<open>string\<close> here, one \<open>char\<close> per byte), \<open>int\<close> is unbounded (\<open>int\<close>),
  \<open>/\<close> on two ints is floor division (\<open>div\<close>) and raises on a zero divisor, \<open>None\<close>
  compares below every number. A Python \<open>float\<close> is an IEEE 754 double; the model
  holds its value, a \<open>real\<close>, and infinities and NaN are outside the model. The
  geometry provider rounds as the doubles do (\<open>to_double\<close>, in \<open>round\<close> and in the
  midpoints of the faces); the interpolation formula is evaluated exactly. Every
  exception is a value of type \<open>error\<close>; a function that can raise returns
  \<open>error + 'a\<close>.
\<close>

subsection \<open>Exceptions\<close>

text \<open>The keys of \<open>err_codes\<close>, and the two messages raised without a key.\<close>

datatype err_code =
    TIME_UBOUND_ERR | TIME_LBOUND_ERR
  | ERR_XRYT_INDEX | ERR_YT_INDEX | ERR_AXRYT_INDEX
  | INVALID_CHANNEL1 | INVALID_CHANNEL2
  | INDEX_I_LBOUND_ERR | INDEX_J_LBOUND_ERR | INDEX_K_LBOUND_ERR
  | INDEX_I_UBOUND_ERR | INDEX_J_UBOUND_ERR | INDEX_K_UBOUND_ERR
  | AXIAL_UBOUND_ERR | AXIAL_LBOUND_ERR | AXIAL_SCALAR_ERR
  | UNEXPECTED_DIMPOSAT | UNHANDLED_DIMENSION

datatype error =
    XTVError err_code
  | EOFError | IOError | IndexError | AttributeError | TypeError | ValueError
  | ZeroDivisionError | NameError | SystemExit

definition bnd :: "error + 'a \<Rightarrow> ('a \<Rightarrow> error + 'b) \<Rightarrow> error + 'b" where
  "bnd m g = (case m of Inl e \<Rightarrow> Inl e | Inr v \<Rightarrow> g v)"

subsection \<open>Python built-ins the reader uses\<close>

definition isspace :: "char \<Rightarrow> bool" where
  "isspace c = (c \<in> set [CHR '' '', CHR 0x09, CHR 0x0A, CHR 0x0D, CHR 0x0B, CHR 0x0C])"

definition isdigit :: "char \<Rightarrow> bool" where
  "isdigit c = (c \<in> set ''0123456789'')"

text \<open>\<open>s.strip()\<close>\<close>

definition strip :: "string \<Rightarrow> string" where
  "strip s = rev (dropWhile isspace (rev (dropWhile isspace s)))"

text \<open>\<open>s.startswith(c)\<close> and \<open>s.endswith(c)\<close> for a one-character \<open>c\<close>\<close>

definition startswith :: "string \<Rightarrow> char \<Rightarrow> bool" where
  "startswith s c = (case s of [] \<Rightarrow> False | x # _ \<Rightarrow> x = c)"

definition endswith :: "string \<Rightarrow> char \<Rightarrow> bool" where
  "endswith s c = (case rev s of [] \<Rightarrow> False | x # _ \<Rightarrow> x = c)"

text \<open>\<open>xs[i]\<close>: a negative index counts from the end, out of range raises.\<close>

definition py_index :: "'a list \<Rightarrow> int \<Rightarrow> error + 'a" where
  "py_index xs i =
     (if 0 \<le> i \<and> i < int (length xs) then Inr (xs ! nat i)
      else if i < 0 \<and> - int (length xs) \<le> i then Inr (xs ! nat (int (length xs) + i))
      else Inl IndexError)"

text \<open>\<open>a / b\<close> on two ints\<close>

definition py_div :: "int \<Rightarrow> int \<Rightarrow> error + int" where
  "py_div a b = (case b = 0 of True \<Rightarrow> Inl ZeroDivisionError | False \<Rightarrow> Inr (a div b))"

text \<open>\<open>int(s)\<close> on a string of decimal digits\<close>

definition int_of_digits :: "string \<Rightarrow> int" where
  "int_of_digits s = foldl (\<lambda>a c. 10 * a + (int (of_char c) - 48)) 0 s"

text \<open>\<open>s.rpartition(c)\<close>: split at the last \<open>c\<close>; without one, all of \<open>s\<close> is the tail.\<close>

definition rpartition :: "string \<Rightarrow> char \<Rightarrow> string \<times> string \<times> string" where
  "rpartition s c =
     (if c \<in> set s
      then (rev (tl (dropWhile (\<lambda>x. x \<noteq> c) (rev s))), [c],
            rev (takeWhile (\<lambda>x. x \<noteq> c) (rev s)))
      else ([], [], s))"

text \<open>
  \<open>bisect.bisect_right(a, x)\<close>, the binary search of the standard library as it is
  written (it is run on whatever list the file gave, sorted or not).
\<close>

function bisect_loop :: "real list \<Rightarrow> real \<Rightarrow> nat \<Rightarrow> nat \<Rightarrow> nat" where
  "bisect_loop a x lo hi =
     (if lo < hi
      then (if x < a ! ((lo + hi) div 2)
            then bisect_loop a x lo ((lo + hi) div 2)
            else bisect_loop a x ((lo + hi) div 2 + 1) hi)
      else lo)"
  by pat_completeness auto
termination
  by (relation "measure (\<lambda>(a, x, lo, hi). hi - lo)") auto

declare bisect_loop.simps [simp del]

definition bisect_right :: "real list \<Rightarrow> real \<Rightarrow> int" where
  "bisect_right a x = int (bisect_loop a x 0 (length a))"

text \<open>
  The double nearest to a real, a tie going to the even significand: the result of a
  float operation is its exact result rounded so. A double is \<open>m * 2^e\<close> with
  \<open>|m| < 2^53\<close> and \<open>-1074 \<le> e\<close>. With \<open>y = |x| * 2^1074\<close>, the doubles are the
  integers \<open>y\<close> of at most 53 bits and, for every \<open>s\<close>, the integers of \<open>53 + s\<close> bits
  that are multiples of \<open>2^s\<close>; \<open>bitlen\<close> is the number of bits of an integer. No
  exponent is too large here: a result beyond the largest double is an infinity in
  Python, which the model does not have.
\<close>

definition round_half_even :: "real \<Rightarrow> int" where
  "round_half_even x =
     (let f = \<lfloor>x\<rfloor>; d = x - of_int f
      in if d < 1 / 2 then f else if 1 / 2 < d then f + 1 else if even f then f else f + 1)"

definition to_double :: "real \<Rightarrow> real" where
  "to_double x =
     (let y = \<bar>x\<bar> * 2 ^ 1074;
          s = nat (bitlen \<lfloor>y\<rfloor> - 53)
      in sgn x * (of_int (round_half_even (y / 2 ^ s)) * 2 ^ s / 2 ^ 1074))"

text \<open>
  \<open>round(z, 13)\<close> of Python 2 (\<open>_Py_double_round\<close> of CPython 2.7): the value of
  the double \<open>z\<close> is rounded to \<open>n\<close> digits after the decimal point, a tie going away
  from zero, and that decimal number is converted to the nearest double.
\<close>

definition round_half_away :: "real \<Rightarrow> int" where
  "round_half_away x = (if 0 \<le> x then \<lfloor>x + 1 / 2\<rfloor> else - \<lfloor>- x + 1 / 2\<rfloor>)"

definition py_round :: "real \<Rightarrow> nat \<Rightarrow> real" where
  "py_round z n = to_double (real_of_int (round_half_away (z * 10 ^ n)) / 10 ^ n)"

subsection \<open>Channel identifiers\<close>

text \<open>
  The compiled pattern
  \<^verbatim>\<open>(?P<id>\d+)(?:A(?P<axial>\d\d+)(?:R(?P<radial>\d\d+)(?:T(?P<theta>\d\d+))?)?)?\<close>
  applied with \<open>match\<close>, which anchors at the start of the string only. A group opens
  with a letter, so no digit run ever gives a digit back: each run is maximal.
  \<open>mesh_group c s\<close> is one group \<open>c\d\d+\<close> at the head of \<open>s\<close>: the digits and the rest.
\<close>

definition mesh_group :: "char \<Rightarrow> string \<Rightarrow> (string \<times> string) option" where
  "mesh_group c s =
     (case s of
        [] \<Rightarrow> None
      | x # r \<Rightarrow>
          if x = c \<and> 2 \<le> length (takeWhile isdigit r)
          then Some (takeWhile isdigit r, dropWhile isdigit r)
          else None)"

text \<open>The groups \<open>id\<close>, \<open>axial\<close>, \<open>radial\<close>, \<open>theta\<close> of a match; \<open>None\<close> is no match.\<close>

definition re_match ::
  "string \<Rightarrow> (string \<times> string option \<times> string option \<times> string option) option" where
  "re_match s =
     (if takeWhile isdigit s = [] then None
      else Some (takeWhile isdigit s,
        (case mesh_group CHR ''A'' (dropWhile isdigit s) of
           None \<Rightarrow> (None, None, None)
         | Some (a, s1) \<Rightarrow>
             (case mesh_group CHR ''R'' s1 of
                None \<Rightarrow> (Some a, None, None)
              | Some (r, s2) \<Rightarrow>
                  (case mesh_group CHR ''T'' s2 of
                     None \<Rightarrow> (Some a, Some r, None)
                   | Some (t, s3) \<Rightarrow> (Some a, Some r, Some t))))))"

text \<open>
  The component id a parse returns is the matched string, or the int \<open>0\<close> of the
  fallback.
\<close>

datatype comp_id = IdStr string | IdInt int

fun int_of_id :: "comp_id \<Rightarrow> int" where
  "int_of_id (IdStr s) = int_of_digits s"
| "int_of_id (IdInt n) = n"

text \<open>\<open>XtvFile.__parseChannelString\<close>\<close>

definition parseChannelString ::
  "string \<Rightarrow> string \<times> comp_id \<times> string option \<times> string option \<times> string option" where
  "parseChannelString channel =
     (case rpartition channel CHR ''-'' of
        (varName, sep, id_and_mesh) \<Rightarrow>
          (case re_match id_and_mesh of
             Some (compID, a, r, t) \<Rightarrow> (varName, IdStr compID, a, r, t)
           | None \<Rightarrow> (channel, IdInt 0, Some ''0'', Some ''0'', Some ''0'')))"

subsection \<open>The byte stream (xdrfile.py)\<close>

text \<open>
  The file is its bytes; the cursor is a position in it. \<open>file.read(n)\<close> at position
  \<open>p\<close> gives the bytes that are there, fewer than \<open>n\<close> at the end of the file, and moves
  the cursor past them. Each unpacker returns its result and the new cursor.
\<close>

definition file_read :: "string \<Rightarrow> nat \<Rightarrow> nat \<Rightarrow> string" where
  "file_read f p n = take n (drop p f)"

text \<open>Big-endian bytes as a number (\<open>struct.unpack\<close> with \<open>>L\<close>).\<close>

definition be_uint :: "string \<Rightarrow> int" where
  "be_uint data = foldl (\<lambda>a c. 256 * a + of_char c) 0 data"

text \<open>
  \<open>struct.unpack\<close> with \<open>>f\<close> and \<open>>d\<close>: the value of an IEEE 754 bit pattern. The
  patterns with all exponent bits set (infinities, NaN) have no real value; the model
  reads them by the formula of the normal numbers.
\<close>

definition ieee_value :: "nat \<Rightarrow> nat \<Rightarrow> int \<Rightarrow> real" where
  "ieee_value ebits mbits w =
     (let s = w div 2 ^ (ebits + mbits);
          e = (w div 2 ^ mbits) mod 2 ^ ebits;
          m = w mod 2 ^ mbits;
          bias = 2 ^ (ebits - 1) - 1 + int mbits;
          mag = (if e = 0 then of_int m * 2 powi (1 - bias)
                 else of_int (2 ^ mbits + m) * 2 powi (e - bias))
      in if s = 1 then - mag else mag)"

definition unpack_uint :: "string \<Rightarrow> nat \<Rightarrow> (error + nat) \<times> nat" where
  "unpack_uint f p =
     (let data = file_read f p 4
      in (if length data < 4 then Inl EOFError else Inr (nat (be_uint data)), p + length data))"

definition unpack_int :: "string \<Rightarrow> nat \<Rightarrow> (error + int) \<times> nat" where
  "unpack_int f p =
     (let data = file_read f p 4
      in (if length data < 4 then Inl EOFError
          else Inr (if be_uint data < 2 ^ 31 then be_uint data else be_uint data - 2 ^ 32),
          p + length data))"

definition unpack_float :: "string \<Rightarrow> nat \<Rightarrow> (error + real) \<times> nat" where
  "unpack_float f p =
     (let data = file_read f p 4
      in (if length data < 4 then Inl EOFError else Inr (ieee_value 8 23 (be_uint data)),
          p + length data))"

definition unpack_double :: "string \<Rightarrow> nat \<Rightarrow> (error + real) \<times> nat" where
  "unpack_double f p =
     (let data = file_read f p 8
      in (if length data < 8 then Inl EOFError else Inr (ieee_value 11 52 (be_uint data)),
          p + length data))"

text \<open>
  \<open>unpack_fstring\<close> has its length check commented out: a short read gives a short
  string. The length comes from \<open>unpack_uint\<close>, so it is never negative.
\<close>

definition unpack_fstring :: "string \<Rightarrow> nat \<Rightarrow> nat \<Rightarrow> (error + string) \<times> nat" where
  "unpack_fstring f n p =
     (let data = file_read f p ((n + 3) div 4 * 4)
      in (Inr (take n data), p + length data))"

text \<open>\<open>unpack_string\<close> of \<open>xdrlib.Unpacker\<close>: a length, then that many bytes.\<close>

definition unpack_string :: "string \<Rightarrow> nat \<Rightarrow> (error + string) \<times> nat" where
  "unpack_string f p =
     (case unpack_uint f p of
        (Inl e, p') \<Rightarrow> (Inl e, p')
      | (Inr n, p') \<Rightarrow> unpack_fstring f n p')"

fun unpack_farray ::
  "nat \<Rightarrow> (nat \<Rightarrow> (error + 'a) \<times> nat) \<Rightarrow> nat \<Rightarrow> (error + 'a list) \<times> nat" where
  "unpack_farray 0 unpack_item p = (Inr [], p)"
| "unpack_farray (Suc n) unpack_item p =
     (case unpack_item p of
        (Inl e, p') \<Rightarrow> (Inl e, p')
      | (Inr v, p') \<Rightarrow>
          (case unpack_farray n unpack_item p' of
             (Inl e, p'') \<Rightarrow> (Inl e, p'')
           | (Inr vs, p'') \<Rightarrow> (Inr (v # vs), p'')))"

text \<open>\<open>unpack_array\<close> of \<open>xdrlib.Unpacker\<close>: a count, then that many items.\<close>

definition unpack_array ::
  "string \<Rightarrow> (nat \<Rightarrow> (error + 'a) \<times> nat) \<Rightarrow> nat \<Rightarrow> (error + 'a list) \<times> nat" where
  "unpack_array f unpack_item p =
     (case unpack_uint f p of
        (Inl e, p') \<Rightarrow> (Inl e, p')
      | (Inr n, p') \<Rightarrow> unpack_farray n unpack_item p')"

text \<open>
  \<open>set_position(p)\<close> then one read, as every query does it. A seek to a negative
  offset is refused by the file. The cursor left behind is never read again before the
  next \<open>set_position\<close>, so the queries do not return it.
\<close>

definition unpack_float_at :: "string \<Rightarrow> int \<Rightarrow> error + real" where
  "unpack_float_at f p = (if p < 0 then Inl IOError else fst (unpack_float f (nat p)))"

definition unpack_farray_at :: "string \<Rightarrow> int \<Rightarrow> int \<Rightarrow> error + real list" where
  "unpack_farray_at f p n =
     (if p < 0 then Inl IOError else fst (unpack_farray (nat n) (unpack_float f) (nat p)))"

subsection \<open>The header model\<close>

text \<open>
  The classes \<open>_Template\<close>, \<open>_Channel\<close>, \<open>_Component\<close> and the named tuple
  \<open>StartingBlock\<close>, with the attributes some query reads (the others are decoded, which
  moves the cursor, and stored nowhere a query looks). An attribute that \<open>__init__\<close> of
  the class does not set is an \<open>option\<close>: \<open>None\<close> is an object that does not have it
  yet. A template object can be appended to more than one list, so the template lists
  hold references into \<open>templ_store\<close>; the placeholder appended at index 0 is \<open>None\<close>.
  The dictionaries are association lists in insertion order, looked up by \<open>map_of\<close>.
\<close>

record Template =
  dimi :: int
  dimj :: int
  dimk :: int
  coordSys :: string
  fI :: "real list"
  fJ :: "real list"
  fK :: "real list"

record Channel =
  startIncrement :: int
  dimPosAt :: "string option"
  freqAt :: "string option"
  vTmpl :: "int option"
  vLength :: "int option"

record Component =
  channels :: "(string \<times> Channel) list"
  templates :: "nat option list"

record StartingBlock =
  dataStart :: int
  dataLen :: int
  nPoints :: int
  fmtString :: string

record XtvFile =
  xtvFile :: string
  components :: "((int \<times> string) \<times> Component) list"
  templ_store :: "Template list"
  times :: "real list"
  SB :: StartingBlock
  opened :: "bool option"

text \<open>
  \<open>self.components.get((id, compType))\<close>; the component type that
  \<open>__decode_channel\<close> hands on can be \<open>None\<close>, which is no key.
\<close>

definition get_comp :: "XtvFile \<Rightarrow> int \<Rightarrow> string option \<Rightarrow> Component option" where
  "get_comp self cid compType =
     (case compType of None \<Rightarrow> None | Some ct \<Rightarrow> map_of (components self) (cid, ct))"

text \<open>\<open>component.templates[tmplInd]\<close>: the template object, or \<open>None\<close> for the placeholder.\<close>

definition get_template :: "XtvFile \<Rightarrow> Component \<Rightarrow> int \<Rightarrow> error + Template option" where
  "get_template self cmpt tmplInd =
     bnd (py_index (templates cmpt) tmplInd)
       (\<lambda>r. Inr (case r of None \<Rightarrow> None | Some a \<Rightarrow> Some (templ_store self ! a)))"

subsection \<open>Resolving a channel\<close>

text \<open>
  \<open>XtvFile.__getCompType\<close>: the first component, in insertion order, with this id
  whose channel table has the variable.
\<close>

definition getCompType :: "XtvFile \<Rightarrow> comp_id \<Rightarrow> string \<Rightarrow> string option" where
  "getCompType self compID varName =
     (case find (\<lambda>((cid, ct), _). cid = int_of_id compID \<and>
                   (case map_of (components self) (cid, ct) of
                      None \<Rightarrow> False
                    | Some cmpt \<Rightarrow> map_of (channels cmpt) varName \<noteq> None))
                (components self) of
        None \<Rightarrow> None
      | Some ((cid, ct), _) \<Rightarrow> Some ct)"

text \<open>\<open>XtvFile.__decode_channel\<close>; \<open>int(None)\<close> raises the TypeError that is caught.\<close>

definition decode_channel ::
  "XtvFile \<Rightarrow> string \<Rightarrow>
     string \<times> string option \<times> int \<times> int option \<times> int option \<times> int option" where
  "decode_channel self channel =
     (case parseChannelString channel of
        (varName, cid, a, r, t) \<Rightarrow>
          (varName, getCompType self cid varName, int_of_id cid,
           map_option int_of_digits a, map_option int_of_digits r,
           map_option int_of_digits t))"

text \<open>\<open>XtvFile.__getDimPosAt\<close>: every missing link is the caught AttributeError.\<close>

definition getDimPosAt :: "XtvFile \<Rightarrow> int \<Rightarrow> string option \<Rightarrow> string \<Rightarrow> error + string" where
  "getDimPosAt self cid compType varName =
     (case get_comp self cid compType of
        None \<Rightarrow> Inl (XTVError INVALID_CHANNEL1)
      | Some cmpt \<Rightarrow>
          (case map_of (channels cmpt) (strip varName) of
             None \<Rightarrow> Inl (XTVError INVALID_CHANNEL1)
           | Some ch \<Rightarrow>
               (case dimPosAt ch of
                  None \<Rightarrow> Inl (XTVError INVALID_CHANNEL1)
                | Some d \<Rightarrow> Inr (strip d))))"

text \<open>\<open>x > 0\<close> where \<open>x\<close> may be \<open>None\<close>\<close>

definition gt0 :: "int option \<Rightarrow> bool" where
  "gt0 x = (case x of None \<Rightarrow> False | Some v \<Rightarrow> 0 < v)"

text \<open>\<open>XtvFile.__transform_indices\<close>\<close>

definition transform_indices ::
  "XtvFile \<Rightarrow> int \<Rightarrow> string option \<Rightarrow> string \<Rightarrow> int option \<Rightarrow> int option \<Rightarrow> int option \<Rightarrow>
     error + (int option \<times> int option \<times> int option)" where
  "transform_indices self cid compType varName xr yt z =
     bnd (getDimPosAt self cid compType varName) (\<lambda>d.
       if startswith d CHR ''3'' then Inr (xr, yt, z)
       else if startswith d CHR ''2'' then
         (if gt0 yt then Inl (XTVError ERR_YT_INDEX) else Inr (xr, z, Some 0))
       else if startswith d CHR ''1'' then
         (if gt0 yt \<or> gt0 xr then Inl (XTVError ERR_XRYT_INDEX) else Inr (z, Some 0, Some 0))
       else if startswith d CHR ''0'' then
         (if gt0 yt \<or> gt0 xr \<or> gt0 z then Inl (XTVError ERR_AXRYT_INDEX)
          else Inr (Some 0, Some 0, Some 0))
       else Inl ValueError)"

text \<open>\<open>XtvFile.__interpolate\<close>; a float division by zero raises.\<close>

definition interpolate :: "real \<Rightarrow> real \<Rightarrow> real \<Rightarrow> real \<Rightarrow> real \<Rightarrow> error + real" where
  "interpolate x1 y1 x2 y2 x =
     (if x2 - x1 = 0 then Inl ZeroDivisionError
      else Inr ((y2 - y1) * (x - x1) / (x2 - x1) + y1))"

subsection \<open>The value locator\<close>

text \<open>\<open>i is None or i == 0\<close>\<close>

definition index_unset :: "int option \<Rightarrow> bool" where
  "index_unset i = (i = None \<or> i = Some 0)"

text \<open>
  The extents and the cell of a 3D variable (\<open>getData\<close>, the chain on the suffix of
  \<open>dimPosAt\<close>): \<open>(nmesh_i, nmesh_j, nmesh_k, cell)\<close>.
\<close>

definition mesh3 ::
  "string \<Rightarrow> string \<Rightarrow> int \<Rightarrow> int \<Rightarrow> int \<Rightarrow> int \<Rightarrow> int \<Rightarrow> int \<Rightarrow> int \<Rightarrow>
     error + (int \<times> int \<times> int \<times> int)" where
  "mesh3 d coordSystem vLen di dj dk i j k =
     (if endswith d CHR ''I'' then
        bnd (py_div vLen (dj * dk)) (\<lambda>nmesh_i.
        bnd (py_div vLen ((di + 1) * dk)) (\<lambda>nmesh_j.
        bnd (py_div vLen ((di + 1) * dj)) (\<lambda>nmesh_k.
        Inr (nmesh_i, nmesh_j, nmesh_k, (k - 1) * ((di + 1) * dj) + (j - 1) * (di + 1) + i))))
      else if endswith d CHR ''J'' then
        (if coordSystem = ''CYL3D'' then
           bnd (py_div vLen (dj * dk)) (\<lambda>nmesh_i.
           bnd (py_div vLen (di * dk)) (\<lambda>nmesh_j.
           bnd (py_div vLen (di * dj)) (\<lambda>nmesh_k.
           Inr (nmesh_i, nmesh_j, nmesh_k, (k - 1) * (di * dj) + (j - 1) * di + i))))
         else
           bnd (py_div vLen ((dj + 1) * dk)) (\<lambda>nmesh_i.
           bnd (py_div vLen (di * dk)) (\<lambda>nmesh_j.
           bnd (py_div vLen (di * (dj + 1))) (\<lambda>nmesh_k.
           Inr (nmesh_i, nmesh_j, nmesh_k, (k - 1) * (di * (dj + 1)) + (j - 1) * di + i)))))
      else if endswith d CHR ''K'' then
        bnd (py_div vLen (dj * (dk + 1))) (\<lambda>nmesh_i.
        bnd (py_div vLen (di * (dk + 1))) (\<lambda>nmesh_j.
        bnd (py_div vLen (di * dj)) (\<lambda>nmesh_k.
        Inr (nmesh_i, nmesh_j, nmesh_k, (k - 1) * (di * dj) + (j - 1) * di + i))))
      else if endswith d CHR ''c'' then
        bnd (py_div vLen (dj * dk)) (\<lambda>nmesh_i.
        bnd (py_div vLen (di * dk)) (\<lambda>nmesh_j.
        bnd (py_div vLen (di * dj)) (\<lambda>nmesh_k.
        Inr (nmesh_i, nmesh_j, nmesh_k, (k - 1) * (di * dj) + (j - 1) * di + i))))
      else Inl (XTVError UNEXPECTED_DIMPOSAT))"

text \<open>
  \<open>getData\<close> from the dispatch on \<open>dimPosAt\<close> to the cell (lines 1004 to 1084), with
  the three dimensions of the template, or \<open>None\<close> where the \<open>try\<close> found the
  placeholder and set them to \<open>None\<close>.
\<close>

definition cell_of ::
  "string \<Rightarrow> int \<Rightarrow> Template option \<Rightarrow> int option \<Rightarrow> int option \<Rightarrow> int option \<Rightarrow> error + int" where
  "cell_of d vLen tm i j k =
     (if startswith d CHR ''3'' then
        (if index_unset i then Inl (XTVError INDEX_I_LBOUND_ERR)
         else if index_unset j then Inl (XTVError INDEX_J_LBOUND_ERR)
         else if index_unset k then Inl (XTVError INDEX_K_LBOUND_ERR)
         else
           (case tm of
              None \<Rightarrow> Inl AttributeError
            | Some t \<Rightarrow>
                bnd (mesh3 d (coordSys t) vLen (dimi t) (dimj t) (dimk t) (the i) (the j) (the k))
                  (\<lambda>(nmesh_i, nmesh_j, nmesh_k, cell).
                     if the i > nmesh_i then Inl (XTVError INDEX_I_UBOUND_ERR)
                     else if the j > nmesh_j then Inl (XTVError INDEX_J_UBOUND_ERR)
                     else if the k > nmesh_k then Inl (XTVError INDEX_K_UBOUND_ERR)
                     else Inr cell)))
      else if startswith d CHR ''2'' then
        (case tm of
           None \<Rightarrow> Inl TypeError
         | Some t \<Rightarrow>
             bnd (py_div vLen (dimj t + 1)) (\<lambda>nmesh_i.
               if index_unset i then Inl (XTVError INDEX_I_LBOUND_ERR)
               else if the i > nmesh_i then Inl (XTVError INDEX_I_UBOUND_ERR)
               else
                 bnd (py_div vLen (dimi t)) (\<lambda>nmesh_j.
                   if index_unset j then Inl (XTVError INDEX_J_LBOUND_ERR)
                   else if the j > nmesh_j then Inl (XTVError INDEX_J_UBOUND_ERR)
                   else Inr ((the j - 1) * dimi t + the i))))
      else if startswith d CHR ''1'' then
        (if index_unset i then Inl (XTVError INDEX_I_LBOUND_ERR)
         else if the i > vLen then Inl (XTVError INDEX_I_UBOUND_ERR)
         else Inr (the i))
      else if startswith d CHR ''0'' then Inr 1
      else Inl (XTVError UNHANDLED_DIMENSION))"

text \<open>
  The time checks that open \<open>getData\<close> (lines 1090 to 1095) and \<open>getAxialData\<close>
  (lines 725 to 730): the time the rest of the query works with.
\<close>

definition latch_time :: "real list \<Rightarrow> real \<Rightarrow> error + real" where
  "latch_time ts time =
     (if time < 0 then py_index ts (- 1)
      else
        bnd (py_index ts (- 1)) (\<lambda>last_t.
          if time > last_t then Inl (XTVError TIME_UBOUND_ERR)
          else
            bnd (py_index ts 0) (\<lambda>first_t.
              if time < first_t then Inl (XTVError TIME_LBOUND_ERR) else Inr time)))"

text \<open>The offset of a value in the file: record \<open>edit\<close>, byte \<open>startingPoint\<close> of it.\<close>

definition record_offset :: "XtvFile \<Rightarrow> int \<Rightarrow> int \<Rightarrow> int" where
  "record_offset self edit startingPoint =
     dataStart (SB self) + edit * dataLen (SB self) + startingPoint"

text \<open>
  An attribute or a method of an object that may be \<open>None\<close>, or an attribute the
  object may not have yet.
\<close>

definition attr :: "'a option \<Rightarrow> error + 'a" where
  "attr x = (case x of None \<Rightarrow> Inl AttributeError | Some v \<Rightarrow> Inr v)"

text \<open>
  \<open>getData\<close> from its time checks to its end (lines 1088 to 1111): the value at
  byte \<open>startingPoint\<close> of the record of \<open>time\<close>, read or interpolated.
\<close>

definition read_at_time :: "XtvFile \<Rightarrow> int \<Rightarrow> real \<Rightarrow> error + real" where
  "read_at_time self startingPoint time =
     bnd (latch_time (times self) time) (\<lambda>time'.
       let startingEdit = bisect_right (times self) time' in
       bnd (py_index (times self) (startingEdit - 1)) (\<lambda>t1.
         if time' = t1
         then unpack_float_at (xtvFile self)
                (record_offset self (startingEdit - 1) startingPoint)
         else
           bnd (unpack_float_at (xtvFile self)
                  (record_offset self (startingEdit - 1) startingPoint)) (\<lambda>y1.
           bnd (unpack_float_at (xtvFile self)
                  (record_offset self startingEdit startingPoint)) (\<lambda>y2.
           bnd (py_index (times self) startingEdit) (\<lambda>t2.
             interpolate t1 y1 t2 y2 time')))))"

text \<open>
  \<open>getData\<close> up to its time checks (lines 985 to 1086): the channel whose
  \<open>startIncrement\<close> is used, and the cell.
\<close>

definition locate_cell ::
  "XtvFile \<Rightarrow> int \<Rightarrow> string option \<Rightarrow> string \<Rightarrow> int option \<Rightarrow> int option \<Rightarrow> int option \<Rightarrow>
     error + (Channel \<times> int)" where
  "locate_cell self cid compType varName i j k =
     bnd (getDimPosAt self cid compType varName) (\<lambda>d.
     bnd (attr (get_comp self cid compType)) (\<lambda>cmpt.
     bnd (attr (map_of (channels cmpt) (strip varName))) (\<lambda>ch.
     bnd (attr (vTmpl ch)) (\<lambda>tmplInd.
     bnd (attr (vLength ch)) (\<lambda>vLen.
     bnd (get_template self cmpt tmplInd) (\<lambda>tm.
     bnd (cell_of d vLen tm i j k) (\<lambda>cell.
     bnd (attr (map_of (channels cmpt) varName)) (\<lambda>ch'.
       Inr (ch', cell)))))))))"

text \<open>\<open>XtvFile.getData\<close>\<close>

definition getData ::
  "XtvFile \<Rightarrow> real \<Rightarrow> int \<Rightarrow> string option \<Rightarrow> string \<Rightarrow> int option \<Rightarrow> int option \<Rightarrow> int option \<Rightarrow>
     error + real" where
  "getData self time cid compType varName i j k =
     bnd (locate_cell self cid compType varName i j k) (\<lambda>(ch, cell).
       read_at_time self (startIncrement ch + (cell - 1) * 4) time)"

subsection \<open>The geometry provider\<close>

definition fineMeshVars :: "string list" where
  "fineMeshVars =
     [''depthZrRxIn'', ''depthZrRxOn'', ''eCR50_46'', ''hgap'', ''hrfgi'', ''hrfgo'', ''hrfli'',
      ''hrflo'', ''hrfvi'', ''hrfvo'', ''ihtfi'', ''ihtfo'', ''qchfi'', ''qchfo'', ''rftn'',
      ''tchfi'', ''tchfo'', ''tmini'', ''tmino'', ''zht'']"

text \<open>
  \<open>[(zLocs[i]+zLocs[i+1])*0.5 for i in range(len(zLocs)-1)]\<close>: a float addition, then
  a float multiplication.
\<close>

definition midpoints :: "real list \<Rightarrow> real list" where
  "midpoints zLocs =
     map (\<lambda>i. to_double (to_double (zLocs ! i + zLocs ! (i + 1)) * 0.5))
       [0 ..< length zLocs - 1]"

text \<open>\<open>zLocs[0:zLocs.index(-1.0)]\<close>; \<open>index\<close> raises where the value is absent.\<close>

definition trim_unused :: "real list \<Rightarrow> error + real list" where
  "trim_unused zLocs =
     (if - 1 \<in> set zLocs then Inr (takeWhile (\<lambda>z. z \<noteq> - 1) zLocs) else Inl ValueError)"

text \<open>
  The length of the axial array of a variable on an \<open>htstrc\<close> component
  (\<open>getAxialLocations\<close>, lines 894 to 900); \<open>exit()\<close> raises SystemExit.
\<close>

definition htstrc_vLength ::
  "XtvFile \<Rightarrow> Component \<Rightarrow> string \<Rightarrow> string \<Rightarrow> int \<Rightarrow> error + int" where
  "htstrc_vLength self cmpt varName d tmplInd =
     (if d = ''1dFa'' then
        bnd (attr (map_of (channels cmpt) varName)) (\<lambda>ch. attr (vLength ch))
      else if d = ''2dFaJ'' then
        bnd (get_template self cmpt tmplInd) (\<lambda>tm.
        bnd (attr tm) (\<lambda>t. Inr (dimj t + 1)))
      else Inl SystemExit)"

text \<open>
  \<open>XtvFile.getAxialLocations\<close> from the dispatch on the component type to the list
  that its last statement rounds.
\<close>

definition raw_axial_locations ::
  "XtvFile \<Rightarrow> real \<Rightarrow> string option \<Rightarrow> string \<Rightarrow> string \<Rightarrow> Component \<Rightarrow> int \<Rightarrow>
     error + real list" where
  "raw_axial_locations self time compType varName d cmpt tmplInd =
     (if compType = Some ''htstrc'' then
        bnd (htstrc_vLength self cmpt varName d tmplInd) (\<lambda>vLen.
        if varName \<in> set fineMeshVars then
          bnd (attr (map_of (channels cmpt) ''zht'')) (\<lambda>zch.
            let startingPoint = startIncrement zch + (1 - 1) * 4;
                startingEdit = bisect_right (times self) time
            in
              bnd (unpack_farray_at (xtvFile self)
                     (record_offset self (startingEdit - 1) startingPoint) vLen)
                trim_unused)
        else
          bnd (get_template self cmpt tmplInd) (\<lambda>tm.
          bnd (attr tm) (\<lambda>t. Inr (fJ t))))
      else if compType = Some ''htstr'' then
        bnd (get_template self cmpt tmplInd) (\<lambda>tm.
        bnd (attr tm) (\<lambda>t. Inr (drop 1 (fI t))))
      else if compType = Some ''vessel'' then
        bnd (get_template self cmpt tmplInd) (\<lambda>tm.
        bnd (attr tm) (\<lambda>t.
          Inr (if d \<noteq> ''3dFaK'' then midpoints (fK t) else fK t)))
      else if startswith d CHR ''1'' then
        bnd (get_template self cmpt tmplInd) (\<lambda>tm.
        bnd (attr tm) (\<lambda>t.
          Inr (if d = ''1dCc'' then midpoints (fI t) else fI t)))
      else Inl SystemExit)"

text \<open>\<open>XtvFile.getAxialLocations\<close>\<close>

definition getAxialLocations ::
  "XtvFile \<Rightarrow> real \<Rightarrow> int \<Rightarrow> string option \<Rightarrow> string \<Rightarrow> error + real list" where
  "getAxialLocations self time cid compType varName =
     bnd (getDimPosAt self cid compType varName) (\<lambda>d.
     bnd (attr (get_comp self cid compType)) (\<lambda>cmpt.
     bnd (attr (map_of (channels cmpt) (strip varName))) (\<lambda>ch.
     bnd (attr (vTmpl ch)) (\<lambda>tmplInd.
       if d = ''0D'' then Inr []
       else
         bnd (raw_axial_locations self time compType varName d cmpt tmplInd) (\<lambda>zLocs.
           Inr (map (\<lambda>z. py_round z 13) zLocs))))))"

subsection \<open>The query facade\<close>

text \<open>
  The spatial lookup that \<open>getAxialData\<close> holds three times (lines 747 to 760, 778 to
  791, 797 to 810) and \<open>getTimeVectorAxial\<close> once (lines 1259 to 1272): the value at
  height \<open>zLoc\<close> in the axial list \<open>zht\<close> of one time.
\<close>

definition axial_lookup ::
  "XtvFile \<Rightarrow> real \<Rightarrow> int \<Rightarrow> string option \<Rightarrow> string \<Rightarrow> int option \<Rightarrow> int option \<Rightarrow>
     real list \<Rightarrow> real \<Rightarrow> error + real" where
  "axial_lookup self time cid compType varName xr yt zht zLoc =
     (let z = bisect_right zht zLoc in
      bnd (py_index zht (z - 1)) (\<lambda>zl.
        if zLoc = zl then
          bnd (transform_indices self cid compType varName xr yt (Some z)) (\<lambda>(i, j, k).
            getData self time cid compType varName i j k)
        else
          bnd (transform_indices self cid compType varName xr yt (Some z)) (\<lambda>(i, j, k).
          bnd (getData self time cid compType varName i j k) (\<lambda>lVal.
          bnd (transform_indices self cid compType varName xr yt (Some (z + 1))) (\<lambda>(i, j, k).
          bnd (getData self time cid compType varName i j k) (\<lambda>uVal.
          bnd (py_index zht z) (\<lambda>zu.
            interpolate zl lVal zu uVal zLoc)))))))"

text \<open>The input checks of \<open>getAxialData\<close> on the axial list (lines 739 to 744).\<close>

definition check_axial :: "real list \<Rightarrow> real \<Rightarrow> error + unit" where
  "check_axial zht zLoc =
     (if length zht = 0 then Inl (XTVError AXIAL_SCALAR_ERR)
      else
        bnd (py_index zht (- 1)) (\<lambda>zlast.
          if zLoc > zlast then Inl (XTVError AXIAL_UBOUND_ERR)
          else
            bnd (py_index zht 0) (\<lambda>zfirst.
              if zLoc < zfirst then Inl (XTVError AXIAL_LBOUND_ERR) else Inr ())))"

text \<open>\<open>XtvFile.getAxialData\<close>\<close>

definition getAxialData ::
  "XtvFile \<Rightarrow> real \<Rightarrow> int \<Rightarrow> string option \<Rightarrow> string \<Rightarrow> real \<Rightarrow> int option \<Rightarrow> int option \<Rightarrow>
     error + real" where
  "getAxialData self time cid compType varName zLoc xr yt =
     bnd (latch_time (times self) time) (\<lambda>time'.
       let time_index = bisect_right (times self) time' in
       bnd (py_index (times self) (time_index - 1)) (\<lambda>timeLower.
         if time' = timeLower then
           bnd (getAxialLocations self time' cid compType varName) (\<lambda>zht.
           bnd (check_axial zht zLoc) (\<lambda>_.
             axial_lookup self time' cid compType varName xr yt zht zLoc))
         else
           bnd (py_index (times self) time_index) (\<lambda>timeUpper.
           bnd (getAxialLocations self timeLower cid compType varName) (\<lambda>zht.
           bnd (check_axial zht zLoc) (\<lambda>_.
           bnd (axial_lookup self timeLower cid compType varName xr yt zht zLoc) (\<lambda>lvalue.
           bnd (getAxialLocations self timeUpper cid compType varName) (\<lambda>zht'.
           bnd (axial_lookup self timeUpper cid compType varName xr yt zht' zLoc) (\<lambda>uvalue.
             interpolate timeLower lvalue timeUpper uvalue time'))))))))"

text \<open>\<open>XtvFile.getAxialDataChannel\<close>\<close>

definition getAxialDataChannel :: "XtvFile \<Rightarrow> real \<Rightarrow> string \<Rightarrow> real \<Rightarrow> error + real" where
  "getAxialDataChannel self time channel zLoc =
     (case decode_channel self channel of
        (varName, compType, cid, a, r, t) \<Rightarrow>
          getAxialData self time cid compType varName zLoc r t)"

text \<open>\<open>XtvFile.getDataChannel\<close>\<close>

definition getDataChannel :: "XtvFile \<Rightarrow> real \<Rightarrow> string \<Rightarrow> error + real" where
  "getDataChannel self time channel =
     (case decode_channel self channel of
        (varName, compType, cid, a, r, t) \<Rightarrow>
          bnd (transform_indices self cid compType varName r t a) (\<lambda>(i, j, k).
            getData self time cid compType varName i j k))"

text \<open>\<open>XtvFile.getTimeVectorAxial\<close>: its loop over \<open>self.times\<close>, then the method.\<close>

fun timeVectorAxial_loop ::
  "XtvFile \<Rightarrow> int \<Rightarrow> string option \<Rightarrow> string \<Rightarrow> int option \<Rightarrow> int option \<Rightarrow> real \<Rightarrow>
     real list \<Rightarrow> error + (real \<times> real) list" where
  "timeVectorAxial_loop self cid compType varName xr yt zLoc [] = Inr []"
| "timeVectorAxial_loop self cid compType varName xr yt zLoc (time # ts) =
     bnd (getAxialLocations self time cid compType varName) (\<lambda>zLocs.
     bnd (axial_lookup self time cid compType varName xr yt zLocs zLoc) (\<lambda>v.
     bnd (timeVectorAxial_loop self cid compType varName xr yt zLoc ts) (\<lambda>vector.
       Inr ((time, v) # vector))))"

definition getTimeVectorAxial ::
  "XtvFile \<Rightarrow> string \<Rightarrow> real \<Rightarrow> error + (real \<times> real) list" where
  "getTimeVectorAxial self channel zLoc =
     (case decode_channel self channel of
        (varName, compType, cid, a, xr, yt) \<Rightarrow>
          timeVectorAxial_loop self cid compType varName xr yt zLoc (times self))"

subsection \<open>Opening a file: the header parser\<close>

text \<open>
  \<open>XtvFile.__init__\<close> mutates the object while it parses, and what it has stored when
  an exception ends the block loop stays stored. So a step of the parser takes the
  state and returns it with its result, also when the result is an exception. The state
  is the cursor, \<open>self.components\<close>, the template objects, and the local variables
  \<open>currentComp\<close> (the key under which the current component sits in
  \<open>self.components\<close>), \<open>currentTempl\<close> (a reference) and \<open>recordLength\<close>; a local
  variable that is not bound yet is \<open>None\<close>, and reading it raises (UnboundLocalError,
  a NameError). Side legs, dynamic axes and the attributes no query reads are decoded
  and not stored. The effect of \<open>verbose\<close> is printing alone and is left out.
\<close>

record init_state =
  pos :: nat
  comps :: "((int \<times> string) \<times> Component) list"
  store :: "Template list"
  currentComp :: "(int \<times> string) option"
  currentTempl :: "nat option"
  recordLength :: int

type_synonym 'a step = "init_state \<Rightarrow> (error + 'a) \<times> init_state"

definition ret :: "'a \<Rightarrow> 'a step" where
  "ret v s = (Inr v, s)"

definition seq :: "'a step \<Rightarrow> ('a \<Rightarrow> 'b step) \<Rightarrow> 'b step" where
  "seq m g s = (case m s of (Inl e, s') \<Rightarrow> (Inl e, s') | (Inr v, s') \<Rightarrow> g v s')"

text \<open>A read at the cursor.\<close>

definition rd :: "(nat \<Rightarrow> (error + 'a) \<times> nat) \<Rightarrow> 'a step" where
  "rd u s = (case u (pos s) of (r, p') \<Rightarrow> (r, s\<lparr>pos := p'\<rparr>))"

text \<open>\<open>d[k] = v\<close> on an ordered dictionary: a known key keeps its place.\<close>

fun dict_set :: "'k \<Rightarrow> 'v \<Rightarrow> ('k \<times> 'v) list \<Rightarrow> ('k \<times> 'v) list" where
  "dict_set k v [] = [(k, v)]"
| "dict_set k v (p # ps) = (if fst p = k then (k, v) # ps else p # dict_set k v ps)"

text \<open>A mutation of the object \<open>currentComp\<close> names.\<close>

definition on_comp :: "(Component \<Rightarrow> Component) \<Rightarrow> unit step" where
  "on_comp g s =
     (case currentComp s of
        None \<Rightarrow> (Inl NameError, s)
      | Some key \<Rightarrow>
          (case map_of (comps s) key of
             None \<Rightarrow> (Inl NameError, s)
           | Some c \<Rightarrow> (Inr (), s\<lparr>comps := dict_set key (g c) (comps s)\<rparr>)))"

text \<open>A mutation of the object \<open>currentTempl\<close> names.\<close>

definition on_templ :: "(Template \<Rightarrow> Template) \<Rightarrow> unit step" where
  "on_templ g s =
     (case currentTempl s of
        None \<Rightarrow> (Inl NameError, s)
      | Some a \<Rightarrow> (Inr (), s\<lparr>store := (store s)[a := g (store s ! a)]\<rparr>))"

text \<open>\<open>currentTempl = _Template(name)\<close>: a new object with the defaults of the class.\<close>

definition new_templ :: "unit step" where
  "new_templ s =
     (Inr (), s\<lparr>store := store s @
                  [\<lparr>dimi = 0, dimj = 0, dimk = 0, coordSys = [], fI = [], fJ = [], fK = []\<rparr>],
                currentTempl := Some (length (store s))\<rparr>)"

text \<open>\<open>currentComp.templates.append(currentTempl)\<close>\<close>

definition append_templ :: "unit step" where
  "append_templ s =
     (case currentComp s of
        None \<Rightarrow> (Inl NameError, s)
      | Some key \<Rightarrow>
          (case currentTempl s of
             None \<Rightarrow> (Inl NameError, s)
           | Some a \<Rightarrow> on_comp (\<lambda>c. c\<lparr>templates := templates c @ [Some a]\<rparr>) s))"

text \<open>A mutation of the channel \<open>currentChannel\<close>, which sits under \<open>key\<close>.\<close>

definition on_chan :: "string \<Rightarrow> (Channel \<Rightarrow> Channel) \<Rightarrow> unit step" where
  "on_chan key g =
     on_comp (\<lambda>c. case map_of (channels c) key of
                     None \<Rightarrow> c
                   | Some ch \<Rightarrow> c\<lparr>channels := dict_set key (g ch) (channels c)\<rparr>)"

text \<open>The body of one block type, after the type, the revision and the size.\<close>

definition block_GCHd :: "string \<Rightarrow> unit step" where
  "block_GCHd f =
     seq (rd (unpack_int f)) (\<lambda>compID.
     seq (rd (unpack_int f)) (\<lambda>_.
     seq (rd (unpack_string f)) (\<lambda>compType.
     seq (\<lambda>s. (Inr (), s\<lparr>comps := dict_set (compID, strip compType)
                                    \<lparr>channels = [], templates = []\<rparr> (comps s),
                             currentComp := Some (compID, strip compType)\<rparr>)) (\<lambda>_.
     seq (rd (unpack_string f)) (\<lambda>title.
     seq (rd (unpack_int f)) (\<lambda>dim.
     seq (rd (unpack_int f)) (\<lambda>nTempl.
     seq (on_comp (\<lambda>c. c\<lparr>templates := templates c @ [None]\<rparr>)) (\<lambda>_.
     seq (rd (unpack_farray 7 (unpack_int f))) (\<lambda>_. ret ())))))))))"

definition block_GD3D :: "string \<Rightarrow> unit step" where
  "block_GD3D f =
     seq new_templ (\<lambda>_.
     seq (rd (unpack_int f)) (\<lambda>nCells.
     seq (rd (unpack_int f)) (\<lambda>nCellsI.
     seq (rd (unpack_int f)) (\<lambda>nCellsJ.
     seq (rd (unpack_int f)) (\<lambda>nCellsK.
     seq (on_templ (\<lambda>t. t\<lparr>dimi := nCellsI, dimj := nCellsJ, dimk := nCellsK\<rparr>)) (\<lambda>_.
     seq (rd (unpack_farray 3 (unpack_int f))) (\<lambda>_.
     seq (rd (unpack_string f)) (\<lambda>cs.
       on_templ (\<lambda>t. t\<lparr>coordSys := strip cs\<rparr>)))))))))"

definition block_GD3A :: "string \<Rightarrow> unit step" where
  "block_GD3A f =
     seq (rd (unpack_array f (unpack_double f))) (\<lambda>a.
     seq (on_templ (\<lambda>t. t\<lparr>fI := a\<rparr>)) (\<lambda>_.
     seq (rd (unpack_array f (unpack_double f))) (\<lambda>b.
     seq (on_templ (\<lambda>t. t\<lparr>fJ := b\<rparr>)) (\<lambda>_.
     seq (rd (unpack_array f (unpack_double f))) (\<lambda>c.
     seq (on_templ (\<lambda>t. t\<lparr>fK := c\<rparr>)) (\<lambda>_.
     seq (rd (unpack_array f (unpack_double f))) (\<lambda>grav.
     seq (on_templ (\<lambda>t. t)) (\<lambda>_.
       append_templ))))))))"

definition block_GD2D :: "string \<Rightarrow> unit step" where
  "block_GD2D f =
     seq new_templ (\<lambda>_.
     seq (rd (unpack_int f)) (\<lambda>nCells.
     seq (rd (unpack_int f)) (\<lambda>nCellsI.
     seq (rd (unpack_int f)) (\<lambda>nCellsJ.
     seq (on_templ (\<lambda>t. t\<lparr>dimi := nCellsI, dimj := nCellsJ\<rparr>)) (\<lambda>_.
     seq (rd (unpack_farray 2 (unpack_int f))) (\<lambda>_.
     seq (rd (unpack_string f)) (\<lambda>cs.
       on_templ (\<lambda>t. t\<lparr>coordSys := strip cs\<rparr>))))))))"

definition block_GD2A :: "string \<Rightarrow> unit step" where
  "block_GD2A f =
     seq (rd (unpack_array f (unpack_double f))) (\<lambda>a.
     seq (on_templ (\<lambda>t. t\<lparr>fI := a\<rparr>)) (\<lambda>_.
     seq (rd (unpack_array f (unpack_double f))) (\<lambda>b.
     seq (on_templ (\<lambda>t. t\<lparr>fJ := b\<rparr>)) (\<lambda>_.
     seq (rd (unpack_array f (unpack_double f))) (\<lambda>grav.
     seq (on_templ (\<lambda>t. t)) (\<lambda>_.
       append_templ))))))"

definition block_GD1D :: "string \<Rightarrow> unit step" where
  "block_GD1D f =
     seq new_templ (\<lambda>_.
     seq (rd (unpack_int f)) (\<lambda>nCells.
     seq (on_templ (\<lambda>t. t\<lparr>dimi := nCells\<rparr>)) (\<lambda>_.
     seq (rd (unpack_int f)) (\<lambda>dynAxI. ret ()))))"

definition block_GD1A :: "string \<Rightarrow> unit step" where
  "block_GD1A f =
     seq (rd (unpack_array f (unpack_double f))) (\<lambda>a.
     seq (on_templ (\<lambda>t. t\<lparr>fI := a\<rparr>)) (\<lambda>_.
     seq (rd (unpack_array f (unpack_double f))) (\<lambda>grav.
     seq (on_templ (\<lambda>t. t)) (\<lambda>_.
     seq (rd (unpack_array f (unpack_double f))) (\<lambda>fa.
     seq (on_templ (\<lambda>t. t)) (\<lambda>_.
       append_templ))))))"

definition block_GDLg :: "string \<Rightarrow> unit step" where
  "block_GDLg f =
     seq (rd (unpack_farray 3 (unpack_int f))) (\<lambda>_. on_comp (\<lambda>c. c))"

definition block_DsAx :: "string \<Rightarrow> unit step" where
  "block_DsAx f =
     seq (rd (unpack_farray 4 (unpack_string f))) (\<lambda>_.
     seq (rd (unpack_int f)) (\<lambda>vMax. on_comp (\<lambda>c. c)))"

definition block_VARD :: "string \<Rightarrow> unit step" where
  "block_VARD f =
     seq (rd (unpack_string f)) (\<lambda>varName.
     seq (\<lambda>s. on_comp (\<lambda>c. c\<lparr>channels := dict_set (strip varName)
                  \<lparr>startIncrement = recordLength s, dimPosAt = None, freqAt = None,
                    vTmpl = None, vLength = None\<rparr> (channels c)\<rparr>) s) (\<lambda>_.
     seq (rd (unpack_farray 3 (unpack_string f))) (\<lambda>_.
     seq (rd (unpack_string f)) (\<lambda>d.
     seq (on_chan (strip varName) (\<lambda>ch. ch\<lparr>dimPosAt := Some d\<rparr>)) (\<lambda>_.
     seq (rd (unpack_string f)) (\<lambda>fr.
     seq (on_chan (strip varName) (\<lambda>ch. ch\<lparr>freqAt := Some fr\<rparr>)) (\<lambda>_.
     seq (rd (unpack_farray 4 (unpack_string f))) (\<lambda>_.
     seq (rd (unpack_int f)) (\<lambda>vt.
     seq (on_chan (strip varName) (\<lambda>ch. ch\<lparr>vTmpl := Some vt\<rparr>)) (\<lambda>_.
     seq (rd (unpack_int f)) (\<lambda>vl.
     seq (on_chan (strip varName) (\<lambda>ch. ch\<lparr>vLength := Some vl\<rparr>)) (\<lambda>_.
       if fr = ''TD''
       then (\<lambda>s. (Inr (), s\<lparr>recordLength := recordLength s + vl * 4\<rparr>))
       else ret ()))))))))))))"

text \<open>\<open>self.up.set_position(start + jump)\<close>\<close>

definition set_position :: "int \<Rightarrow> unit step" where
  "set_position p s = (if p < 0 then (Inl IOError, s) else (Inr (), s\<lparr>pos := nat p\<rparr>))"

text \<open>
  One turn of the \<open>while True\<close> loop: \<open>True\<close> where the block is \<open>DATA\<close> and the loop
  breaks.
\<close>

definition read_block :: "string \<Rightarrow> bool step" where
  "read_block f =
     (\<lambda>s0.
     (seq (rd (unpack_string f)) (\<lambda>blockType.
      seq (rd (unpack_int f)) (\<lambda>revision.
      seq (rd (unpack_int f)) (\<lambda>jump.
        if blockType = ''DATA'' then ret True
        else
          seq (if blockType = ''GCHd'' then block_GCHd f
               else if blockType = ''GD3D'' then block_GD3D f
               else if blockType = ''GD3A'' then block_GD3A f
               else if blockType = ''GD2D'' then block_GD2D f
               else if blockType = ''GD2A'' then block_GD2A f
               else if blockType = ''GD1D'' then block_GD1D f
               else if blockType = ''GD1A'' then block_GD1A f
               else if blockType = ''GDLg'' then block_GDLg f
               else if blockType = ''DsAx'' then block_DsAx f
               else if blockType = ''VARD'' then block_VARD f
               else ret ()) (\<lambda>_.
          seq (set_position (int (pos s0) + jump)) (\<lambda>_. ret False)))))) s0)"

text \<open>
  The loop. Nothing bounds the number of blocks (a block of size 0 is read again for
  ever), so the loop has fuel: \<open>None\<close> is a loop that has not ended when the fuel has.
  \<open>Some (Inl e)\<close> is the exception that ended it, \<open>Some (Inr ())\<close> the \<open>break\<close>.
\<close>

fun block_loop :: "string \<Rightarrow> nat \<Rightarrow> init_state \<Rightarrow> (error + unit) option \<times> init_state" where
  "block_loop f 0 s = (None, s)"
| "block_loop f (Suc n) s =
     (case read_block f s of
        (Inl e, s') \<Rightarrow> (Some (Inl e), s')
      | (Inr True, s') \<Rightarrow> (Some (Inr ()), s')
      | (Inr False, s') \<Rightarrow> block_loop f n s')"

text \<open>
  The starting block: a string, 17 ints and 7 strings, of which \<open>dataStart\<close>,
  \<open>dataLen\<close> and \<open>nPoints\<close> are ints 10, 11 and 12 and \<open>fmtString\<close> is the first of
  the 7 strings.
\<close>

definition unpack_StartingBlock :: "string \<Rightarrow> nat \<Rightarrow> (error + StartingBlock) \<times> nat" where
  "unpack_StartingBlock f p =
     (case unpack_string f p of
        (Inl e, p1) \<Rightarrow> (Inl e, p1)
      | (Inr hdrString, p1) \<Rightarrow>
          (case unpack_farray 17 (unpack_int f) p1 of
             (Inl e, p2) \<Rightarrow> (Inl e, p2)
           | (Inr ints, p2) \<Rightarrow>
               (case unpack_farray 7 (unpack_string f) p2 of
                  (Inl e, p3) \<Rightarrow> (Inl e, p3)
                | (Inr strs, p3) \<Rightarrow>
                    (Inr \<lparr>dataStart = ints ! 10, dataLen = ints ! 11, nPoints = ints ! 12,
                          fmtString = strs ! 0\<rparr>, p3))))"

text \<open>The first error of a list of results, or all the values.\<close>

fun collect :: "(error + 'a) list \<Rightarrow> error + 'a list" where
  "collect [] = Inr []"
| "collect (r # rs) = bnd r (\<lambda>v. bnd (collect rs) (\<lambda>vs. Inr (v # vs)))"

text \<open>The loop that fills \<open>self.times\<close> (lines 402 to 404).\<close>

definition read_times :: "string \<Rightarrow> StartingBlock \<Rightarrow> error + real list" where
  "read_times f sb =
     collect (map (\<lambda>i. unpack_float_at f (dataStart sb + int i * dataLen sb + 20))
                  [0 ..< nat (nPoints sb)])"

text \<open>
  \<open>XtvFile.__init__\<close>, on the bytes of the file: \<open>None\<close> where the block loop has not
  ended within the fuel, \<open>Some (Inl e)\<close> where the constructor raises \<open>e\<close>,
  \<open>Some (Inr self)\<close> where it returns. The attribute \<open>opened\<close> is \<open>None\<close> until it is
  assigned. Where the starting block cannot be unpacked the exception is caught and
  printed, \<open>self.SB\<close> does not exist, and the next statement raises AttributeError.
\<close>

definition XtvFile_init :: "nat \<Rightarrow> string \<Rightarrow> (error + XtvFile) option" where
  "XtvFile_init fuel f =
     (case unpack_StartingBlock f 0 of
        (Inl e, p) \<Rightarrow> Some (Inl AttributeError)
      | (Inr sb, p) \<Rightarrow>
          (let self0 = \<lparr>xtvFile = f, components = [], templ_store = [], times = [], SB = sb,
                        opened = None\<rparr>
           in if fmtString sb \<noteq> ''MUX'' then Some (Inr self0)
              else
                (case block_loop f fuel
                        \<lparr>pos = p, comps = [], store = [], currentComp = None,
                         currentTempl = None, recordLength = 24\<rparr> of
                   (None, s) \<Rightarrow> None
                 | (Some r, s) \<Rightarrow>
                     (let self1 = self0\<lparr>components := comps s, templ_store := store s\<rparr>;
                          self2 = (case r of Inl e \<Rightarrow> self1\<lparr>opened := Some False\<rparr>
                                   | Inr _ \<Rightarrow> self1)
                      in case read_times f sb of
                           Inl e \<Rightarrow> Some (Inl e)
                         | Inr ts \<Rightarrow> Some (Inr (self2\<lparr>times := ts, opened := Some True\<rparr>))))))"

subsection \<open>An example file\<close>

text \<open>
  A small XTV file, written field by field with the encoders of XDR (a 4-byte
  big-endian int; a string as its length and its bytes padded to a multiple of 4; an
  array as its count and its items; a float or a double as its IEEE 754 bit pattern).
  A block is its type, a revision, its size, and its body.
\<close>

definition xdr_int :: "int \<Rightarrow> string" where
  "xdr_int n = map (\<lambda>k. char_of ((n mod 2 ^ 32) div 256 ^ k)) [3, 2, 1, 0]"

definition xdr_string :: "string \<Rightarrow> string" where
  "xdr_string s =
     xdr_int (int (length s)) @ s @ replicate ((4 - length s mod 4) mod 4) (CHR 0x00)"

definition xdr_double :: "int \<Rightarrow> string" where
  "xdr_double w = xdr_int (w div 2 ^ 32) @ xdr_int (w mod 2 ^ 32)"

definition xdr_array :: "string list \<Rightarrow> string" where
  "xdr_array items = xdr_int (int (length items)) @ concat items"

definition xdr_block :: "string \<Rightarrow> string \<Rightarrow> string" where
  "xdr_block blockType body =
     xdr_string blockType @ xdr_int 0 @ xdr_int (16 + int (length body)) @ body"

definition ex_GCHd :: "int \<Rightarrow> string \<Rightarrow> string" where
  "ex_GCHd compID compType =
     xdr_block ''GCHd''
       (xdr_int compID @ xdr_int 0 @ xdr_string compType @ xdr_string [] @ xdr_int 1 @
        xdr_int 1 @ concat (replicate 7 (xdr_int 0)))"

definition ex_VARD :: "string \<Rightarrow> string \<Rightarrow> int \<Rightarrow> int \<Rightarrow> string" where
  "ex_VARD varName d tmplInd vLen =
     xdr_block ''VARD''
       (xdr_string varName @ concat (replicate 3 (xdr_string [])) @ xdr_string d @
        xdr_string ''TD'' @ concat (replicate 4 (xdr_string [])) @ xdr_int tmplInd @
        xdr_int vLen)"

text \<open>
  The components: a pipe of two cells with a scalar, a cell-centred and a face
  variable; a heat structure under both of its types, the second with the fine-mesh
  heights \<open>zht\<close>; a vessel of 2 by 2 by 2 cells. The doubles are \<open>0\<close>, \<open>0.5\<close>
  (\<open>0x3FE0000000000000\<close>), \<open>1\<close> (\<open>0x3FF0000000000000\<close>), \<open>2\<close>
  (\<open>0x4000000000000000\<close>), \<open>1024.00048828125\<close> (\<open>0x4090000080000000\<close>) and
  \<open>2048.5\<close> (\<open>0x40A0010000000000\<close>).
\<close>

definition ex_blocks :: string where
  "ex_blocks =
     ex_GCHd 500 ''pipe'' @
     xdr_block ''GD1D'' (xdr_int 2 @ xdr_int 0) @
     xdr_block ''GD1A''
       (xdr_array [xdr_double 0, xdr_double 0x4090000080000000, xdr_double 0x40A0010000000000] @
        xdr_array [] @ xdr_array []) @
     ex_VARD ''tmass'' ''0D'' 0 1 @
     ex_VARD ''pn'' ''1dCc'' 1 2 @
     ex_VARD ''vln'' ''1dFa'' 1 3 @
     ex_GCHd 140 ''htstr'' @
     xdr_block ''GD2D''
       (xdr_int 1 @ xdr_int 1 @ xdr_int 1 @ xdr_int 0 @ xdr_int 0 @ xdr_string ''CYLRZ'') @
     xdr_block ''GD2A''
       (xdr_array [xdr_double 0, xdr_double 0x3FE0000000000000] @
        xdr_array [xdr_double 0, xdr_double 0x3FF0000000000000] @ xdr_array []) @
     ex_VARD ''tw'' ''2dCc'' 1 2 @
     ex_GCHd 140 ''htstrc'' @
     xdr_block ''GD2D''
       (xdr_int 1 @ xdr_int 1 @ xdr_int 1 @ xdr_int 0 @ xdr_int 0 @ xdr_string ''CYLRZ'') @
     xdr_block ''GD2A''
       (xdr_array [xdr_double 0, xdr_double 0x3FE0000000000000] @
        xdr_array [xdr_double 0, xdr_double 0x3FF0000000000000] @ xdr_array []) @
     ex_VARD ''zht'' ''1dFa'' 1 2 @
     ex_GCHd 200 ''vessel'' @
     xdr_block ''GD3D''
       (xdr_int 8 @ xdr_int 2 @ xdr_int 2 @ xdr_int 2 @ xdr_int 0 @ xdr_int 0 @ xdr_int 0 @
        xdr_string ''CYL3D'') @
     xdr_block ''GD3A''
       (xdr_array [xdr_double 0, xdr_double 0x3FE0000000000000, xdr_double 0x3FF0000000000000] @
        xdr_array [xdr_double 0, xdr_double 0x3FF0000000000000, xdr_double 0x4000000000000000] @
        xdr_array [xdr_double 0, xdr_double 0x3FF0000000000000, xdr_double 0x4000000000000000] @
        xdr_array []) @
     ex_VARD ''pn'' ''3dCc'' 1 8 @
     xdr_block ''DATA'' []"

text \<open>
  The starting block for a file of \<open>n\<close> time records: the blocks follow its 108
  bytes, the data follow the blocks, a record is 96 bytes.
\<close>

definition ex_start :: "int \<Rightarrow> string" where
  "ex_start n =
     xdr_string ''XTV'' @
     concat (map xdr_int
       [1, 0, 0, 0, 0, 4, 0, 0, 0, 0, 108 + int (length ex_blocks), 96, n, 2, 0, 0, 0]) @
     xdr_string ''MUX'' @ concat (replicate 6 (xdr_string []))"

text \<open>
  A time record: 20 bytes, then the time, \<open>tmass\<close>, \<open>pn\<close> (2), \<open>vln\<close> (3), \<open>tw\<close>
  (2), \<open>zht\<close> (2) and the vessel's \<open>pn\<close> (8), as floats. The floats are \<open>-1\<close>
  (\<open>0xBF800000\<close>), \<open>0\<close>, \<open>0.125\<close> (\<open>0x3E000000\<close>), \<open>0.25\<close> (\<open>0x3E800000\<close>),
  \<open>0.5\<close> (\<open>0x3F000000\<close>), \<open>1\<close> (\<open>0x3F800000\<close>), \<open>2\<close> (\<open>0x40000000\<close>),
  \<open>3\<close> (\<open>0x40400000\<close>), \<open>4\<close> (\<open>0x40800000\<close>), \<open>5\<close> (\<open>0x40A00000\<close>),
  \<open>6\<close> (\<open>0x40C00000\<close>), \<open>7\<close> (\<open>0x40E00000\<close>), \<open>8\<close> (\<open>0x41000000\<close>),
  \<open>16\<close> (\<open>0x41800000\<close>), \<open>32\<close> (\<open>0x42000000\<close>) and \<open>64\<close> (\<open>0x42800000\<close>).
\<close>

definition ex_record :: "int list \<Rightarrow> string" where
  "ex_record ws = concat (replicate 5 (xdr_int 0)) @ concat (map xdr_int ws)"

definition ex_vessel_pn :: "int list" where
  "ex_vessel_pn =
     [0x3F800000, 0x40000000, 0x40400000, 0x40800000,
      0x40A00000, 0x40C00000, 0x40E00000, 0x41000000]"

text \<open>File A: the times 1, 2, 4.\<close>

definition ex_fileA :: string where
  "ex_fileA =
     ex_start 3 @ ex_blocks @
     ex_record ([0x3F800000, 0x41000000, 0x3F800000, 0x3F000000, 0, 0x3F800000, 0x40000000,
                 0x40400000, 0x40A00000, 0x3F000000, 0xBF800000] @ ex_vessel_pn) @
     ex_record ([0x40000000, 0x41800000, 0x40000000, 0x3E800000, 0, 0x40000000, 0x40800000,
                 0x40C00000, 0x40E00000, 0x3F000000, 0x3F800000] @ ex_vessel_pn) @
     ex_record ([0x40800000, 0x42000000, 0x40800000, 0x3E000000, 0, 0x40800000, 0x41000000,
                 0x41000000, 0x41800000, 0x3F000000, 0x3F800000] @ ex_vessel_pn)"

text \<open>File B: the times -1, 0, 2, 2.\<close>

definition ex_fileB :: string where
  "ex_fileB =
     ex_start 4 @ ex_blocks @
     ex_record ([0xBF800000, 0x41000000, 0x3F800000, 0x3F000000, 0, 0x3F800000, 0x40000000,
                 0x40400000, 0x40A00000, 0x3F000000, 0xBF800000] @ ex_vessel_pn) @
     ex_record ([0, 0x41800000, 0x40000000, 0x3E800000, 0, 0x40000000, 0x40800000,
                 0x40C00000, 0x40E00000, 0x3F000000, 0x3F800000] @ ex_vessel_pn) @
     ex_record ([0x40000000, 0x42000000, 0x40800000, 0x3E000000, 0, 0x40800000, 0x41000000,
                 0x41000000, 0x41800000, 0x3F000000, 0x3F800000] @ ex_vessel_pn) @
     ex_record ([0x40000000, 0x42800000, 0x41000000, 0x3E000000, 0, 0x40800000, 0x41000000,
                 0x41000000, 0x41800000, 0x3E800000, 0xBF800000] @ ex_vessel_pn)"

text \<open>File C: the starting block alone, of a run that has written no record yet.\<close>

definition ex_fileC :: string where
  "ex_fileC = ex_start 0"

text \<open>The header model of files A and B, for the bytes, the times and their number.\<close>

definition ex_pipe :: Component where
  "ex_pipe =
     \<lparr>channels =
        [(''tmass'', \<lparr>startIncrement = 24, dimPosAt = Some ''0D'', freqAt = Some ''TD'',
                       vTmpl = Some 0, vLength = Some 1\<rparr>),
         (''pn'', \<lparr>startIncrement = 28, dimPosAt = Some ''1dCc'', freqAt = Some ''TD'',
                    vTmpl = Some 1, vLength = Some 2\<rparr>),
         (''vln'', \<lparr>startIncrement = 36, dimPosAt = Some ''1dFa'', freqAt = Some ''TD'',
                     vTmpl = Some 1, vLength = Some 3\<rparr>)],
      templates = [None, Some 0]\<rparr>"

definition ex_htstr :: Component where
  "ex_htstr =
     \<lparr>channels =
        [(''tw'', \<lparr>startIncrement = 48, dimPosAt = Some ''2dCc'', freqAt = Some ''TD'',
                    vTmpl = Some 1, vLength = Some 2\<rparr>)],
      templates = [None, Some 1]\<rparr>"

definition ex_htstrc :: Component where
  "ex_htstrc =
     \<lparr>channels =
        [(''zht'', \<lparr>startIncrement = 56, dimPosAt = Some ''1dFa'', freqAt = Some ''TD'',
                     vTmpl = Some 1, vLength = Some 2\<rparr>)],
      templates = [None, Some 2]\<rparr>"

definition ex_vessel :: Component where
  "ex_vessel =
     \<lparr>channels =
        [(''pn'', \<lparr>startIncrement = 64, dimPosAt = Some ''3dCc'', freqAt = Some ''TD'',
                    vTmpl = Some 1, vLength = Some 8\<rparr>)],
      templates = [None, Some 3]\<rparr>"

definition ex_templates :: "Template list" where
  "ex_templates =
     [\<lparr>dimi = 2, dimj = 0, dimk = 0, coordSys = [],
       fI = [0, 1024.00048828125, 2048.5], fJ = [], fK = []\<rparr>,
      \<lparr>dimi = 1, dimj = 1, dimk = 0, coordSys = ''CYLRZ'',
       fI = [0, 0.5], fJ = [0, 1], fK = []\<rparr>,
      \<lparr>dimi = 1, dimj = 1, dimk = 0, coordSys = ''CYLRZ'',
       fI = [0, 0.5], fJ = [0, 1], fK = []\<rparr>,
      \<lparr>dimi = 2, dimj = 2, dimk = 2, coordSys = ''CYL3D'',
       fI = [0, 0.5, 1], fJ = [0, 1, 2], fK = [0, 1, 2]\<rparr>]"

definition ex_xtv :: "string \<Rightarrow> real list \<Rightarrow> int \<Rightarrow> XtvFile" where
  "ex_xtv f ts n =
     \<lparr>xtvFile = f,
      components = [((500, ''pipe''), ex_pipe), ((140, ''htstr''), ex_htstr),
                    ((140, ''htstrc''), ex_htstrc), ((200, ''vessel''), ex_vessel)],
      templ_store = ex_templates,
      times = ts,
      SB = \<lparr>dataStart = 1336, dataLen = 96, nPoints = n, fmtString = ''MUX''\<rparr>,
      opened = Some True\<rparr>"

definition ex_xtvA :: XtvFile where
  "ex_xtvA = ex_xtv ex_fileA [1, 2, 4] 3"

definition ex_xtvB :: XtvFile where
  "ex_xtvB = ex_xtv ex_fileB [- 1, 0, 2, 2] 4"

subsection \<open>Significant digits\<close>

text \<open>
  What the specification says of the axial locations: a number rounded to \<open>n\<close>
  significant decimal digits has a decimal expansion of at most \<open>n\<close> digits from
  its first nonzero digit to its last, which is to be \<open>m\<close> times a power of ten
  for an integer \<open>m\<close> of at most \<open>n\<close> digits.
\<close>

definition sig_digits :: "nat \<Rightarrow> real \<Rightarrow> bool" where
  "sig_digits n x = (\<exists>m e. \<bar>m\<bar> < 10 ^ n \<and> x = real_of_int m * 10 powi e)"

section \<open>Properties\<close>

subsection \<open>Tools\<close>

lemma bnd_Inl [simp]: "bnd (Inl e) g = Inl e"
  by (simp add: bnd_def)

lemma bnd_Inr [simp]: "bnd (Inr v) g = g v"
  by (simp add: bnd_def)

lemma attr_Some [simp]: "attr (Some v) = Inr v"
  by (simp add: attr_def)

lemma attr_None [simp]: "attr None = Inl AttributeError"
  by (simp add: attr_def)

lemma py_index_nat: "n < length xs \<Longrightarrow> py_index xs (int n) = Inr (xs ! n)"
  by (simp add: py_index_def)

lemma py_index_first: "xs \<noteq> [] \<Longrightarrow> py_index xs 0 = Inr (hd xs)"
  by (cases xs) (simp_all add: py_index_def)

lemma py_index_last: "xs \<noteq> [] \<Longrightarrow> py_index xs (- 1) = Inr (last xs)"
proof -
  assume ne: "xs \<noteq> []"
  then have l: "Suc 0 \<le> length xs" by (cases xs) simp_all
  then have "nat (int (length xs) - 1) = length xs - 1" by simp
  with ne l show ?thesis by (simp add: py_index_def last_conv_nth)
qed

lemma py_index_empty: "py_index [] i = Inl IndexError"
  by (simp add: py_index_def)

text \<open>On a sorted list the binary search finds the number of entries at or below \<open>x\<close>.\<close>

lemma bisect_loop_bounds:
  assumes "sorted a" and "lo \<le> hi" and "hi \<le> length a"
      and "\<forall>i<lo. a ! i \<le> x" and "\<forall>i. hi \<le> i \<and> i < length a \<longrightarrow> x < a ! i"
  shows "bisect_loop a x lo hi \<le> length a \<and>
         (\<forall>i<bisect_loop a x lo hi. a ! i \<le> x) \<and>
         (\<forall>i. bisect_loop a x lo hi \<le> i \<and> i < length a \<longrightarrow> x < a ! i)"
  using assms
proof (induction a x lo hi rule: bisect_loop.induct)
  case (1 a x lo hi)
  let ?mid = "(lo + hi) div 2"
  show ?case
  proof (cases "lo < hi")
    case False
    with "1.prems" have "lo = hi" by simp
    with False "1.prems" show ?thesis by (simp add: bisect_loop.simps)
  next
    case lt: True
    then have mid: "lo \<le> ?mid" "?mid < hi" by auto
    show ?thesis
    proof (cases "x < a ! ?mid")
      case True
      have "\<forall>i. ?mid \<le> i \<and> i < length a \<longrightarrow> x < a ! i"
      proof (intro allI impI)
        fix i assume "?mid \<le> i \<and> i < length a"
        then have "a ! ?mid \<le> a ! i" using "1.prems"(1) by (simp add: sorted_iff_nth_mono)
        with True show "x < a ! i" by simp
      qed
      with "1.IH"(1) [OF lt True] "1.prems" mid lt True show ?thesis
        by (simp add: bisect_loop.simps [of a x lo hi])
    next
      case False
      have "\<forall>i<?mid + 1. a ! i \<le> x"
      proof (intro allI impI)
        fix i assume "i < ?mid + 1"
        then have "a ! i \<le> a ! ?mid" using "1.prems"(1,3) mid
          by (simp add: sorted_iff_nth_mono)
        with False show "a ! i \<le> x" by simp
      qed
      with "1.IH"(2) [OF lt False] "1.prems" mid lt False show ?thesis
        by (simp add: bisect_loop.simps [of a x lo hi])
    qed
  qed
qed

lemma bisect_right_sorted:
  assumes "sorted a" and "r \<le> length a"
      and "\<forall>i<r. a ! i \<le> x" and "\<forall>i. r \<le> i \<and> i < length a \<longrightarrow> x < a ! i"
  shows "bisect_right a x = int r"
proof -
  let ?b = "bisect_loop a x 0 (length a)"
  have b: "?b \<le> length a" "\<forall>i<?b. a ! i \<le> x" "\<forall>i. ?b \<le> i \<and> i < length a \<longrightarrow> x < a ! i"
    using bisect_loop_bounds [OF assms(1), of 0 "length a" x] by simp_all
  have "\<not> ?b < r"
  proof
    assume "?b < r"
    then have "a ! ?b \<le> x" "x < a ! ?b" using assms(2,3) b(3) by auto
    then show False by simp
  qed
  moreover have "\<not> r < ?b"
  proof
    assume "r < ?b"
    then have "a ! r \<le> x" "x < a ! r" using assms(4) b(1,2) by auto
    then show False by simp
  qed
  ultimately show ?thesis by (simp add: bisect_right_def)
qed

lemma bisect_right_last_le:
  assumes "sorted a" and "r < length a" and "a ! r \<le> x"
      and "\<forall>i. r < i \<and> i < length a \<longrightarrow> x < a ! i"
  shows "bisect_right a x = int r + 1"
proof -
  have "\<forall>i<Suc r. a ! i \<le> x"
  proof (intro allI impI)
    fix i assume "i < Suc r"
    then have "a ! i \<le> a ! r"
      using assms(1,2) by (intro sorted_nth_mono) simp_all
    with assms(3) show "a ! i \<le> x" by simp
  qed
  moreover have "\<forall>i. Suc r \<le> i \<and> i < length a \<longrightarrow> x < a ! i"
    using assms(4) by (simp add: Suc_le_eq)
  moreover have "Suc r \<le> length a"
    using assms(2) by simp
  ultimately have "bisect_right a x = int (Suc r)"
    using assms(1) by (intro bisect_right_sorted)
  then show ?thesis by simp
qed

text \<open>The time checks.\<close>

lemma latch_time_negative: "ts \<noteq> [] \<Longrightarrow> time < 0 \<Longrightarrow> latch_time ts time = Inr (last ts)"
  by (simp add: latch_time_def py_index_last)

lemma latch_time_after: "ts \<noteq> [] \<Longrightarrow> 0 \<le> time \<Longrightarrow> last ts < time \<Longrightarrow>
    latch_time ts time = Inl (XTVError TIME_UBOUND_ERR)"
  by (simp add: latch_time_def py_index_last)

lemma latch_time_before: "ts \<noteq> [] \<Longrightarrow> 0 \<le> time \<Longrightarrow> time \<le> last ts \<Longrightarrow> time < hd ts \<Longrightarrow>
    latch_time ts time = Inl (XTVError TIME_LBOUND_ERR)"
  by (simp add: latch_time_def py_index_last py_index_first)

lemma latch_time_inside: "ts \<noteq> [] \<Longrightarrow> 0 \<le> time \<Longrightarrow> time \<le> last ts \<Longrightarrow> hd ts \<le> time \<Longrightarrow>
    latch_time ts time = Inr time"
  by (simp add: latch_time_def py_index_last py_index_first)

lemma sorted_hd_le_nth: "sorted ts \<Longrightarrow> r < length ts \<Longrightarrow> hd ts \<le> ts ! r"
  using sorted_nth_mono [of ts 0 r] by (cases ts) (simp_all add: hd_conv_nth)

lemma sorted_nth_le_last: "sorted ts \<Longrightarrow> r < length ts \<Longrightarrow> ts ! r \<le> last ts"
  using sorted_nth_mono [of ts r "length ts - 1"] by (cases "ts = []") (simp_all add: last_conv_nth)

text \<open>The ways through the second half of \<open>getData\<close> on an ascending time index.\<close>

lemma read_at_time_exact:
  assumes "sorted (times self)" and "0 \<le> t" and "r < length (times self)"
      and "times self ! r = t"
      and "\<forall>r'. r < r' \<and> r' < length (times self) \<longrightarrow> times self ! r' \<noteq> t"
  shows "read_at_time self sp t = unpack_float_at (xtvFile self) (record_offset self (int r) sp)"
proof -
  let ?ts = "times self"
  have ne: "?ts \<noteq> []" using assms(3) by auto
  have l: "latch_time ?ts t = Inr t"
    using ne assms(1-4) sorted_hd_le_nth [of ?ts r] sorted_nth_le_last [of ?ts r]
    by (simp add: latch_time_inside)
  have lower: "\<forall>i<Suc r. ?ts ! i \<le> t"
    using assms(1,3,4) by (auto simp: sorted_iff_nth_mono)
  have upper: "\<forall>i. Suc r \<le> i \<and> i < length ?ts \<longrightarrow> t < ?ts ! i"
  proof (intro allI impI)
    fix i assume i: "Suc r \<le> i \<and> i < length ?ts"
    then have "?ts ! r \<le> ?ts ! i" using assms(1) by (simp add: sorted_iff_nth_mono)
    moreover have "?ts ! i \<noteq> t" using assms(5) i by auto
    ultimately show "t < ?ts ! i" using assms(4) by simp
  qed
  have b: "bisect_right ?ts t = int (Suc r)"
    using assms(1,3) lower upper by (intro bisect_right_sorted) simp_all
  show ?thesis
    using assms(3,4) by (simp add: read_at_time_def l b py_index_nat)
qed

lemma read_at_time_between:
  assumes "sorted (times self)" and "0 \<le> t" and "Suc r < length (times self)"
      and "times self ! r < t" and "t < times self ! Suc r"
  shows "read_at_time self sp t =
         bnd (unpack_float_at (xtvFile self) (record_offset self (int r) sp)) (\<lambda>y1.
         bnd (unpack_float_at (xtvFile self) (record_offset self (int r + 1) sp)) (\<lambda>y2.
           Inr ((y2 - y1) * (t - times self ! r) / (times self ! Suc r - times self ! r) + y1)))"
proof -
  let ?ts = "times self"
  have ne: "?ts \<noteq> []" using assms(3) by auto
  have "hd ?ts \<le> ?ts ! r" "?ts ! Suc r \<le> last ?ts"
    using assms(1,3) sorted_hd_le_nth [of ?ts r] sorted_nth_le_last [of ?ts "Suc r"] by simp_all
  then have l: "latch_time ?ts t = Inr t"
    using ne assms(2,4,5) by (simp add: latch_time_inside)
  have lower: "\<forall>i<Suc r. ?ts ! i \<le> t"
  proof (intro allI impI)
    fix i assume "i < Suc r"
    then have "?ts ! i \<le> ?ts ! r" using assms(1,3) by (simp add: sorted_iff_nth_mono)
    with assms(4) show "?ts ! i \<le> t" by simp
  qed
  have upper: "\<forall>i. Suc r \<le> i \<and> i < length ?ts \<longrightarrow> t < ?ts ! i"
  proof (intro allI impI)
    fix i assume "Suc r \<le> i \<and> i < length ?ts"
    then have "?ts ! Suc r \<le> ?ts ! i" using assms(1) by (simp add: sorted_iff_nth_mono)
    with assms(5) show "t < ?ts ! i" by simp
  qed
  have b: "bisect_right ?ts t = int (Suc r)"
    using assms(1,3) lower upper by (intro bisect_right_sorted) simp_all
  have i1: "py_index ?ts (int r) = Inr (?ts ! r)"
    using assms(3) by (simp add: py_index_nat)
  have i2: "py_index ?ts (1 + int r) = Inr (?ts ! Suc r)"
    using assms(3) py_index_nat [of "Suc r" ?ts] by (simp add: add.commute)
  show ?thesis
    using assms(4,5) by (simp add: read_at_time_def l b i1 i2 interpolate_def add.commute)
qed

lemma read_at_time_negative:
  assumes "sorted (times self)" and "times self \<noteq> []" and "t < 0"
  shows "read_at_time self sp t =
         unpack_float_at (xtvFile self) (record_offset self (int (length (times self)) - 1) sp)"
proof -
  let ?ts = "times self"
  have l: "latch_time ?ts t = Inr (last ?ts)"
    using assms(2,3) by (rule latch_time_negative)
  have "\<forall>i<length ?ts. ?ts ! i \<le> last ?ts"
    using assms(1) by (simp add: sorted_nth_le_last)
  then have b: "bisect_right ?ts (last ?ts) = int (length ?ts)"
    using assms(1) by (intro bisect_right_sorted) simp_all
  have "py_index ?ts (int (length ?ts) - 1) = Inr (last ?ts)"
    using assms(2) by (simp add: py_index_def last_conv_nth nat_diff_distrib')
  then show ?thesis by (simp add: read_at_time_def l b)
qed

lemma read_at_time_after:
  "times self \<noteq> [] \<Longrightarrow> 0 \<le> t \<Longrightarrow> last (times self) < t \<Longrightarrow>
     read_at_time self sp t = Inl (XTVError TIME_UBOUND_ERR)"
  by (simp add: read_at_time_def latch_time_after)

lemma read_at_time_before:
  "times self \<noteq> [] \<Longrightarrow> 0 \<le> t \<Longrightarrow> t \<le> last (times self) \<Longrightarrow> t < hd (times self) \<Longrightarrow>
     read_at_time self sp t = Inl (XTVError TIME_LBOUND_ERR)"
  by (simp add: read_at_time_def latch_time_before)

lemma getData_located:
  "locate_cell self cid compType varName i j k = Inr (ch, cell) \<Longrightarrow>
     getData self time cid compType varName i j k =
     read_at_time self (startIncrement ch + (cell - 1) * 4) time"
  by (simp add: getData_def)

subsection \<open>Doubles\<close>

text \<open>A double is left as it is; a real in the range of the normal doubles is rounded at 53 bits.\<close>

lemma round_half_even_of_int: "round_half_even (of_int n) = n"
  by (simp add: round_half_even_def)

lemma to_double_0: "to_double 0 = 0"
  by (simp add: to_double_def)

lemma to_double_exact:
  assumes "\<bar>m\<bar> < 2 ^ 53" and "- 1074 \<le> k"
  shows "to_double (of_int m * 2 powi k) = of_int m * 2 powi k"
proof (cases "m = 0")
  case True
  then show ?thesis by (simp add: to_double_0)
next
  case False
  define j where "j = nat (k + 1074)"
  define n where "n = \<bar>m\<bar> * 2 ^ j"
  have k: "k = int j - 1074" using assms(2) by (simp add: j_def)
  have p: "(2::real) powi k = 2 ^ j / 2 ^ 1074"
    unfolding k by (simp add: power_int_diff)
  have y: "\<bar>real_of_int m * 2 powi k\<bar> * 2 ^ 1074 = of_int n"
    by (simp add: p n_def abs_mult)
  have "n < 2 ^ 53 * 2 ^ j"
    unfolding n_def using assms(1) by (intro mult_strict_right_mono) simp_all
  then have "n < 2 ^ (53 + j)" by (simp add: power_add)
  then have "bitlen n \<le> int (53 + j)" by (simp add: bitlen_le_iff_power nat_add_distrib)
  then have s: "nat (bitlen n - 53) \<le> j" by simp
  define s where "s = nat (bitlen n - 53)"
  from s have sj: "s \<le> j" by (simp add: s_def)
  have e: "(2::real) ^ j = 2 ^ (j - s) * 2 ^ s"
    using sj by (simp add: power_add [symmetric])
  have d: "real_of_int n / 2 ^ s = of_int (\<bar>m\<bar> * 2 ^ (j - s))"
    by (simp add: n_def e)
  have "to_double (of_int m * 2 powi k) =
      sgn (real_of_int m * 2 powi k) * (of_int (\<bar>m\<bar> * 2 ^ (j - s)) * 2 ^ s / 2 ^ 1074)"
    unfolding to_double_def y Let_def floor_of_int s_def [symmetric] d round_half_even_of_int ..
  also have "\<dots> = sgn (real_of_int m) * (\<bar>real_of_int m\<bar> * 2 ^ j / 2 ^ 1074)"
    by (simp add: sgn_mult e)
  also have "\<dots> = of_int m * 2 powi k"
    by (simp add: p sgn_mult_abs mult.assoc [symmetric])
  finally show ?thesis .
qed

lemma to_double_scaled:
  assumes "2 ^ 52 \<le> \<bar>x\<bar> / 2 powi u" and "\<bar>x\<bar> / 2 powi u < 2 ^ 53" and "- 1074 \<le> u"
  shows "to_double x = sgn x * (of_int (round_half_even (\<bar>x\<bar> / 2 powi u)) * 2 powi u)"
proof -
  define j where "j = nat (u + 1074)"
  have u: "u = int j - 1074" using assms(3) by (simp add: j_def)
  have p: "(2::real) powi u = 2 ^ j / 2 ^ 1074"
    unfolding u by (simp add: power_int_diff)
  define y where "y = \<bar>x\<bar> * 2 ^ 1074"
  have q: "\<bar>x\<bar> / 2 powi u = y / 2 ^ j"
    by (simp add: p y_def)
  have lo: "2 ^ (52 + j) \<le> y" and hi: "y < 2 ^ (53 + j)"
    using assms(1,2) unfolding q by (simp_all add: power_add field_simps)
  have flo: "2 ^ (52 + j) \<le> \<lfloor>y\<rfloor>"
  proof -
    have "real_of_int (2 ^ (52 + j)) \<le> y" using lo by simp
    then show ?thesis by (simp only: le_floor_iff)
  qed
  have fhi: "\<lfloor>y\<rfloor> < 2 ^ (53 + j)"
  proof -
    have "y < real_of_int (2 ^ (53 + j))" using hi by simp
    then show ?thesis by (simp only: floor_less_iff)
  qed
  have "bitlen \<lfloor>y\<rfloor> \<le> int (53 + j)"
    using fhi by (simp add: bitlen_le_iff_power nat_add_distrib)
  moreover have "\<not> bitlen \<lfloor>y\<rfloor> \<le> int (52 + j)"
    using flo by (simp add: bitlen_le_iff_power nat_add_distrib)
  ultimately have "bitlen \<lfloor>y\<rfloor> = 53 + int j" by simp
  then have s: "nat (bitlen \<lfloor>y\<rfloor> - 53) = j" by simp
  show ?thesis
    unfolding to_double_def Let_def y_def [symmetric] s q
    by (simp add: p)
qed

text \<open>What a double is, for the numbers of the example files.\<close>

lemma to_double_dyadic:
  "\<bar>m\<bar> < 2 ^ 53 \<Longrightarrow> k \<le> 1074 \<Longrightarrow> to_double (of_int m / 2 ^ k) = of_int m / 2 ^ k"
  using to_double_exact [of m "- int k"] by (simp add: power_int_minus field_simps)

text \<open>
  \<open>round(z, n)\<close> goes to a nearest multiple of \<open>10^-n\<close>, away from zero at a tie, and
  leaves a double that is such a multiple as it is.
\<close>

lemma round_half_away_of_int: "round_half_away (of_int m) = m"
proof (cases "0 \<le> m")
  case True
  then show ?thesis by (simp add: round_half_away_def)
next
  case False
  have "\<lfloor>- real_of_int m + 1 / 2\<rfloor> = - m"
    by (simp add: floor_unique)
  with False show ?thesis by (simp add: round_half_away_def)
qed

lemma round_half_away_close: "\<bar>real_of_int (round_half_away x) - x\<bar> \<le> 1 / 2"
proof (cases "0 \<le> x")
  case True
  then have r: "round_half_away x = \<lfloor>x + 1 / 2\<rfloor>"
    by (simp add: round_half_away_def)
  show ?thesis
    unfolding r
    using of_int_floor_le [of "x + 1 / 2"] real_of_int_floor_add_one_gt [of "x + 1 / 2"]
    by linarith
next
  case False
  then have r: "round_half_away x = - \<lfloor>- x + 1 / 2\<rfloor>"
    by (simp add: round_half_away_def)
  have "real_of_int (- \<lfloor>- x + 1 / 2\<rfloor>) = - real_of_int \<lfloor>- x + 1 / 2\<rfloor>"
    by (rule of_int_minus)
  then show ?thesis
    unfolding r
    using of_int_floor_le [of "- x + 1 / 2"] real_of_int_floor_add_one_gt [of "- x + 1 / 2"]
    by linarith
qed

lemma round_half_away_tie:
  assumes "\<bar>real_of_int (round_half_away x) - x\<bar> = 1 / 2"
  shows "\<bar>x\<bar> < \<bar>real_of_int (round_half_away x)\<bar>"
proof (cases "0 \<le> x")
  case True
  then have r: "round_half_away x = \<lfloor>x + 1 / 2\<rfloor>"
    by (simp add: round_half_away_def)
  show ?thesis
    using assms True unfolding r
    using of_int_floor_le [of "x + 1 / 2"] real_of_int_floor_add_one_gt [of "x + 1 / 2"]
    by linarith
next
  case False
  then have r: "round_half_away x = - \<lfloor>- x + 1 / 2\<rfloor>"
    by (simp add: round_half_away_def)
  have "real_of_int (- \<lfloor>- x + 1 / 2\<rfloor>) = - real_of_int \<lfloor>- x + 1 / 2\<rfloor>"
    by (rule of_int_minus)
  then show ?thesis
    using assms False unfolding r
    using of_int_floor_le [of "- x + 1 / 2"] real_of_int_floor_add_one_gt [of "- x + 1 / 2"]
    by linarith
qed

lemma py_round_exact:
  assumes "z * 10 ^ n = of_int q" and "z = of_int m / 2 ^ k" and "\<bar>m\<bar> < 2 ^ 53"
      and "k \<le> 1074"
  shows "py_round z n = z"
proof -
  have "real_of_int q / 10 ^ n = z"
    using assms(1) [symmetric] by simp
  then have "py_round z n = to_double z"
    by (simp add: py_round_def assms(1) round_half_away_of_int)
  also have "\<dots> = z"
    unfolding assms(2) using assms(3,4) by (rule to_double_dyadic)
  finally show ?thesis .
qed

subsection \<open>The example files\<close>

lemma length_xdr_int [simp]: "length (xdr_int n) = 4"
  by (simp add: xdr_int_def)

lemma length_xdr_string [simp]:
  "length (xdr_string s) = 4 + length s + (4 - length s mod 4) mod 4"
  by (simp add: xdr_string_def)

lemma length_xdr_double [simp]: "length (xdr_double w) = 8"
  by (simp add: xdr_double_def)

lemma length_xdr_block [simp]:
  "length (xdr_block t body) = length (xdr_string t) + 8 + length body"
  by (simp add: xdr_block_def)

lemma length_concat_replicate [simp]: "length (concat (replicate n xs)) = n * length xs"
  by (induction n) simp_all

lemma length_ex_blocks: "length ex_blocks = 1228"
  by (simp add: ex_blocks_def ex_GCHd_def ex_VARD_def xdr_array_def)

lemma length_ex_start: "length (ex_start n) = 108"
  by (simp add: ex_start_def)

lemma length_ex_record: "length (ex_record ws) = 20 + 4 * length ws"
  by (induction ws) (simp_all add: ex_record_def)

text \<open>What it takes to evaluate a read in an example file.\<close>

lemmas ex_read =
  unpack_float_at_def unpack_float_def file_read_def length_ex_start length_ex_blocks
  length_ex_record ex_vessel_pn_def ex_record_def xdr_int_def be_uint_def ieee_value_def
  record_offset_def

lemmas ex_model =
  ex_xtvA_def ex_xtvB_def ex_xtv_def ex_pipe_def ex_htstr_def ex_htstrc_def ex_vessel_def
  ex_templates_def

lemmas ex_header =
  locate_cell_def getDimPosAt_def get_comp_def get_template_def py_index_def strip_def
  isspace_def cell_of_def startswith_def endswith_def index_unset_def mesh3_def py_div_def

subsection \<open>Scalar variables\<close>

lemma startswith_strip: "startswith d c \<Longrightarrow> \<not> isspace c \<Longrightarrow> startswith (strip d) c"
proof -
  assume a: "startswith d c" "\<not> isspace c"
  then obtain r where d: "d = c # r" by (cases d) (auto simp: startswith_def)
  have "dropWhile isspace (rev (c # r)) = dropWhile isspace (rev r) @ [c]"
    using a(2) by (simp add: dropWhile_append)
  then show ?thesis using a(2) by (simp add: d strip_def startswith_def)
qed

lemma cell_of_0D: "startswith d CHR ''0'' \<Longrightarrow> cell_of d vLen tm i j k = Inr 1"
  by (cases d) (auto simp: cell_of_def startswith_def)

text \<open>
  Claim C9. For a channel whose \<open>dimPosAt\<close> starts with \<open>0\<close>, \<open>getData\<close> gives the
  same result at every time whatever the mesh indices \<open>i\<close>, \<open>j\<close>, \<open>k\<close> are: they
  are not checked, and the cell is 1.
\<close>

theorem getData_0D_ignores_indices:
  assumes "get_comp self cid compType = Some cmpt"
      and "map_of (channels cmpt) (strip varName) = Some ch"
      and "dimPosAt ch = Some d"
      and "startswith d CHR ''0''"
  shows "getData self time cid compType varName i j k =
           getData self time cid compType varName i' j' k' \<and>
         cell_of (strip d) vLen tm i j k = Inr 1"
proof -
  have s: "startswith (strip d) CHR ''0''"
    using assms(4) by (rule startswith_strip) (simp add: isspace_def)
  have d: "getDimPosAt self cid compType varName = Inr (strip d)"
    using assms(1-3) by (simp add: getDimPosAt_def)
  have "locate_cell self cid compType varName i j k =
        locate_cell self cid compType varName i' j' k'"
    by (simp only: locate_cell_def d bnd_Inr cell_of_0D [OF s])
  then show ?thesis by (simp add: getData_def cell_of_0D [OF s])
qed

theorem getData_0D_ignores_indices_witness:
  "get_comp ex_xtvA 500 (Some ''pipe'') = Some ex_pipe \<and>
   map_of (channels ex_pipe) (strip ''tmass'') = Some (snd (hd (channels ex_pipe))) \<and>
   dimPosAt (snd (hd (channels ex_pipe))) = Some ''0D'' \<and>
   startswith ''0D'' CHR ''0'' \<and>
   getData ex_xtvA 2 500 (Some ''pipe'') ''tmass'' (Some 7) None (Some (- 3)) =
     getData ex_xtvA 2 500 (Some ''pipe'') ''tmass'' None None None \<and>
   getData ex_xtvA 2 500 (Some ''pipe'') ''tmass'' None None None = Inr 16"
proof -
  have h1: "get_comp ex_xtvA 500 (Some ''pipe'') = Some ex_pipe"
    by (simp add: ex_xtvA_def ex_xtv_def get_comp_def)
  have h2: "map_of (channels ex_pipe) (strip ''tmass'') = Some (snd (hd (channels ex_pipe)))"
    by (simp add: ex_pipe_def strip_def isspace_def)
  have h3: "dimPosAt (snd (hd (channels ex_pipe))) = Some ''0D''"
    by (simp add: ex_pipe_def)
  have h4: "startswith ''0D'' CHR ''0''"
    by (simp add: startswith_def)
  have v: "getData ex_xtvA 2 500 (Some ''pipe'') ''tmass'' None None None = Inr 16"
    by (simp add: getData_def ex_header ex_model read_at_time_def latch_time_def
        bisect_right_def bisect_loop.simps ex_fileA_def ex_read)
  show ?thesis
    using getData_0D_ignores_indices [OF h1 h2 h3 h4, of 2 "Some 7" None "Some (- 3)"
        None None None]
    by (simp add: h1 h2 h3 h4 v)
qed

subsection \<open>Evaluation in the example files\<close>

lemmas ex_axial =
  getAxialLocations_def getDimPosAt_def get_comp_def strip_def isspace_def
  raw_axial_locations_def htstrc_vLength_def get_template_def py_index_def startswith_def
  midpoints_def fineMeshVars_def

lemma ex_fields:
  "times ex_xtvA = [1, 2, 4]" "xtvFile ex_xtvA = ex_fileA"
  "dataStart (SB ex_xtvA) = 1336" "dataLen (SB ex_xtvA) = 96"
  "times ex_xtvB = [- 1, 0, 2, 2]" "xtvFile ex_xtvB = ex_fileB"
  "dataStart (SB ex_xtvB) = 1336" "dataLen (SB ex_xtvB) = 96"
  by (simp_all add: ex_xtvA_def ex_xtvB_def ex_xtv_def)

text \<open>The face locations of the examples and their midpoints are doubles with few digits.\<close>

lemma ex_doubles:
  "to_double (2097153 / 2048) = 2097153 / 2048"
  "to_double (2097153 / 4096) = 2097153 / 4096"
  "to_double (6292481 / 2048) = 6292481 / 2048"
  "to_double (6292481 / 4096) = 6292481 / 4096"
  using to_double_dyadic [of 2097153 11] to_double_dyadic [of 2097153 12] to_double_dyadic [of 6292481 11] to_double_dyadic [of 6292481 12]
  by simp_all

lemma ex_rounds:
  "py_round 0 13 = 0"
  "py_round (2097153 / 2048) 13 = 2097153 / 2048"
  "py_round (4097 / 2) 13 = 4097 / 2"
  "py_round (2097153 / 4096) 13 = 2097153 / 4096"
  "py_round (6292481 / 4096) 13 = 6292481 / 4096"
  "py_round (1 / 2) 13 = 1 / 2"
  "py_round (1 / 4) 13 = 1 / 4"
proof -
  show "py_round 0 13 = 0"
    by (simp add: py_round_def round_half_away_def to_double_0)
  show "py_round (2097153 / 2048) 13 = 2097153 / 2048"
    by (rule py_round_exact [of _ _ 10240004882812500 2097153 11]) simp_all
  show "py_round (4097 / 2) 13 = 4097 / 2"
    by (rule py_round_exact [of _ _ 20485000000000000 4097 1]) simp_all
  show "py_round (2097153 / 4096) 13 = 2097153 / 4096"
    by (rule py_round_exact [of _ _ 5120002441406250 2097153 12]) simp_all
  show "py_round (6292481 / 4096) 13 = 6292481 / 4096"
    by (rule py_round_exact [of _ _ 15362502441406250 6292481 12]) simp_all
  show "py_round (1 / 2) 13 = 1 / 2"
    by (rule py_round_exact [of _ _ 5000000000000 1 1]) simp_all
  show "py_round (1 / 4) 13 = 1 / 4"
    by (rule py_round_exact [of _ _ 2500000000000 1 2]) simp_all
qed

subsection \<open>Channel identifiers\<close>

text \<open>The pattern matches exactly the strings that begin with a decimal digit.\<close>

lemma re_match_None_iff: "re_match s = None \<longleftrightarrow> (s = [] \<or> \<not> isdigit (hd s))"
  by (cases s) (simp_all add: re_match_def)

lemmas parse_eval =
  parseChannelString_def rpartition_def re_match_def mesh_group_def isdigit_def
  decode_channel_def int_of_digits_def

text \<open>
  Claim C2, as the specification states it, fails: the identifier
  \<open>totally-unparseable-999\<close> ends in the token \<open>999\<close>, which the pattern
  matches, so the parse does not fall back. The variable name is
  \<open>totally-unparseable\<close>, the component id the string \<open>999\<close>, and no mesh index is
  there.
\<close>

theorem parseChannelString_999_counterexample:
  "parseChannelString ''totally-unparseable-999'' =
     (''totally-unparseable'', IdStr ''999'', None, None, None) \<and>
   parseChannelString ''totally-unparseable-999'' \<noteq>
     (''totally-unparseable-999'', IdInt 0, Some ''0'', Some ''0'', Some ''0'')"
  by (simp add: parse_eval)

text \<open>
  Claim C2, amended. Whenever the token after the last hyphen (the whole identifier
  where it has no hyphen) does not match the pattern, the whole identifier is the
  variable name, the component id is 0 and the three mesh indices are 0, and nothing is
  raised. The identifier \<open>totally-unparseable-999\<close> is not such a case: it resolves
  to the variable \<open>totally-unparseable\<close> of component 999 with no mesh index.
\<close>

theorem parseChannelString_fallback:
  "(re_match (snd (snd (rpartition channel CHR ''-''))) = None \<longrightarrow>
      parseChannelString channel = (channel, IdInt 0, Some ''0'', Some ''0'', Some ''0'') \<and>
      decode_channel self channel =
        (channel, getCompType self (IdInt 0) channel, 0, Some 0, Some 0, Some 0)) \<and>
   decode_channel self ''totally-unparseable-999'' =
     (''totally-unparseable'', getCompType self (IdStr ''999'') ''totally-unparseable'', 999,
      None, None, None)"
proof (intro conjI impI)
  assume n: "re_match (snd (snd (rpartition channel CHR ''-''))) = None"
  then show p: "parseChannelString channel =
      (channel, IdInt 0, Some ''0'', Some ''0'', Some ''0'')"
    by (auto simp add: parseChannelString_def split: prod.splits)
  show "decode_channel self channel =
      (channel, getCompType self (IdInt 0) channel, 0, Some 0, Some 0, Some 0)"
    by (simp add: decode_channel_def p int_of_digits_def)
next
  show "decode_channel self ''totally-unparseable-999'' =
     (''totally-unparseable'', getCompType self (IdStr ''999'') ''totally-unparseable'', 999,
      None, None, None)"
    by (simp add: parse_eval)
qed

theorem parseChannelString_fallback_witness:
  "re_match (snd (snd (rpartition ''rftn-A03R05'' CHR ''-''))) = None \<and>
   parseChannelString ''rftn-A03R05'' =
     (''rftn-A03R05'', IdInt 0, Some ''0'', Some ''0'', Some ''0'') \<and>
   decode_channel ex_xtvA ''rftn-A03R05'' = (''rftn-A03R05'', None, 0, Some 0, Some 0, Some 0)"
proof -
  have h: "re_match (snd (snd (rpartition ''rftn-A03R05'' CHR ''-''))) = None"
    by (simp add: rpartition_def re_match_def isdigit_def)
  have c: "getCompType ex_xtvA (IdInt 0) ''rftn-A03R05'' = None"
    by (simp add: getCompType_def ex_model)
  show ?thesis
    using parseChannelString_fallback [of "''rftn-A03R05''" ex_xtvA] h c by simp
qed

subsection \<open>Values at and between the time edits\<close>

text \<open>The variable \<open>pn\<close> of the pipe in the example files, at mesh index 1.\<close>

lemma ex_locate_pn:
  "locate_cell (ex_xtv f ts n) 500 (Some ''pipe'') ''pn'' (Some 1) None None =
     Inr (\<lparr>startIncrement = 28, dimPosAt = Some ''1dCc'', freqAt = Some ''TD'',
           vTmpl = Some 1, vLength = Some 2\<rparr>, 1)"
  by (simp add: ex_header ex_model)

lemma ex_pn_B:
  "unpack_float_at ex_fileB (1336 + 0 * 96 + 28 + (1 - 1) * 4) = Inr 1"
  "unpack_float_at ex_fileB (1336 + 1 * 96 + 28 + (1 - 1) * 4) = Inr 2"
  "unpack_float_at ex_fileB (1336 + 2 * 96 + 28 + (1 - 1) * 4) = Inr 4"
  "unpack_float_at ex_fileB (1336 + 3 * 96 + 28 + (1 - 1) * 4) = Inr 8"
  by (simp_all add: ex_fileB_def ex_read)

lemma ex_pn_A:
  "unpack_float_at ex_fileA (1336 + 0 * 96 + 28 + (1 - 1) * 4) = Inr 1"
  "unpack_float_at ex_fileA (1336 + 1 * 96 + 28 + (1 - 1) * 4) = Inr 2"
  "unpack_float_at ex_fileA (1336 + 2 * 96 + 28 + (1 - 1) * 4) = Inr 4"
  by (simp_all add: ex_fileA_def ex_read)

lemma ex_getData_pn:
  "getData (ex_xtv f ts n) t 500 (Some ''pipe'') ''pn'' (Some 1) None None =
     read_at_time (ex_xtv f ts n) 28 t"
  by (simp add: getData_located [OF ex_locate_pn])

lemmas ex_time =
  read_at_time_def latch_time_def py_index_def bisect_right_def bisect_loop.simps
  record_offset_def interpolate_def ex_xtv_def

text \<open>
  Claim C3, as the specification states it, fails in two ways, both in file B (times
  -1, 0, 2, 2; the value of \<open>pn\<close> at index 1 is 1, 2, 4, 8 in records 0 to 3). The
  requested time -1 is the entry of record 0, where the value is 1; it is negative, so
  it is replaced by the last time and the value 8 of record 3 comes back. The requested
  time 2 is the entry of record 2, where the value is 4; the search ends after the last
  entry equal to 2, and the value 8 of record 3 comes back.
\<close>

theorem getData_exact_time_counterexample:
  "times ex_xtvB ! 0 = - 1 \<and>
   unpack_float_at (xtvFile ex_xtvB)
     (dataStart (SB ex_xtvB) + 0 * dataLen (SB ex_xtvB) + 28 + (1 - 1) * 4) = Inr 1 \<and>
   getData ex_xtvB (- 1) 500 (Some ''pipe'') ''pn'' (Some 1) None None = Inr 8 \<and>
   times ex_xtvB ! 2 = 2 \<and>
   unpack_float_at (xtvFile ex_xtvB)
     (dataStart (SB ex_xtvB) + 2 * dataLen (SB ex_xtvB) + 28 + (1 - 1) * 4) = Inr 4 \<and>
   getData ex_xtvB 2 500 (Some ''pipe'') ''pn'' (Some 1) None None = Inr 8"
proof -
  have t0: "times ex_xtvB ! 0 = - 1" and t2: "times ex_xtvB ! 2 = 2"
    by (simp_all add: ex_model)
  have v0: "unpack_float_at (xtvFile ex_xtvB)
     (dataStart (SB ex_xtvB) + 0 * dataLen (SB ex_xtvB) + 28 + (1 - 1) * 4) = Inr 1"
    using ex_pn_B(1) by (simp add: ex_model)
  have v2: "unpack_float_at (xtvFile ex_xtvB)
     (dataStart (SB ex_xtvB) + 2 * dataLen (SB ex_xtvB) + 28 + (1 - 1) * 4) = Inr 4"
    using ex_pn_B(3) by (simp add: ex_model)
  have g1: "getData ex_xtvB (- 1) 500 (Some ''pipe'') ''pn'' (Some 1) None None = Inr 8"
    unfolding ex_xtvB_def ex_getData_pn using ex_pn_B(4) by (simp add: ex_time)
  have g2: "getData ex_xtvB 2 500 (Some ''pipe'') ''pn'' (Some 1) None None = Inr 8"
    unfolding ex_xtvB_def ex_getData_pn using ex_pn_B(4) by (simp add: ex_time)
  show ?thesis
    by (intro conjI t0 v0 g1 t2 v2 g2)
qed

text \<open>
  Claim C3, amended. On an ascending time index, for every valid channel and indices
  (the first half of \<open>getData\<close> ends with channel \<open>ch\<close> and cell \<open>cell\<close>) and
  every requested time \<open>t\<close> that is not negative and equals an entry, \<open>getData\<close>
  returns what the decoder gives at offset
  \<open>dataStart + r * dataLen + ch.startIncrement + (cell - 1) * 4\<close>, where \<open>r\<close> is the
  0-based index of the last entry equal to \<open>t\<close>: the float there, with no
  interpolation, or the error of the read.
\<close>

theorem getData_exact_time:
  assumes "locate_cell self cid compType varName i j k = Inr (ch, cell)"
      and "sorted (times self)" and "0 \<le> t"
      and "r < length (times self)" and "times self ! r = t"
      and "\<forall>r'. r < r' \<and> r' < length (times self) \<longrightarrow> times self ! r' \<noteq> t"
  shows "getData self t cid compType varName i j k =
         unpack_float_at (xtvFile self)
           (dataStart (SB self) + int r * dataLen (SB self) + startIncrement ch + (cell - 1) * 4)"
  using read_at_time_exact [OF assms(2-6), of "startIncrement ch + (cell - 1) * 4"]
  by (simp add: getData_located [OF assms(1)] record_offset_def add.assoc)

theorem getData_exact_time_witness:
  "locate_cell ex_xtvA 500 (Some ''pipe'') ''pn'' (Some 1) None None =
     Inr (\<lparr>startIncrement = 28, dimPosAt = Some ''1dCc'', freqAt = Some ''TD'',
           vTmpl = Some 1, vLength = Some 2\<rparr>, 1) \<and>
   sorted (times ex_xtvA) \<and> (0::real) \<le> 2 \<and> 1 < length (times ex_xtvA) \<and>
   times ex_xtvA ! 1 = 2 \<and> times ex_xtvA ! 2 \<noteq> 2 \<and> length (times ex_xtvA) = 3 \<and>
   getData ex_xtvA 2 500 (Some ''pipe'') ''pn'' (Some 1) None None =
     unpack_float_at (xtvFile ex_xtvA) (1336 + 1 * 96 + 28 + (1 - 1) * 4) \<and>
   getData ex_xtvA 2 500 (Some ''pipe'') ''pn'' (Some 1) None None = Inr 2"
proof -
  have l: "locate_cell ex_xtvA 500 (Some ''pipe'') ''pn'' (Some 1) None None =
     Inr (\<lparr>startIncrement = 28, dimPosAt = Some ''1dCc'', freqAt = Some ''TD'',
           vTmpl = Some 1, vLength = Some 2\<rparr>, 1)"
    unfolding ex_xtvA_def by (rule ex_locate_pn)
  have s: "sorted (times ex_xtvA)" by (simp add: ex_model)
  have n: "1 < length (times ex_xtvA)" by (simp add: ex_model)
  have e: "times ex_xtvA ! 1 = 2" by (simp add: ex_model)
  have u: "\<forall>r'. 1 < r' \<and> r' < length (times ex_xtvA) \<longrightarrow> times ex_xtvA ! r' \<noteq> 2"
  proof (intro allI impI)
    fix r' :: nat assume "1 < r' \<and> r' < length (times ex_xtvA)"
    then have "r' = 2" by (simp add: ex_model)
    then show "times ex_xtvA ! r' \<noteq> 2" by (simp add: ex_model)
  qed
  have z: "(0::real) \<le> 2" by simp
  have e': "times ex_xtvA ! 2 \<noteq> 2" and m: "length (times ex_xtvA) = 3"
    by (simp_all add: ex_model)
  have g: "getData ex_xtvA 2 500 (Some ''pipe'') ''pn'' (Some 1) None None =
     unpack_float_at (xtvFile ex_xtvA) (1336 + 1 * 96 + 28 + (1 - 1) * 4)"
    using getData_exact_time [OF l s z n e u] by (simp add: ex_model)
  have v: "getData ex_xtvA 2 500 (Some ''pipe'') ''pn'' (Some 1) None None = Inr 2"
    using g ex_pn_A(2) by (simp add: ex_model)
  show ?thesis
    by (intro conjI l s z n e e' m g v)
qed

text \<open>
  Claim C4, as the specification states it, fails in file B: the requested time -0.5
  lies strictly between the adjacent entries -1 and 0, where \<open>pn\<close> is 1 and 2, so
  the formula gives 1.5; the time is negative, so it is replaced by the last time and
  the value 8 of the last record comes back.
\<close>

theorem getData_between_times_counterexample:
  "times ex_xtvB ! 0 = - 1 \<and> times ex_xtvB ! 1 = 0 \<and>
   unpack_float_at (xtvFile ex_xtvB)
     (dataStart (SB ex_xtvB) + 0 * dataLen (SB ex_xtvB) + 28 + (1 - 1) * 4) = Inr 1 \<and>
   unpack_float_at (xtvFile ex_xtvB)
     (dataStart (SB ex_xtvB) + 1 * dataLen (SB ex_xtvB) + 28 + (1 - 1) * 4) = Inr 2 \<and>
   getData ex_xtvB (- 1 / 2) 500 (Some ''pipe'') ''pn'' (Some 1) None None = Inr 8 \<and>
   (8::real) \<noteq> 1 + (2 - 1) * (- 1 / 2 - (- 1)) / (0 - (- 1))"
proof -
  have t0: "times ex_xtvB ! 0 = - 1" and t1: "times ex_xtvB ! 1 = 0"
    by (simp_all add: ex_model)
  have v0: "unpack_float_at (xtvFile ex_xtvB)
     (dataStart (SB ex_xtvB) + 0 * dataLen (SB ex_xtvB) + 28 + (1 - 1) * 4) = Inr 1"
    using ex_pn_B(1) by (simp add: ex_model)
  have v1: "unpack_float_at (xtvFile ex_xtvB)
     (dataStart (SB ex_xtvB) + 1 * dataLen (SB ex_xtvB) + 28 + (1 - 1) * 4) = Inr 2"
    using ex_pn_B(2) by (simp add: ex_model)
  have g: "getData ex_xtvB (- 1 / 2) 500 (Some ''pipe'') ''pn'' (Some 1) None None = Inr 8"
    unfolding ex_xtvB_def ex_getData_pn using ex_pn_B(4) by (simp add: ex_time)
  have d: "(8::real) \<noteq> 1 + (2 - 1) * (- 1 / 2 - (- 1)) / (0 - (- 1))"
    by simp
  show ?thesis
    by (intro conjI t0 t1 v0 v1 g d)
qed

text \<open>
  Claim C4, amended. On an ascending time index, for every valid channel and indices
  and every requested time \<open>t\<close> that is not negative and lies strictly between two
  adjacent entries \<open>t1 < t2\<close>, with the values \<open>v1\<close> and \<open>v2\<close> decoded at the point
  in their two records, \<open>getData\<close> returns \<open>v1 + (v2 - v1) * (t - t1) / (t2 - t1)\<close>.
\<close>

theorem getData_between_times:
  assumes "locate_cell self cid compType varName i j k = Inr (ch, cell)"
      and "sorted (times self)" and "0 \<le> t"
      and "Suc r < length (times self)"
      and "times self ! r = t1" and "times self ! Suc r = t2" and "t1 < t" and "t < t2"
      and "unpack_float_at (xtvFile self)
             (dataStart (SB self) + int r * dataLen (SB self) + startIncrement ch +
              (cell - 1) * 4) = Inr v1"
      and "unpack_float_at (xtvFile self)
             (dataStart (SB self) + (int r + 1) * dataLen (SB self) + startIncrement ch +
              (cell - 1) * 4) = Inr v2"
  shows "getData self t cid compType varName i j k =
         Inr (v1 + (v2 - v1) * (t - t1) / (t2 - t1))"
proof -
  have "read_at_time self (startIncrement ch + (cell - 1) * 4) t =
        Inr ((v2 - v1) * (t - t1) / (t2 - t1) + v1)"
    using assms(5-10)
      read_at_time_between [OF assms(2-4), of "startIncrement ch + (cell - 1) * 4"]
    by (simp add: record_offset_def add.assoc)
  then show ?thesis by (simp add: getData_located [OF assms(1)] add.commute)
qed

theorem getData_between_times_witness:
  "locate_cell ex_xtvA 500 (Some ''pipe'') ''pn'' (Some 1) None None =
     Inr (\<lparr>startIncrement = 28, dimPosAt = Some ''1dCc'', freqAt = Some ''TD'',
           vTmpl = Some 1, vLength = Some 2\<rparr>, 1) \<and>
   sorted (times ex_xtvA) \<and> (0::real) \<le> 3 \<and> Suc 1 < length (times ex_xtvA) \<and>
   times ex_xtvA ! 1 = 2 \<and> times ex_xtvA ! Suc 1 = 4 \<and> (2::real) < 3 \<and> (3::real) < 4 \<and>
   unpack_float_at (xtvFile ex_xtvA) (1336 + 1 * 96 + 28 + (1 - 1) * 4) = Inr 2 \<and>
   unpack_float_at (xtvFile ex_xtvA) (1336 + 2 * 96 + 28 + (1 - 1) * 4) = Inr 4 \<and>
   getData ex_xtvA 3 500 (Some ''pipe'') ''pn'' (Some 1) None None = Inr 3"
proof -
  have l: "locate_cell ex_xtvA 500 (Some ''pipe'') ''pn'' (Some 1) None None =
     Inr (\<lparr>startIncrement = 28, dimPosAt = Some ''1dCc'', freqAt = Some ''TD'',
           vTmpl = Some 1, vLength = Some 2\<rparr>, 1)"
    unfolding ex_xtvA_def by (rule ex_locate_pn)
  have s: "sorted (times ex_xtvA)" by (simp add: ex_model)
  have z: "(0::real) \<le> 3" and lt1: "(2::real) < 3" and lt2: "(3::real) < 4" by simp_all
  have n: "Suc 1 < length (times ex_xtvA)" by (simp add: ex_model)
  have e1: "times ex_xtvA ! 1 = 2" by (simp add: ex_model)
  have e2: "times ex_xtvA ! Suc 1 = 4" by (simp add: ex_model)
  have v1: "unpack_float_at (xtvFile ex_xtvA) (1336 + 1 * 96 + 28 + (1 - 1) * 4) = Inr 2"
    using ex_pn_A(2) by (simp add: ex_model)
  have v2: "unpack_float_at (xtvFile ex_xtvA) (1336 + 2 * 96 + 28 + (1 - 1) * 4) = Inr 4"
    using ex_pn_A(3) by (simp add: ex_model)
  have r1: "unpack_float_at (xtvFile ex_xtvA)
      (dataStart (SB ex_xtvA) + int 1 * dataLen (SB ex_xtvA) +
       startIncrement \<lparr>startIncrement = 28, dimPosAt = Some ''1dCc'', freqAt = Some ''TD'',
           vTmpl = Some 1, vLength = Some 2\<rparr> + (1 - 1) * 4) = Inr 2"
    using ex_pn_A(2) by (simp add: ex_model)
  have r2: "unpack_float_at (xtvFile ex_xtvA)
      (dataStart (SB ex_xtvA) + (int 1 + 1) * dataLen (SB ex_xtvA) +
       startIncrement \<lparr>startIncrement = 28, dimPosAt = Some ''1dCc'', freqAt = Some ''TD'',
           vTmpl = Some 1, vLength = Some 2\<rparr> + (1 - 1) * 4) = Inr 4"
    using ex_pn_A(3) by (simp add: ex_model)
  have g: "getData ex_xtvA 3 500 (Some ''pipe'') ''pn'' (Some 1) None None = Inr 3"
    using getData_between_times [OF l s z n e1 e2 lt1 lt2 r1 r2] by simp
  show ?thesis
    by (intro conjI l s z n e1 e2 lt1 lt2 v1 v2 g)
qed

subsection \<open>Times out of range\<close>

lemma latch_time_last:
  assumes "sorted ts" and "ts \<noteq> []"
  shows "latch_time ts (last ts) = Inr (last ts)"
proof (cases "last ts < 0")
  case True
  with assms(2) show ?thesis by (simp add: latch_time_negative)
next
  case False
  have "hd ts \<le> last ts"
    using assms sorted_hd_le_nth [of ts "length ts - 1"] by (simp add: last_conv_nth)
  with False assms(2) show ?thesis by (simp add: latch_time_inside)
qed

lemma read_at_time_last:
  assumes "sorted (times self)" and "times self \<noteq> []" and "t < 0"
  shows "read_at_time self sp t = read_at_time self sp (last (times self))"
  using latch_time_last [OF assms(1,2)] latch_time_negative [OF assms(2,3)]
  by (simp add: read_at_time_def)

lemma getAxialData_last:
  assumes "sorted (times self)" and "times self \<noteq> []" and "t < 0"
  shows "getAxialData self t cid compType varName zLoc xr yt =
         getAxialData self (last (times self)) cid compType varName zLoc xr yt"
  using latch_time_last [OF assms(1,2)] latch_time_negative [OF assms(2,3)]
  by (simp add: getAxialData_def)

lemma sorted_hd_le_last: "sorted ts \<Longrightarrow> ts \<noteq> [] \<Longrightarrow> hd ts \<le> last ts"
  using sorted_hd_le_nth [of ts "length ts - 1"] by (simp add: last_conv_nth)

lemma bisect_right_last:
  assumes "sorted ts" and "ts \<noteq> []"
  shows "bisect_right ts (last ts) = int (length ts)"
proof -
  have "\<forall>i<length ts. ts ! i \<le> last ts"
    using assms(1) by (simp add: sorted_nth_le_last)
  then show ?thesis
    using assms(1) by (intro bisect_right_sorted) simp_all
qed

text \<open>
  \<open>getAxialData\<close> at a negative time: the axial list of the last time, the checks on
  it, and the spatial lookup at the last time.
\<close>

lemma getAxialData_negative:
  assumes "sorted (times self)" and "times self \<noteq> []" and "t < 0"
  shows "getAxialData self t cid compType varName zLoc xr yt =
         bnd (getAxialLocations self (last (times self)) cid compType varName) (\<lambda>zht.
         bnd (check_axial zht zLoc) (\<lambda>_.
           axial_lookup self (last (times self)) cid compType varName xr yt zht zLoc))"
proof -
  let ?ts = "times self"
  have l: "latch_time ?ts t = Inr (last ?ts)"
    using assms(2,3) by (rule latch_time_negative)
  have b: "bisect_right ?ts (last ?ts) = int (length ?ts)"
    using assms(1,2) by (rule bisect_right_last)
  have p: "py_index ?ts (int (length ?ts) - 1) = Inr (last ?ts)"
  proof -
    obtain m where m: "length ?ts = Suc m"
      using assms(2) by (cases ?ts) auto
    have "py_index ?ts (int m) = Inr (?ts ! m)"
      by (rule py_index_nat) (simp add: m)
    moreover have "last ?ts = ?ts ! m"
      using assms(2) by (simp add: last_conv_nth m)
    ultimately show ?thesis
      by (simp add: m)
  qed
  show ?thesis
    by (simp add: getAxialData_def l b p bnd_Inr)
qed

lemma read_at_time_at_last:
  assumes "sorted (times self)" and "times self \<noteq> []"
  shows "read_at_time self sp (last (times self)) =
         unpack_float_at (xtvFile self) (record_offset self (int (length (times self)) - 1) sp)"
proof -
  have n: "(- 1 :: real) < 0" by simp
  show ?thesis
    using read_at_time_last [OF assms n, of sp] read_at_time_negative [OF assms n, of sp]
    by simp
qed

lemma check_axial_inside:
  assumes "zht \<noteq> []" and "hd zht \<le> zLoc" and "zLoc \<le> last zht"
  shows "check_axial zht zLoc = Inr ()"
  using assms by (simp add: check_axial_def py_index_last py_index_first bnd_Inr)

text \<open>The spatial lookup at a height that is a level of the axial list.\<close>

lemma axial_lookup_level:
  assumes "sorted zht" and "n < length zht" and "zht ! n = zLoc"
      and "\<forall>m. n < m \<and> m < length zht \<longrightarrow> zLoc < zht ! m"
      and "transform_indices self cid compType varName xr yt (Some (int n + 1)) = Inr (i, j, k)"
  shows "axial_lookup self time cid compType varName xr yt zht zLoc =
         getData self time cid compType varName i j k"
proof -
  have "zht ! n \<le> zLoc" using assms(3) by simp
  then have b: "bisect_right zht zLoc = int n + 1"
    using assms(1,2,4) by (intro bisect_right_last_le) simp_all
  have p: "py_index zht (int n) = Inr zLoc"
    using assms(2,3) by (simp add: py_index_nat)
  show ?thesis
    by (simp add: axial_lookup_def b p assms(5) bnd_Inr)
qed

text \<open>
  \<open>getAxialData\<close> at a negative time and at a height that is a level of the axial list
  of the last time: the float of the last record, at the cell of that level.
\<close>

lemma getAxialData_negative_level:
  assumes "sorted (times self)" and "times self \<noteq> []" and "t < 0"
      and "getAxialLocations self (last (times self)) cid compType varName = Inr zht"
      and "sorted zht" and "n < length zht" and "zht ! n = zLoc"
      and "\<forall>m. n < m \<and> m < length zht \<longrightarrow> zLoc < zht ! m"
      and "transform_indices self cid compType varName xr yt (Some (int n + 1)) = Inr (i, j, k)"
      and "locate_cell self cid compType varName i j k = Inr (ch, cell)"
  shows "getAxialData self t cid compType varName zLoc xr yt =
         unpack_float_at (xtvFile self)
           (dataStart (SB self) + (int (length (times self)) - 1) * dataLen (SB self) +
            startIncrement ch + (cell - 1) * 4)"
proof -
  have ne: "zht \<noteq> []" using assms(6) by auto
  have lo: "hd zht \<le> zLoc"
    using sorted_hd_le_nth [OF assms(5,6)] assms(7) by simp
  have hi: "zLoc \<le> last zht"
    using sorted_nth_le_last [OF assms(5,6)] assms(7) by simp
  have c: "check_axial zht zLoc = Inr ()"
    using ne lo hi by (rule check_axial_inside)
  have "getAxialData self t cid compType varName zLoc xr yt =
      axial_lookup self (last (times self)) cid compType varName xr yt zht zLoc"
    by (simp add: getAxialData_negative [OF assms(1,2,3)] assms(4) c bnd_Inr)
  also have "\<dots> = getData self (last (times self)) cid compType varName i j k"
    using assms(5,6,7,8,9) by (rule axial_lookup_level)
  also have "\<dots> = read_at_time self (startIncrement ch + (cell - 1) * 4) (last (times self))"
    using assms(10) by (rule getData_located)
  also have "\<dots> = unpack_float_at (xtvFile self)
      (record_offset self (int (length (times self)) - 1) (startIncrement ch + (cell - 1) * 4))"
    using assms(1,2) by (rule read_at_time_at_last)
  finally show ?thesis
    by (simp add: record_offset_def add.assoc)
qed

text \<open>The variables \<open>zht\<close> and \<open>pn\<close> in the records of the example files.\<close>

lemma ex_zht_B:
  "unpack_farray_at ex_fileB (1336 + 0 * 96 + (56 + (1 - 1) * 4)) 2 = Inr [1 / 2, - 1]"
  "unpack_farray_at ex_fileB (1336 + 3 * 96 + (56 + (1 - 1) * 4)) 2 = Inr [1 / 4, - 1]"
  by (simp_all add: unpack_farray_at_def eval_nat_numeral ex_fileB_def ex_read)

lemma ex_pn2_A:
  "unpack_float_at ex_fileA (1336 + 2 * 96 + 28 + (2 - 1) * 4) = Inr (1 / 8)"
  by (simp add: ex_fileA_def ex_read)

lemma ex_axial_pn:
  "getAxialLocations (ex_xtv f ts n) t 500 (Some ''pipe'') ''pn'' =
     Inr [2097153 / 4096, 6292481 / 4096]"
  by (simp add: ex_axial ex_model ex_doubles ex_rounds)

lemma ex_transform_pn:
  "transform_indices (ex_xtv f ts n) 500 (Some ''pipe'') ''pn'' None None (Some z) =
     Inr (Some z, Some 0, Some 0)"
  by (simp add: transform_indices_def getDimPosAt_def get_comp_def strip_def isspace_def
      startswith_def gt0_def bnd_Inr ex_model)

lemma ex_locate_pn_level:
  "locate_cell (ex_xtv f ts n) 500 (Some ''pipe'') ''pn'' (Some 1) (Some 0) (Some 0) =
     Inr (\<lparr>startIncrement = 28, dimPosAt = Some ''1dCc'', freqAt = Some ''TD'',
           vTmpl = Some 1, vLength = Some 2\<rparr>, 1)"
  "locate_cell (ex_xtv f ts n) 500 (Some ''pipe'') ''pn'' (Some 2) (Some 0) (Some 0) =
     Inr (\<lparr>startIncrement = 28, dimPosAt = Some ''1dCc'', freqAt = Some ''TD'',
           vTmpl = Some 1, vLength = Some 2\<rparr>, 2)"
  by (simp_all add: ex_header ex_model)

text \<open>
  Claim C5, as the specification states it for every query, fails for
  \<open>getAxialLocations\<close>, which takes a time and has no check on it. In file B (times
  -1, 0, 2, 2; the list of \<open>zht\<close> is [0.5] in record 0 and [0.25] in record 3), at the
  time 100, after the last, it returns the list of the last record where \<open>getData\<close>
  raises \<open>TIME_UBOUND_ERR\<close>; at the time -0.5 it returns the list of record 0, not
  that of the last time.
\<close>

theorem getAxialLocations_time_counterexample:
  "last (times ex_xtvB) = 2 \<and>
   getAxialLocations ex_xtvB (last (times ex_xtvB)) 140 (Some ''htstrc'') ''zht'' = Inr [1 / 4] \<and>
   getAxialLocations ex_xtvB 100 140 (Some ''htstrc'') ''zht'' = Inr [1 / 4] \<and>
   getData ex_xtvB 100 500 (Some ''pipe'') ''pn'' (Some 1) None None =
     Inl (XTVError TIME_UBOUND_ERR) \<and>
   getAxialLocations ex_xtvB (- 1 / 2) 140 (Some ''htstrc'') ''zht'' = Inr [1 / 2]"
proof -
  have la: "last (times ex_xtvB) = 2"
    by (simp add: ex_fields)
  have a2: "getAxialLocations ex_xtvB 2 140 (Some ''htstrc'') ''zht'' = Inr [1 / 4]"
    using ex_zht_B(2)
    by (simp add: ex_axial ex_model ex_rounds trim_unused_def bisect_right_def
        bisect_loop.simps record_offset_def)
  have a1: "getAxialLocations ex_xtvB (last (times ex_xtvB)) 140 (Some ''htstrc'') ''zht'' =
      Inr [1 / 4]"
    by (simp only: la a2)
  have b: "getAxialLocations ex_xtvB 100 140 (Some ''htstrc'') ''zht'' = Inr [1 / 4]"
    using ex_zht_B(2)
    by (simp add: ex_axial ex_model ex_rounds trim_unused_def bisect_right_def
        bisect_loop.simps record_offset_def)
  have c: "getData ex_xtvB 100 500 (Some ''pipe'') ''pn'' (Some 1) None None =
      Inl (XTVError TIME_UBOUND_ERR)"
    unfolding ex_xtvB_def ex_getData_pn by (simp add: ex_time)
  have d: "getAxialLocations ex_xtvB (- 1 / 2) 140 (Some ''htstrc'') ''zht'' = Inr [1 / 2]"
    using ex_zht_B(1)
    by (simp add: ex_axial ex_model ex_rounds trim_unused_def bisect_right_def
        bisect_loop.simps record_offset_def)
  show ?thesis
    by (intro conjI la a1 b c d)
qed

text \<open>
  Claim C5, amended: it holds for \<open>getData\<close> and \<open>getAxialData\<close>, the two methods
  that check the time. On an ascending, non-empty time index, for a valid channel and
  indices: a requested time below 0 is taken as the last entry. Then \<open>getData\<close> gives
  what the decoder gives in the last record at the point, and \<open>getAxialData\<close> gives
  the spatial lookup at the last time in the axial list of the last time; at a height
  that is a level of that list it gives what the decoder gives in the last record at
  the cell of the level. A requested time that is not negative and is above the last
  entry raises \<open>TIME_UBOUND_ERR\<close>, and one that is not negative and is below the first
  entry raises \<open>TIME_LBOUND_ERR\<close>, in both methods. Nothing is clamped and nothing
  extrapolated.
\<close>

theorem time_out_of_bounds:
  assumes "sorted (times self)" and "times self \<noteq> []"
      and "locate_cell self cid compType varName i j k = Inr (ch, cell)"
  shows "(t < 0 \<longrightarrow>
            getData self t cid compType varName i j k =
              unpack_float_at (xtvFile self)
                (dataStart (SB self) + (int (length (times self)) - 1) * dataLen (SB self) +
                 startIncrement ch + (cell - 1) * 4) \<and>
            getData self t cid compType varName i j k =
              getData self (last (times self)) cid compType varName i j k \<and>
            getAxialData self t cid compType varName zLoc xr yt =
              bnd (getAxialLocations self (last (times self)) cid compType varName) (\<lambda>zht.
              bnd (check_axial zht zLoc) (\<lambda>_.
                axial_lookup self (last (times self)) cid compType varName xr yt zht zLoc)) \<and>
            getAxialData self t cid compType varName zLoc xr yt =
              getAxialData self (last (times self)) cid compType varName zLoc xr yt \<and>
            (\<forall>zht n i' j' k' ch' cell'.
               getAxialLocations self (last (times self)) cid compType varName = Inr zht \<and>
               sorted zht \<and> n < length zht \<and> zht ! n = zLoc \<and>
               (\<forall>m. n < m \<and> m < length zht \<longrightarrow> zLoc < zht ! m) \<and>
               transform_indices self cid compType varName xr yt (Some (int n + 1)) =
                 Inr (i', j', k') \<and>
               locate_cell self cid compType varName i' j' k' = Inr (ch', cell') \<longrightarrow>
               getAxialData self t cid compType varName zLoc xr yt =
                 unpack_float_at (xtvFile self)
                   (dataStart (SB self) + (int (length (times self)) - 1) * dataLen (SB self) +
                    startIncrement ch' + (cell' - 1) * 4))) \<and>
         (0 \<le> t \<and> last (times self) < t \<longrightarrow>
            getData self t cid compType varName i j k = Inl (XTVError TIME_UBOUND_ERR) \<and>
            getAxialData self t cid compType varName zLoc xr yt =
              Inl (XTVError TIME_UBOUND_ERR)) \<and>
         (0 \<le> t \<and> t < hd (times self) \<longrightarrow>
            getData self t cid compType varName i j k = Inl (XTVError TIME_LBOUND_ERR) \<and>
            getAxialData self t cid compType varName zLoc xr yt =
              Inl (XTVError TIME_LBOUND_ERR))"
proof (intro conjI impI allI)
  assume neg: "t < 0"
  show "getData self t cid compType varName i j k =
        unpack_float_at (xtvFile self)
          (dataStart (SB self) + (int (length (times self)) - 1) * dataLen (SB self) +
           startIncrement ch + (cell - 1) * 4)"
    using read_at_time_negative [OF assms(1,2) neg, of "startIncrement ch + (cell - 1) * 4"]
    by (simp add: getData_located [OF assms(3)] record_offset_def add.assoc)
  show "getData self t cid compType varName i j k =
        getData self (last (times self)) cid compType varName i j k"
    using read_at_time_last [OF assms(1,2) neg]
    by (simp add: getData_located [OF assms(3)])
  show "getAxialData self t cid compType varName zLoc xr yt =
        bnd (getAxialLocations self (last (times self)) cid compType varName) (\<lambda>zht.
        bnd (check_axial zht zLoc) (\<lambda>_.
          axial_lookup self (last (times self)) cid compType varName xr yt zht zLoc))"
    using assms(1,2) neg by (rule getAxialData_negative)
  show "getAxialData self t cid compType varName zLoc xr yt =
        getAxialData self (last (times self)) cid compType varName zLoc xr yt"
    using assms(1,2) neg by (rule getAxialData_last)
next
  fix zht n i' j' k' ch' cell'
  assume neg: "t < 0"
    and h: "getAxialLocations self (last (times self)) cid compType varName = Inr zht \<and>
       sorted zht \<and> n < length zht \<and> zht ! n = zLoc \<and>
       (\<forall>m. n < m \<and> m < length zht \<longrightarrow> zLoc < zht ! m) \<and>
       transform_indices self cid compType varName xr yt (Some (int n + 1)) =
         Inr (i', j', k') \<and>
       locate_cell self cid compType varName i' j' k' = Inr (ch', cell')"
  from h have h1: "getAxialLocations self (last (times self)) cid compType varName = Inr zht"
    and h2: "sorted zht" and h3: "n < length zht" and h4: "zht ! n = zLoc"
    and h5: "\<forall>m. n < m \<and> m < length zht \<longrightarrow> zLoc < zht ! m"
    and h6: "transform_indices self cid compType varName xr yt (Some (int n + 1)) =
         Inr (i', j', k')"
    and h7: "locate_cell self cid compType varName i' j' k' = Inr (ch', cell')"
    by simp_all
  show "getAxialData self t cid compType varName zLoc xr yt =
        unpack_float_at (xtvFile self)
          (dataStart (SB self) + (int (length (times self)) - 1) * dataLen (SB self) +
           startIncrement ch' + (cell' - 1) * 4)"
    using assms(1,2) neg h1 h2 h3 h4 h5 h6 h7 by (rule getAxialData_negative_level)
next
  assume a: "0 \<le> t \<and> last (times self) < t"
  then show "getData self t cid compType varName i j k = Inl (XTVError TIME_UBOUND_ERR)"
    using assms(2) by (simp add: getData_located [OF assms(3)] read_at_time_after)
  from a show "getAxialData self t cid compType varName zLoc xr yt =
      Inl (XTVError TIME_UBOUND_ERR)"
    using assms(2) by (simp add: getAxialData_def latch_time_after)
next
  assume a: "0 \<le> t \<and> t < hd (times self)"
  then have le: "t \<le> last (times self)"
    using sorted_hd_le_last [OF assms(1,2)] by simp
  from a le show "getData self t cid compType varName i j k = Inl (XTVError TIME_LBOUND_ERR)"
    using assms(2) by (simp add: getData_located [OF assms(3)] read_at_time_before)
  from a le show "getAxialData self t cid compType varName zLoc xr yt =
      Inl (XTVError TIME_LBOUND_ERR)"
    using assms(2) by (simp add: getAxialData_def latch_time_before)
qed

theorem time_out_of_bounds_witness:
  "sorted (times ex_xtvA) \<and> times ex_xtvA \<noteq> [] \<and>
   last (times ex_xtvA) = 4 \<and> hd (times ex_xtvA) = 1 \<and>
   locate_cell ex_xtvA 500 (Some ''pipe'') ''pn'' (Some 1) None None =
     Inr (\<lparr>startIncrement = 28, dimPosAt = Some ''1dCc'', freqAt = Some ''TD'',
           vTmpl = Some 1, vLength = Some 2\<rparr>, 1) \<and>
   getData ex_xtvA (- 3) 500 (Some ''pipe'') ''pn'' (Some 1) None None = Inr 4 \<and>
   getData ex_xtvA (- 3) 500 (Some ''pipe'') ''pn'' (Some 1) None None =
     getData ex_xtvA 4 500 (Some ''pipe'') ''pn'' (Some 1) None None \<and>
   getAxialLocations ex_xtvA 4 500 (Some ''pipe'') ''pn'' =
     Inr [2097153 / 4096, 6292481 / 4096] \<and>
   getAxialData ex_xtvA (- 3) 500 (Some ''pipe'') ''pn'' (2097153 / 4096) None None = Inr 4 \<and>
   getAxialData ex_xtvA (- 3) 500 (Some ''pipe'') ''pn'' 1024 None None =
     Inr (69238815 / 33562624) \<and>
   getAxialData ex_xtvA (- 3) 500 (Some ''pipe'') ''pn'' 1024 None None =
     getAxialData ex_xtvA 4 500 (Some ''pipe'') ''pn'' 1024 None None \<and>
   getData ex_xtvA 5 500 (Some ''pipe'') ''pn'' (Some 1) None None =
     Inl (XTVError TIME_UBOUND_ERR) \<and>
   getAxialData ex_xtvA 5 500 (Some ''pipe'') ''pn'' 1024 None None =
     Inl (XTVError TIME_UBOUND_ERR) \<and>
   getData ex_xtvA (1 / 2) 500 (Some ''pipe'') ''pn'' (Some 1) None None =
     Inl (XTVError TIME_LBOUND_ERR) \<and>
   getAxialData ex_xtvA (1 / 2) 500 (Some ''pipe'') ''pn'' 1024 None None =
     Inl (XTVError TIME_LBOUND_ERR)"
proof -
  let ?ch = "\<lparr>startIncrement = 28, dimPosAt = Some ''1dCc'', freqAt = Some ''TD'',
              vTmpl = Some 1, vLength = Some 2\<rparr>"
  let ?zht = "[2097153 / 4096, 6292481 / 4096] :: real list"
  have s: "sorted (times ex_xtvA)" and n: "times ex_xtvA \<noteq> []"
    and la: "last (times ex_xtvA) = 4" and fi: "hd (times ex_xtvA) = 1"
    and len: "int (length (times ex_xtvA)) - 1 = 2"
    by (simp_all add: ex_fields)
  have l: "locate_cell ex_xtvA 500 (Some ''pipe'') ''pn'' (Some 1) None None = Inr (?ch, 1)"
    unfolding ex_xtvA_def by (rule ex_locate_pn)
  have z: "getAxialLocations ex_xtvA 4 500 (Some ''pipe'') ''pn'' = Inr ?zht"
    unfolding ex_xtvA_def by (rule ex_axial_pn)
  have g1: "getData ex_xtvA 4 500 (Some ''pipe'') ''pn'' (Some 1) (Some 0) (Some 0) = Inr 4"
    unfolding ex_xtvA_def getData_located [OF ex_locate_pn_level(1)]
    using ex_pn_A(3) by (simp add: ex_time)
  have g2: "getData ex_xtvA 4 500 (Some ''pipe'') ''pn'' (Some 2) (Some 0) (Some 0) = Inr (1 / 8)"
    unfolding ex_xtvA_def getData_located [OF ex_locate_pn_level(2)]
    using ex_pn2_A by (simp add: ex_time)
  have tr: "transform_indices ex_xtvA 500 (Some ''pipe'') ''pn'' None None (Some v) =
      Inr (Some v, Some 0, Some 0)" for v
    unfolding ex_xtvA_def by (rule ex_transform_pn)
  note w = time_out_of_bounds [OF s n l]
  have neg: "(- 3 :: real) < 0" by simp
  note n3 = w [of "- 3", THEN conjunct1, rule_format, OF neg]
  have a1: "getData ex_xtvA (- 3) 500 (Some ''pipe'') ''pn'' (Some 1) None None = Inr 4"
    using n3 [THEN conjunct1] ex_pn_A(3) by (simp add: ex_model)
  have a2: "getData ex_xtvA (- 3) 500 (Some ''pipe'') ''pn'' (Some 1) None None =
     getData ex_xtvA 4 500 (Some ''pipe'') ''pn'' (Some 1) None None"
    using n3 [THEN conjunct2, THEN conjunct1] by (simp only: la)
  have lv: "getAxialLocations ex_xtvA (last (times ex_xtvA)) 500 (Some ''pipe'') ''pn'' =
       Inr ?zht \<and>
     sorted ?zht \<and> 0 < length ?zht \<and> ?zht ! 0 = 2097153 / 4096 \<and>
     (\<forall>m. 0 < m \<and> m < length ?zht \<longrightarrow> 2097153 / 4096 < ?zht ! m) \<and>
     transform_indices ex_xtvA 500 (Some ''pipe'') ''pn'' None None (Some (int 0 + 1)) =
       Inr (Some 1, Some 0, Some 0) \<and>
     locate_cell ex_xtvA 500 (Some ''pipe'') ''pn'' (Some 1) (Some 0) (Some 0) = Inr (?ch, 1)"
  proof (intro conjI allI impI)
    show "getAxialLocations ex_xtvA (last (times ex_xtvA)) 500 (Some ''pipe'') ''pn'' =
        Inr ?zht"
      by (simp only: la z)
    show "transform_indices ex_xtvA 500 (Some ''pipe'') ''pn'' None None (Some (int 0 + 1)) =
        Inr (Some 1, Some 0, Some 0)"
      using tr [of 1] by simp
    show "locate_cell ex_xtvA 500 (Some ''pipe'') ''pn'' (Some 1) (Some 0) (Some 0) =
        Inr (?ch, 1)"
      unfolding ex_xtvA_def by (rule ex_locate_pn_level)
    fix m :: nat
    assume "0 < m \<and> m < length ?zht"
    then have "m = 1" by simp
    then show "2097153 / 4096 < ?zht ! m" by simp
  qed simp_all
  have a3: "getAxialData ex_xtvA (- 3) 500 (Some ''pipe'') ''pn'' (2097153 / 4096) None None =
      Inr 4"
    using n3 [of "2097153 / 4096" None None, THEN conjunct2, THEN conjunct2, THEN conjunct2,
        THEN conjunct2, rule_format, OF lv] ex_pn_A(3)
    by (simp add: ex_fields)
  have c: "check_axial ?zht 1024 = Inr ()"
    by (rule check_axial_inside) simp_all
  have k: "axial_lookup ex_xtvA 4 500 (Some ''pipe'') ''pn'' None None ?zht 1024 =
      Inr (69238815 / 33562624)"
    by (simp add: axial_lookup_def bisect_right_def bisect_loop.simps py_index_def tr g1 g2
        bnd_Inr interpolate_def)
  have a4: "getAxialData ex_xtvA (- 3) 500 (Some ''pipe'') ''pn'' 1024 None None =
      Inr (69238815 / 33562624)"
    using n3 [of 1024 None None, THEN conjunct2, THEN conjunct2, THEN conjunct1]
    by (simp add: la z c k bnd_Inr)
  have a5: "getAxialData ex_xtvA (- 3) 500 (Some ''pipe'') ''pn'' 1024 None None =
     getAxialData ex_xtvA 4 500 (Some ''pipe'') ''pn'' 1024 None None"
    using n3 [of 1024 None None, THEN conjunct2, THEN conjunct2, THEN conjunct2, THEN conjunct1]
    by (simp only: la)
  have b1: "getData ex_xtvA 5 500 (Some ''pipe'') ''pn'' (Some 1) None None =
     Inl (XTVError TIME_UBOUND_ERR)"
    using w [of 5] la by simp
  have b2: "getAxialData ex_xtvA 5 500 (Some ''pipe'') ''pn'' 1024 None None =
     Inl (XTVError TIME_UBOUND_ERR)"
    using w [of 5 1024 None None] la by simp
  have c1: "getData ex_xtvA (1 / 2) 500 (Some ''pipe'') ''pn'' (Some 1) None None =
     Inl (XTVError TIME_LBOUND_ERR)"
    using w [of "1 / 2"] fi by simp
  have c2: "getAxialData ex_xtvA (1 / 2) 500 (Some ''pipe'') ''pn'' 1024 None None =
     Inl (XTVError TIME_LBOUND_ERR)"
    using w [of "1 / 2" 1024 None None] fi by simp
  show ?thesis
    by (intro conjI s n la fi l a1 a2 z a3 a4 a5 b1 b2 c1 c2)
qed

subsection \<open>Mesh indices out of range\<close>

text \<open>\<open>getData\<close> once the header has given the channel, its length and its template.\<close>

lemma bnd_assoc: "bnd (bnd m f) g = bnd m (\<lambda>x. bnd (f x) g)"
  by (cases m) simp_all

lemma getData_header:
  assumes "get_comp self cid compType = Some cmpt"
      and "map_of (channels cmpt) (strip varName) = Some ch"
      and "dimPosAt ch = Some d" and "vTmpl ch = Some tmplInd" and "vLength ch = Some vLen"
      and "get_template self cmpt tmplInd = Inr tm"
  shows "getData self time cid compType varName i j k =
         bnd (cell_of (strip d) vLen tm i j k) (\<lambda>cell.
         bnd (attr (map_of (channels cmpt) varName)) (\<lambda>ch'.
           read_at_time self (startIncrement ch' + (cell - 1) * 4) time))"
  using assms by (simp add: getData_def locate_cell_def getDimPosAt_def bnd_assoc)

lemma startswith_other: "startswith d c \<Longrightarrow> c \<noteq> c' \<Longrightarrow> \<not> startswith d c'"
  by (cases d) (simp_all add: startswith_def)

lemma cell_of_3D_lower:
  assumes "startswith d CHR ''3''"
  shows "index_unset i \<Longrightarrow> cell_of d vLen tm i j k = Inl (XTVError INDEX_I_LBOUND_ERR)"
    and "\<not> index_unset i \<Longrightarrow> index_unset j \<Longrightarrow>
           cell_of d vLen tm i j k = Inl (XTVError INDEX_J_LBOUND_ERR)"
    and "\<not> index_unset i \<Longrightarrow> \<not> index_unset j \<Longrightarrow> index_unset k \<Longrightarrow>
           cell_of d vLen tm i j k = Inl (XTVError INDEX_K_LBOUND_ERR)"
  using assms by (simp_all add: cell_of_def)

lemma cell_of_3D_upper:
  assumes "startswith d CHR ''3''"
      and "\<not> index_unset i" and "\<not> index_unset j" and "\<not> index_unset k"
      and "mesh3 d (coordSys t) vLen (dimi t) (dimj t) (dimk t) (the i) (the j) (the k) =
             Inr (ni, nj, nk, c)"
  shows "ni < the i \<Longrightarrow> cell_of d vLen (Some t) i j k = Inl (XTVError INDEX_I_UBOUND_ERR)"
    and "the i \<le> ni \<Longrightarrow> nj < the j \<Longrightarrow>
           cell_of d vLen (Some t) i j k = Inl (XTVError INDEX_J_UBOUND_ERR)"
    and "the i \<le> ni \<Longrightarrow> the j \<le> nj \<Longrightarrow> nk < the k \<Longrightarrow>
           cell_of d vLen (Some t) i j k = Inl (XTVError INDEX_K_UBOUND_ERR)"
  using assms by (simp_all add: cell_of_def)

lemma cell_of_2D:
  assumes "startswith d CHR ''2''" and "dimj t + 1 \<noteq> 0"
  shows "index_unset i \<Longrightarrow> cell_of d vLen (Some t) i j k = Inl (XTVError INDEX_I_LBOUND_ERR)"
    and "\<not> index_unset i \<Longrightarrow> vLen div (dimj t + 1) < the i \<Longrightarrow>
           cell_of d vLen (Some t) i j k = Inl (XTVError INDEX_I_UBOUND_ERR)"
    and "\<not> index_unset i \<Longrightarrow> the i \<le> vLen div (dimj t + 1) \<Longrightarrow> dimi t \<noteq> 0 \<Longrightarrow>
           index_unset j \<Longrightarrow> cell_of d vLen (Some t) i j k = Inl (XTVError INDEX_J_LBOUND_ERR)"
    and "\<not> index_unset i \<Longrightarrow> the i \<le> vLen div (dimj t + 1) \<Longrightarrow> dimi t \<noteq> 0 \<Longrightarrow>
           \<not> index_unset j \<Longrightarrow> vLen div dimi t < the j \<Longrightarrow>
           cell_of d vLen (Some t) i j k = Inl (XTVError INDEX_J_UBOUND_ERR)"
  using assms startswith_other [OF assms(1), of "CHR ''3''"]
  by (simp_all add: cell_of_def py_div_def)

lemma cell_of_1D:
  assumes "startswith d CHR ''1''"
  shows "index_unset i \<Longrightarrow> cell_of d vLen tm i j k = Inl (XTVError INDEX_I_LBOUND_ERR)"
    and "\<not> index_unset i \<Longrightarrow> vLen < the i \<Longrightarrow>
           cell_of d vLen tm i j k = Inl (XTVError INDEX_I_UBOUND_ERR)"
  using assms startswith_other [OF assms, of "CHR ''3''"]
    startswith_other [OF assms, of "CHR ''2''"]
  by (simp_all add: cell_of_def)

text \<open>The header of file A for three variables.\<close>

lemma ex_header_tw:
  "get_comp ex_xtvA 140 (Some ''htstr'') = Some ex_htstr"
  "map_of (channels ex_htstr) (strip ''tw'') = Some (snd (channels ex_htstr ! 0))"
  "dimPosAt (snd (channels ex_htstr ! 0)) = Some ''2dCc''"
  "vTmpl (snd (channels ex_htstr ! 0)) = Some 1"
  "vLength (snd (channels ex_htstr ! 0)) = Some 2"
  "get_template ex_xtvA ex_htstr 1 = Inr (Some (ex_templates ! 1))"
  by (simp_all add: ex_xtvA_def ex_xtv_def ex_htstr_def get_comp_def get_template_def py_index_def
      strip_def isspace_def)

lemma ex_header_vessel:
  "get_comp ex_xtvA 200 (Some ''vessel'') = Some ex_vessel"
  "map_of (channels ex_vessel) (strip ''pn'') = Some (snd (channels ex_vessel ! 0))"
  "dimPosAt (snd (channels ex_vessel ! 0)) = Some ''3dCc''"
  "vTmpl (snd (channels ex_vessel ! 0)) = Some 1"
  "vLength (snd (channels ex_vessel ! 0)) = Some 8"
  "get_template ex_xtvA ex_vessel 1 = Inr (Some (ex_templates ! 3))"
  by (simp_all add: ex_xtvA_def ex_xtv_def ex_vessel_def get_comp_def get_template_def py_index_def
      strip_def isspace_def)

lemma ex_header_pn:
  "get_comp ex_xtvA 500 (Some ''pipe'') = Some ex_pipe"
  "map_of (channels ex_pipe) (strip ''pn'') = Some (snd (channels ex_pipe ! 1))"
  "dimPosAt (snd (channels ex_pipe ! 1)) = Some ''1dCc''"
  "vTmpl (snd (channels ex_pipe ! 1)) = Some 1"
  "vLength (snd (channels ex_pipe ! 1)) = Some 2"
  "get_template ex_xtvA ex_pipe 1 = Inr (Some (ex_templates ! 0))"
  by (simp_all add: ex_xtvA_def ex_xtv_def ex_pipe_def get_comp_def get_template_def py_index_def
      strip_def isspace_def)

text \<open>
  Claim C6, as the specification states it, fails for a 2D variable: in file A, for
  \<open>tw\<close> on the heat structure 140 (one cell in \<open>i\<close>), the indices \<open>i = 2\<close> and
  \<open>j = 0\<close> raise the upper-bound error of \<open>i\<close>, not the lower-bound error of \<open>j\<close>:
  the extent check on \<open>i\<close> runs before the lower-bound check on \<open>j\<close>.
\<close>

theorem index_checks_counterexample:
  "index_unset (Some 0) \<and>
   getData ex_xtvA 1 140 (Some ''htstr'') ''tw'' (Some 2) (Some 0) None =
     Inl (XTVError INDEX_I_UBOUND_ERR) \<and>
   getData ex_xtvA 1 140 (Some ''htstr'') ''tw'' (Some 2) (Some 0) None \<noteq>
     Inl (XTVError INDEX_J_LBOUND_ERR)"
proof -
  have g: "getData ex_xtvA 1 140 (Some ''htstr'') ''tw'' (Some 2) (Some 0) None =
     Inl (XTVError INDEX_I_UBOUND_ERR)"
    unfolding getData_header [OF ex_header_tw]
    by (simp add: ex_header ex_templates_def)
  show ?thesis
    by (simp add: g index_unset_def)
qed

text \<open>
  Claim C6, amended. In \<open>getData\<close>, once the header has given the channel, its length
  and its template, the index checks run in the order of the code. For a 3D variable:
  the lower bounds of \<open>i\<close>, \<open>j\<close>, \<open>k\<close> in this order, before anything is computed
  from the template, then (with the template there and the three extents computed) the
  upper bounds of \<open>i\<close>, \<open>j\<close>, \<open>k\<close> in this order. For a 2D variable (with the
  template there and no divisor 0): the lower bound of \<open>i\<close>, the upper bound of \<open>i\<close>,
  the lower bound of \<open>j\<close>, the upper bound of \<open>j\<close>. For a 1D variable: the lower
  bound of \<open>i\<close>, then its upper bound, which is the vector length. An index that is 0
  or absent raises the lower-bound error of its axis, and an index above its extent
  raises the upper-bound error of its axis, where no check before it in this order
  fails.
\<close>

theorem index_checks:
  assumes "get_comp self cid compType = Some cmpt"
      and "map_of (channels cmpt) (strip varName) = Some ch"
      and "dimPosAt ch = Some d" and "vTmpl ch = Some tmplInd" and "vLength ch = Some vLen"
      and "get_template self cmpt tmplInd = Inr tm"
  shows
    "(startswith (strip d) CHR ''3'' \<longrightarrow>
        (index_unset i \<longrightarrow>
           getData self time cid compType varName i j k = Inl (XTVError INDEX_I_LBOUND_ERR)) \<and>
        (\<not> index_unset i \<and> index_unset j \<longrightarrow>
           getData self time cid compType varName i j k = Inl (XTVError INDEX_J_LBOUND_ERR)) \<and>
        (\<not> index_unset i \<and> \<not> index_unset j \<and> index_unset k \<longrightarrow>
           getData self time cid compType varName i j k = Inl (XTVError INDEX_K_LBOUND_ERR)) \<and>
        (\<not> index_unset i \<and> \<not> index_unset j \<and> \<not> index_unset k \<and> tm = Some t \<and>
         mesh3 (strip d) (coordSys t) vLen (dimi t) (dimj t) (dimk t) (the i) (the j) (the k) =
           Inr (nmesh_i, nmesh_j, nmesh_k, c) \<longrightarrow>
           (nmesh_i < the i \<longrightarrow>
              getData self time cid compType varName i j k =
                Inl (XTVError INDEX_I_UBOUND_ERR)) \<and>
           (the i \<le> nmesh_i \<and> nmesh_j < the j \<longrightarrow>
              getData self time cid compType varName i j k =
                Inl (XTVError INDEX_J_UBOUND_ERR)) \<and>
           (the i \<le> nmesh_i \<and> the j \<le> nmesh_j \<and> nmesh_k < the k \<longrightarrow>
              getData self time cid compType varName i j k =
                Inl (XTVError INDEX_K_UBOUND_ERR)))) \<and>
     (startswith (strip d) CHR ''2'' \<and> tm = Some t \<and> dimj t + 1 \<noteq> 0 \<longrightarrow>
        (index_unset i \<longrightarrow>
           getData self time cid compType varName i j k = Inl (XTVError INDEX_I_LBOUND_ERR)) \<and>
        (\<not> index_unset i \<and> vLen div (dimj t + 1) < the i \<longrightarrow>
           getData self time cid compType varName i j k = Inl (XTVError INDEX_I_UBOUND_ERR)) \<and>
        (\<not> index_unset i \<and> the i \<le> vLen div (dimj t + 1) \<and> dimi t \<noteq> 0 \<longrightarrow>
           (index_unset j \<longrightarrow>
              getData self time cid compType varName i j k =
                Inl (XTVError INDEX_J_LBOUND_ERR)) \<and>
           (\<not> index_unset j \<and> vLen div dimi t < the j \<longrightarrow>
              getData self time cid compType varName i j k =
                Inl (XTVError INDEX_J_UBOUND_ERR)))) \<and>
     (startswith (strip d) CHR ''1'' \<longrightarrow>
        (index_unset i \<longrightarrow>
           getData self time cid compType varName i j k = Inl (XTVError INDEX_I_LBOUND_ERR)) \<and>
        (\<not> index_unset i \<and> vLen < the i \<longrightarrow>
           getData self time cid compType varName i j k = Inl (XTVError INDEX_I_UBOUND_ERR)))"
proof -
  note g = getData_header [OF assms]
  have three: "startswith (strip d) CHR ''3'' \<longrightarrow>
        (index_unset i \<longrightarrow>
           getData self time cid compType varName i j k = Inl (XTVError INDEX_I_LBOUND_ERR)) \<and>
        (\<not> index_unset i \<and> index_unset j \<longrightarrow>
           getData self time cid compType varName i j k = Inl (XTVError INDEX_J_LBOUND_ERR)) \<and>
        (\<not> index_unset i \<and> \<not> index_unset j \<and> index_unset k \<longrightarrow>
           getData self time cid compType varName i j k = Inl (XTVError INDEX_K_LBOUND_ERR)) \<and>
        (\<not> index_unset i \<and> \<not> index_unset j \<and> \<not> index_unset k \<and> tm = Some t \<and>
         mesh3 (strip d) (coordSys t) vLen (dimi t) (dimj t) (dimk t) (the i) (the j) (the k) =
           Inr (nmesh_i, nmesh_j, nmesh_k, c) \<longrightarrow>
           (nmesh_i < the i \<longrightarrow>
              getData self time cid compType varName i j k =
                Inl (XTVError INDEX_I_UBOUND_ERR)) \<and>
           (the i \<le> nmesh_i \<and> nmesh_j < the j \<longrightarrow>
              getData self time cid compType varName i j k =
                Inl (XTVError INDEX_J_UBOUND_ERR)) \<and>
           (the i \<le> nmesh_i \<and> the j \<le> nmesh_j \<and> nmesh_k < the k \<longrightarrow>
              getData self time cid compType varName i j k =
                Inl (XTVError INDEX_K_UBOUND_ERR)))"
  proof (intro impI conjI)
    assume s: "startswith (strip d) CHR ''3''"
    { assume "index_unset i"
      then show "getData self time cid compType varName i j k =
          Inl (XTVError INDEX_I_LBOUND_ERR)"
        by (simp add: g cell_of_3D_lower(1) [OF s]) }
    { assume "\<not> index_unset i \<and> index_unset j"
      then show "getData self time cid compType varName i j k =
          Inl (XTVError INDEX_J_LBOUND_ERR)"
        by (simp add: g cell_of_3D_lower(2) [OF s]) }
    { assume "\<not> index_unset i \<and> \<not> index_unset j \<and> index_unset k"
      then show "getData self time cid compType varName i j k =
          Inl (XTVError INDEX_K_LBOUND_ERR)"
        by (simp add: g cell_of_3D_lower(3) [OF s]) }
    assume a: "\<not> index_unset i \<and> \<not> index_unset j \<and> \<not> index_unset k \<and> tm = Some t \<and>
         mesh3 (strip d) (coordSys t) vLen (dimi t) (dimj t) (dimk t) (the i) (the j) (the k) =
           Inr (nmesh_i, nmesh_j, nmesh_k, c)"
    then have u: "\<not> index_unset i" "\<not> index_unset j" "\<not> index_unset k" and tm: "tm = Some t"
      and m: "mesh3 (strip d) (coordSys t) vLen (dimi t) (dimj t) (dimk t) (the i) (the j)
                (the k) = Inr (nmesh_i, nmesh_j, nmesh_k, c)"
      by simp_all
    note up = cell_of_3D_upper [OF s u m]
    { assume "nmesh_i < the i"
      then show "getData self time cid compType varName i j k =
          Inl (XTVError INDEX_I_UBOUND_ERR)"
        by (simp add: g tm up(1)) }
    { assume "the i \<le> nmesh_i \<and> nmesh_j < the j"
      then show "getData self time cid compType varName i j k =
          Inl (XTVError INDEX_J_UBOUND_ERR)"
        by (simp add: g tm up(2)) }
    { assume "the i \<le> nmesh_i \<and> the j \<le> nmesh_j \<and> nmesh_k < the k"
      then show "getData self time cid compType varName i j k =
          Inl (XTVError INDEX_K_UBOUND_ERR)"
        by (simp add: g tm up(3)) }
  qed
  have two: "startswith (strip d) CHR ''2'' \<and> tm = Some t \<and> dimj t + 1 \<noteq> 0 \<longrightarrow>
        (index_unset i \<longrightarrow>
           getData self time cid compType varName i j k = Inl (XTVError INDEX_I_LBOUND_ERR)) \<and>
        (\<not> index_unset i \<and> vLen div (dimj t + 1) < the i \<longrightarrow>
           getData self time cid compType varName i j k = Inl (XTVError INDEX_I_UBOUND_ERR)) \<and>
        (\<not> index_unset i \<and> the i \<le> vLen div (dimj t + 1) \<and> dimi t \<noteq> 0 \<longrightarrow>
           (index_unset j \<longrightarrow>
              getData self time cid compType varName i j k =
                Inl (XTVError INDEX_J_LBOUND_ERR)) \<and>
           (\<not> index_unset j \<and> vLen div dimi t < the j \<longrightarrow>
              getData self time cid compType varName i j k =
                Inl (XTVError INDEX_J_UBOUND_ERR)))"
  proof (intro impI conjI)
    assume a: "startswith (strip d) CHR ''2'' \<and> tm = Some t \<and> dimj t + 1 \<noteq> 0"
    then have s: "startswith (strip d) CHR ''2''" and tm: "tm = Some t"
      and z: "dimj t + 1 \<noteq> 0" by simp_all
    note c2 = cell_of_2D [OF s z]
    { assume "index_unset i"
      then show "getData self time cid compType varName i j k =
          Inl (XTVError INDEX_I_LBOUND_ERR)"
        by (simp add: g tm c2(1)) }
    { assume "\<not> index_unset i \<and> vLen div (dimj t + 1) < the i"
      then show "getData self time cid compType varName i j k =
          Inl (XTVError INDEX_I_UBOUND_ERR)"
        by (simp add: g tm c2(2)) }
    { assume b: "\<not> index_unset i \<and> the i \<le> vLen div (dimj t + 1) \<and> dimi t \<noteq> 0"
        and "index_unset j"
      then show "getData self time cid compType varName i j k =
          Inl (XTVError INDEX_J_LBOUND_ERR)"
        by (simp add: g tm c2(3)) }
    { assume b: "\<not> index_unset i \<and> the i \<le> vLen div (dimj t + 1) \<and> dimi t \<noteq> 0"
        and "\<not> index_unset j \<and> vLen div dimi t < the j"
      then show "getData self time cid compType varName i j k =
          Inl (XTVError INDEX_J_UBOUND_ERR)"
        by (simp add: g tm c2(4)) }
  qed
  have one: "startswith (strip d) CHR ''1'' \<longrightarrow>
        (index_unset i \<longrightarrow>
           getData self time cid compType varName i j k = Inl (XTVError INDEX_I_LBOUND_ERR)) \<and>
        (\<not> index_unset i \<and> vLen < the i \<longrightarrow>
           getData self time cid compType varName i j k = Inl (XTVError INDEX_I_UBOUND_ERR))"
  proof (intro impI conjI)
    assume s: "startswith (strip d) CHR ''1''"
    { assume "index_unset i"
      then show "getData self time cid compType varName i j k =
          Inl (XTVError INDEX_I_LBOUND_ERR)"
        by (simp add: g cell_of_1D(1) [OF s]) }
    { assume "\<not> index_unset i \<and> vLen < the i"
      then show "getData self time cid compType varName i j k =
          Inl (XTVError INDEX_I_UBOUND_ERR)"
        by (simp add: g cell_of_1D(2) [OF s]) }
  qed
  from three two one show ?thesis by (intro conjI)
qed

theorem index_checks_witness:
  "get_comp ex_xtvA 200 (Some ''vessel'') = Some ex_vessel \<and>
   dimPosAt (snd (channels ex_vessel ! 0)) = Some ''3dCc'' \<and>
   mesh3 ''3dCc'' ''CYL3D'' 8 2 2 2 1 1 1 = Inr (2, 2, 2, 1) \<and>
   getData ex_xtvA 1 200 (Some ''vessel'') ''pn'' None (Some 1) (Some 1) =
     Inl (XTVError INDEX_I_LBOUND_ERR) \<and>
   getData ex_xtvA 1 200 (Some ''vessel'') ''pn'' (Some 3) (Some 0) (Some 1) =
     Inl (XTVError INDEX_J_LBOUND_ERR) \<and>
   getData ex_xtvA 1 200 (Some ''vessel'') ''pn'' (Some 3) (Some 3) None =
     Inl (XTVError INDEX_K_LBOUND_ERR) \<and>
   getData ex_xtvA 1 200 (Some ''vessel'') ''pn'' (Some 3) (Some 1) (Some 1) =
     Inl (XTVError INDEX_I_UBOUND_ERR) \<and>
   getData ex_xtvA 1 200 (Some ''vessel'') ''pn'' (Some 1) (Some 3) (Some 1) =
     Inl (XTVError INDEX_J_UBOUND_ERR) \<and>
   getData ex_xtvA 1 200 (Some ''vessel'') ''pn'' (Some 1) (Some 1) (Some 3) =
     Inl (XTVError INDEX_K_UBOUND_ERR) \<and>
   get_comp ex_xtvA 140 (Some ''htstr'') = Some ex_htstr \<and>
   dimPosAt (snd (channels ex_htstr ! 0)) = Some ''2dCc'' \<and>
   getData ex_xtvA 1 140 (Some ''htstr'') ''tw'' (Some 0) (Some 1) None =
     Inl (XTVError INDEX_I_LBOUND_ERR) \<and>
   getData ex_xtvA 1 140 (Some ''htstr'') ''tw'' (Some 2) (Some 1) None =
     Inl (XTVError INDEX_I_UBOUND_ERR) \<and>
   getData ex_xtvA 1 140 (Some ''htstr'') ''tw'' (Some 1) (Some 0) None =
     Inl (XTVError INDEX_J_LBOUND_ERR) \<and>
   getData ex_xtvA 1 140 (Some ''htstr'') ''tw'' (Some 1) (Some 3) None =
     Inl (XTVError INDEX_J_UBOUND_ERR) \<and>
   get_comp ex_xtvA 500 (Some ''pipe'') = Some ex_pipe \<and>
   dimPosAt (snd (channels ex_pipe ! 1)) = Some ''1dCc'' \<and>
   getData ex_xtvA 1 500 (Some ''pipe'') ''pn'' (Some 0) None None =
     Inl (XTVError INDEX_I_LBOUND_ERR) \<and>
   getData ex_xtvA 1 500 (Some ''pipe'') ''pn'' (Some 3) None None =
     Inl (XTVError INDEX_I_UBOUND_ERR)"
proof -
  note ev = strip_def isspace_def startswith_def endswith_def index_unset_def mesh3_def
    py_div_def ex_templates_def
  note v = index_checks [OF ex_header_vessel, where t = "ex_templates ! 3" and nmesh_i = 2
      and nmesh_j = 2 and nmesh_k = 2 and time = 1]
  note h = index_checks [OF ex_header_tw, where t = "ex_templates ! 1" and time = 1]
  note p = index_checks [OF ex_header_pn, where time = 1]
  have v0: "get_comp ex_xtvA 200 (Some ''vessel'') = Some ex_vessel"
    by (rule ex_header_vessel(1))
  have v0': "dimPosAt (snd (channels ex_vessel ! 0)) = Some ''3dCc''"
    by (rule ex_header_vessel(3))
  have m: "mesh3 ''3dCc'' ''CYL3D'' 8 2 2 2 1 1 1 = Inr (2, 2, 2, 1)"
    by (simp add: ev)
  have v1: "getData ex_xtvA 1 200 (Some ''vessel'') ''pn'' None (Some 1) (Some 1) =
     Inl (XTVError INDEX_I_LBOUND_ERR)"
    using v [where i = None and j = "Some 1" and k = "Some 1"] by (simp add: ev)
  have v2: "getData ex_xtvA 1 200 (Some ''vessel'') ''pn'' (Some 3) (Some 0) (Some 1) =
     Inl (XTVError INDEX_J_LBOUND_ERR)"
    using v [where i = "Some 3" and j = "Some 0" and k = "Some 1"] by (simp add: ev)
  have v3: "getData ex_xtvA 1 200 (Some ''vessel'') ''pn'' (Some 3) (Some 3) None =
     Inl (XTVError INDEX_K_LBOUND_ERR)"
    using v [where i = "Some 3" and j = "Some 3" and k = None] by (simp add: ev)
  have v4: "getData ex_xtvA 1 200 (Some ''vessel'') ''pn'' (Some 3) (Some 1) (Some 1) =
     Inl (XTVError INDEX_I_UBOUND_ERR)"
    using v [where i = "Some 3" and j = "Some 1" and k = "Some 1" and c = 3]
    by (simp add: ev)
  have v5: "getData ex_xtvA 1 200 (Some ''vessel'') ''pn'' (Some 1) (Some 3) (Some 1) =
     Inl (XTVError INDEX_J_UBOUND_ERR)"
    using v [where i = "Some 1" and j = "Some 3" and k = "Some 1" and c = 5]
    by (simp add: ev)
  have v6: "getData ex_xtvA 1 200 (Some ''vessel'') ''pn'' (Some 1) (Some 1) (Some 3) =
     Inl (XTVError INDEX_K_UBOUND_ERR)"
    using v [where i = "Some 1" and j = "Some 1" and k = "Some 3" and c = 9]
    by (simp add: ev)
  have h0: "get_comp ex_xtvA 140 (Some ''htstr'') = Some ex_htstr"
    by (rule ex_header_tw(1))
  have h0': "dimPosAt (snd (channels ex_htstr ! 0)) = Some ''2dCc''"
    by (rule ex_header_tw(3))
  have h1: "getData ex_xtvA 1 140 (Some ''htstr'') ''tw'' (Some 0) (Some 1) None =
     Inl (XTVError INDEX_I_LBOUND_ERR)"
    using h [where i = "Some 0" and j = "Some 1" and k = None] by (simp add: ev)
  have h2: "getData ex_xtvA 1 140 (Some ''htstr'') ''tw'' (Some 2) (Some 1) None =
     Inl (XTVError INDEX_I_UBOUND_ERR)"
    using h [where i = "Some 2" and j = "Some 1" and k = None] by (simp add: ev)
  have h3: "getData ex_xtvA 1 140 (Some ''htstr'') ''tw'' (Some 1) (Some 0) None =
     Inl (XTVError INDEX_J_LBOUND_ERR)"
    using h [where i = "Some 1" and j = "Some 0" and k = None] by (simp add: ev)
  have h4: "getData ex_xtvA 1 140 (Some ''htstr'') ''tw'' (Some 1) (Some 3) None =
     Inl (XTVError INDEX_J_UBOUND_ERR)"
    using h [where i = "Some 1" and j = "Some 3" and k = None] by (simp add: ev)
  have p0: "get_comp ex_xtvA 500 (Some ''pipe'') = Some ex_pipe"
    by (rule ex_header_pn(1))
  have p0': "dimPosAt (snd (channels ex_pipe ! 1)) = Some ''1dCc''"
    by (rule ex_header_pn(3))
  have p1: "getData ex_xtvA 1 500 (Some ''pipe'') ''pn'' (Some 0) None None =
     Inl (XTVError INDEX_I_LBOUND_ERR)"
    using p [where i = "Some 0" and j = None and k = None] by (simp add: ev)
  have p2: "getData ex_xtvA 1 500 (Some ''pipe'') ''pn'' (Some 3) None None =
     Inl (XTVError INDEX_I_UBOUND_ERR)"
    using p [where i = "Some 3" and j = None and k = None] by (simp add: ev)
  show ?thesis
    by (intro conjI v0 v0' m v1 v2 v3 v4 v5 v6 h0 h0' h1 h2 h3 h4 p0 p0' p1 p2)
qed

subsection \<open>Axial queries on a scalar\<close>

lemma axial_lookup_empty:
  "axial_lookup self time cid compType varName xr yt [] zLoc = Inl IndexError"
  by (simp add: axial_lookup_def py_index_empty)

text \<open>
  Claim C7 holds for \<open>getAxialData\<close> and \<open>getAxialDataChannel\<close>, which test for the
  empty list, and fails for \<open>getTimeVectorAxial\<close>, which does not: on a non-empty
  time index, for a variable whose list of axial locations is empty at the first time,
  it indexes the empty list and raises IndexError, whatever the height asked for.
\<close>

theorem getTimeVectorAxial_scalar:
  assumes "times self \<noteq> []"
      and "decode_channel self channel = (varName, compType, cid, a, xr, yt)"
      and "getAxialLocations self (hd (times self)) cid compType varName = Inr []"
  shows "getTimeVectorAxial self channel zLoc = Inl IndexError"
proof -
  obtain t ts where ts: "times self = t # ts"
    using assms(1) by (cases "times self") simp_all
  show ?thesis
    using assms(3) by (simp add: getTimeVectorAxial_def assms(2) ts axial_lookup_empty)
qed

theorem getTimeVectorAxial_scalar_witness:
  "times ex_xtvA \<noteq> [] \<and>
   decode_channel ex_xtvA ''tmass-500'' = (''tmass'', Some ''pipe'', 500, None, None, None) \<and>
   getAxialLocations ex_xtvA (hd (times ex_xtvA)) 500 (Some ''pipe'') ''tmass'' = Inr [] \<and>
   getTimeVectorAxial ex_xtvA ''tmass-500'' (1 / 2) = Inl IndexError \<and>
   getAxialDataChannel ex_xtvA 1 ''tmass-500'' (1 / 2) = Inl (XTVError AXIAL_SCALAR_ERR)"
proof -
  have n: "times ex_xtvA \<noteq> []" by (simp add: ex_model)
  have d: "decode_channel ex_xtvA ''tmass-500'' =
      (''tmass'', Some ''pipe'', 500, None, None, None)"
    by (simp add: parse_eval getCompType_def ex_model)
  have z: "getAxialLocations ex_xtvA t 500 (Some ''pipe'') ''tmass'' = Inr []" for t
    by (simp add: ex_axial ex_model)
  have v: "getTimeVectorAxial ex_xtvA ''tmass-500'' (1 / 2) = Inl IndexError"
    using n d z by (rule getTimeVectorAxial_scalar)
  have "getAxialDataChannel ex_xtvA 1 ''tmass-500'' (1 / 2) =
      getAxialData ex_xtvA 1 500 (Some ''pipe'') ''tmass'' (1 / 2) None None"
    by (simp add: getAxialDataChannel_def d)
  also have "\<dots> = Inl (XTVError AXIAL_SCALAR_ERR)"
    by (simp add: getAxialData_def z check_axial_def latch_time_def py_index_def
        bisect_right_def bisect_loop.simps ex_fields)
  finally have s: "getAxialDataChannel ex_xtvA 1 ''tmass-500'' (1 / 2) =
      Inl (XTVError AXIAL_SCALAR_ERR)" .
  show ?thesis
    by (intro conjI n d z v s)
qed

subsection \<open>Rounding of the axial locations\<close>

text \<open>The number 1024.00048828125 has 15 significant digits, and no fewer.\<close>

lemma not_sig_digits_13: "\<not> sig_digits 13 1024.00048828125"
proof
  assume "sig_digits 13 1024.00048828125"
  then obtain m :: int and e :: int
    where m: "\<bar>m\<bar> < 10 ^ 13" and x: "(1024.00048828125 :: real) = of_int m * 10 powi e"
    by (auto simp: sig_digits_def)
  show False
  proof (cases "0 \<le> e")
    case True
    then have "(10::real) powi e = 10 ^ nat e" by (simp add: power_int_def)
    with x have "real_of_int 102400048828125 = real_of_int (m * 10 ^ (nat e + 11))"
      by (simp add: power_add)
    then have "(102400048828125 :: int) = m * 10 ^ (nat e + 11)"
      by (simp only: of_int_eq_iff)
    moreover have "(10::int) dvd m * 10 ^ (nat e + 11)"
      by (simp add: dvd_power)
    ultimately have "(10::int) dvd 102400048828125" by simp
    then show False by simp
  next
    case False
    define n where "n = nat (- e)"
    from False have n: "0 < n" and p: "(10::real) powi e = 1 / 10 ^ n"
      by (simp_all add: n_def power_int_def field_simps)
    from x p have "real_of_int (102400048828125 * 10 ^ n) = real_of_int (m * 10 ^ 11)"
      by (simp add: field_simps)
    then have eq: "(102400048828125 :: int) * 10 ^ n = m * 10 ^ 11"
      by (simp only: of_int_eq_iff)
    show False
    proof (cases "n \<le> 11")
      case True
      then have h: "(10::int) ^ 11 = 10 ^ (11 - n) * 10 ^ n"
        by (simp add: power_add [symmetric])
      from eq have "(102400048828125 :: int) * 10 ^ n = (m * 10 ^ (11 - n)) * 10 ^ n"
        unfolding h mult.assoc [symmetric] .
      then have q: "(102400048828125 :: int) = m * 10 ^ (11 - n)"
        by (simp only: mult_cancel_right) simp
      show False
      proof (cases "n = 11")
        case True
        with q m show False by simp
      next
        case False
        with True have "0 < 11 - n" by simp
        then obtain k where "11 - n = Suc k" by (cases "11 - n") simp_all
        then have "(10::int) dvd m * 10 ^ (11 - n)" by simp
        with q have "(10::int) dvd 102400048828125" by simp
        then show False by simp
      qed
    next
      case False
      then have "n - 11 + 11 = n" by simp
      moreover have "(10::int) ^ (n - 11 + 11) = 10 ^ (n - 11) * 10 ^ 11"
        by (rule power_add)
      ultimately have h: "(10::int) ^ n = 10 ^ (n - 11) * 10 ^ 11"
        by (simp only:)
      from eq have "((102400048828125 :: int) * 10 ^ (n - 11)) * 10 ^ 11 = m * 10 ^ 11"
        unfolding h mult.assoc [symmetric] .
      then have q: "m = 102400048828125 * 10 ^ (n - 11)"
        by (simp only: mult_cancel_right) simp
      have "(1::int) \<le> 10 ^ (n - 11)" by simp
      then have "(102400048828125 :: int) * 1 \<le> 102400048828125 * 10 ^ (n - 11)"
        by (intro mult_left_mono) simp_all
      with q m show False by simp
    qed
  qed
qed

text \<open>
  The double of 0.1 is \<open>3602879701896397 / 2^55\<close>. It is not a multiple of \<open>10^-13\<close>,
  and \<open>round(z, 13)\<close> returns it as it is: the multiple of \<open>10^-13\<close> nearest to it is
  \<open>1 / 10\<close>, and the double nearest to \<open>1 / 10\<close> is this one.
\<close>

lemma to_double_tenth: "to_double (1 / 10) = 3602879701896397 / 36028797018963968"
proof -
  have "to_double (1 / 10) =
      sgn (1 / 10 :: real) *
        (of_int (round_half_even (\<bar>1 / 10\<bar> / 2 powi (- 56))) * 2 powi (- 56))"
    by (rule to_double_scaled) (simp_all add: power_int_minus)
  also have "\<bar>1 / 10 :: real\<bar> / 2 powi (- 56) = 72057594037927936 / 10"
    by (simp add: power_int_minus)
  also have "round_half_even (72057594037927936 / 10) = 7205759403792794"
    by (simp add: round_half_even_def Let_def)
  finally show ?thesis
    by (simp add: power_int_minus)
qed

lemma py_round_tenth:
  "py_round (3602879701896397 / 36028797018963968) 13 = 3602879701896397 / 36028797018963968"
proof -
  have "round_half_away (3602879701896397 / 36028797018963968 * 10 ^ 13) = 10 ^ 12"
    by (simp add: round_half_away_def)
  then show ?thesis
    by (simp add: py_round_def to_double_tenth)
qed

text \<open>
  Claim C8, as the specification states it, fails: in file A the face locations of the
  pipe come back as they are stored, and the second, 1024.00048828125, has 15
  significant digits. The rounding is to 13 digits after the decimal point.
\<close>

theorem getAxialLocations_digits_counterexample:
  "getAxialLocations ex_xtvA 1 500 (Some ''pipe'') ''vln'' = Inr [0, 1024.00048828125, 2048.5] \<and>
   \<not> sig_digits 13 1024.00048828125"
proof -
  have g: "getAxialLocations ex_xtvA 1 500 (Some ''pipe'') ''vln'' =
      Inr [0, 1024.00048828125, 2048.5]"
    by (simp add: ex_axial ex_model ex_rounds)
  show ?thesis
    by (intro conjI g not_sig_digits_13)
qed

text \<open>
  Claim C8, amended. For a variable that resolves and is not a scalar, where the method
  has built the list \<open>raw\<close> of axial locations, \<open>getAxialLocations\<close> returns, position
  by position, \<open>round(z, 13)\<close> of the values \<open>z\<close> of \<open>raw\<close>: \<open>z\<close> is rounded to 13
  digits after the decimal point (to the integer multiple \<open>q\<close> of \<open>10^-13\<close> nearest to
  it, the one away from zero when two are equally near), and the value returned is the
  double nearest to that decimal number. It is not a rounding to 13 significant digits.
\<close>

theorem getAxialLocations_rounded:
  assumes "get_comp self cid compType = Some cmpt"
      and "map_of (channels cmpt) (strip varName) = Some ch"
      and "dimPosAt ch = Some d"
      and "strip d \<noteq> ''0D''"
      and "vTmpl ch = Some tmplInd"
      and "raw_axial_locations self time compType varName (strip d) cmpt tmplInd = Inr raw"
  shows "getAxialLocations self time cid compType varName =
           Inr (map (\<lambda>z. to_double (real_of_int (round_half_away (z * 10 ^ 13)) / 10 ^ 13))
                  raw) \<and>
         (\<forall>z \<in> set raw.
            \<bar>real_of_int (round_half_away (z * 10 ^ 13)) - z * 10 ^ 13\<bar> \<le> 1 / 2 \<and>
            (\<bar>real_of_int (round_half_away (z * 10 ^ 13)) - z * 10 ^ 13\<bar> = 1 / 2 \<longrightarrow>
               \<bar>z * 10 ^ 13\<bar> < \<bar>real_of_int (round_half_away (z * 10 ^ 13))\<bar>))"
proof (intro conjI ballI impI)
  have d: "getDimPosAt self cid compType varName = Inr (strip d)"
    by (simp add: getDimPosAt_def assms(1,2,3))
  have "py_round z 13 = to_double (real_of_int (round_half_away (z * 10 ^ 13)) / 10 ^ 13)" for z
    by (simp add: py_round_def)
  then show "getAxialLocations self time cid compType varName =
      Inr (map (\<lambda>z. to_double (real_of_int (round_half_away (z * 10 ^ 13)) / 10 ^ 13)) raw)"
    using assms(4)
    by (simp add: getAxialLocations_def d assms(1,2,5,6) attr_Some bnd_Inr)
next
  fix z :: real
  show "\<bar>real_of_int (round_half_away (z * 10 ^ 13)) - z * 10 ^ 13\<bar> \<le> 1 / 2"
    by (rule round_half_away_close)
next
  fix z :: real
  assume "\<bar>real_of_int (round_half_away (z * 10 ^ 13)) - z * 10 ^ 13\<bar> = 1 / 2"
  then show "\<bar>z * 10 ^ 13\<bar> < \<bar>real_of_int (round_half_away (z * 10 ^ 13))\<bar>"
    by (rule round_half_away_tie)
qed

theorem getAxialLocations_rounded_witness:
  "get_comp ex_xtvA 500 (Some ''pipe'') = Some ex_pipe \<and>
   raw_axial_locations ex_xtvA 1 (Some ''pipe'') ''vln'' ''1dFa'' ex_pipe 1 =
     Inr [0, 1024.00048828125, 2048.5] \<and>
   round_half_away (1024.00048828125 * 10 ^ 13) = 10240004882812500 \<and>
   to_double (10240004882812500 / 10 ^ 13) = 1024.00048828125 \<and>
   getAxialLocations ex_xtvA 1 500 (Some ''pipe'') ''vln'' = Inr [0, 1024.00048828125, 2048.5]"
proof -
  let ?ch = "\<lparr>startIncrement = 36, dimPosAt = Some ''1dFa'', freqAt = Some ''TD'',
              vTmpl = Some 1, vLength = Some 3\<rparr>"
  have s: "strip ''vln'' = ''vln''" "strip ''1dFa'' = ''1dFa''"
    by (simp_all add: strip_def isspace_def)
  have c: "get_comp ex_xtvA 500 (Some ''pipe'') = Some ex_pipe"
    by (simp add: get_comp_def ex_xtvA_def ex_xtv_def)
  have ch: "map_of (channels ex_pipe) (strip ''vln'') = Some ?ch"
    by (simp add: s ex_pipe_def)
  have d: "dimPosAt ?ch = Some ''1dFa''" and vt: "vTmpl ?ch = Some 1"
    by simp_all
  have n: "strip ''1dFa'' \<noteq> ''0D''"
    by (simp add: s)
  have raw: "raw_axial_locations ex_xtvA 1 (Some ''pipe'') ''vln'' ''1dFa'' ex_pipe 1 =
      Inr [0, 1024.00048828125, 2048.5]"
    by (simp add: raw_axial_locations_def get_template_def py_index_def startswith_def
        attr_Some bnd_Inr ex_model)
  have raw': "raw_axial_locations ex_xtvA 1 (Some ''pipe'') ''vln'' (strip ''1dFa'') ex_pipe 1 =
      Inr [0, 1024.00048828125, 2048.5]"
    by (simp only: s raw)
  have q: "round_half_away (1024.00048828125 * 10 ^ 13) = 10240004882812500"
    by (simp add: round_half_away_def)
  have t: "to_double (10240004882812500 / 10 ^ 13) = 1024.00048828125"
    using to_double_dyadic [of 2097153 11] by simp
  have e: "map (\<lambda>z. to_double (real_of_int (round_half_away (z * 10 ^ 13)) / 10 ^ 13))
      [0, 1024.00048828125, 2048.5] = [0, 1024.00048828125, 2048.5]"
    using ex_rounds(1,2,3) by (simp add: py_round_def)
  have g: "getAxialLocations ex_xtvA 1 500 (Some ''pipe'') ''vln'' =
      Inr [0, 1024.00048828125, 2048.5]"
    using getAxialLocations_rounded [OF c ch d n vt raw', THEN conjunct1]
    by (simp only: e)
  show ?thesis
    by (intro conjI c raw q t g)
qed

subsection \<open>The fine mesh without its end mark\<close>

lemma trim_unused_absent: "- 1 \<notin> set zLocs \<Longrightarrow> trim_unused zLocs = Inl ValueError"
  by (simp add: trim_unused_def)

lemma htstrc_vLength_not_scalar:
  "htstrc_vLength self cmpt varName d tmplInd = Inr vLen \<Longrightarrow> d \<noteq> ''0D''"
  by (auto simp: htstrc_vLength_def)

lemma ex_zht_A:
  "unpack_farray_at ex_fileA (1336 + 0 * 96 + (56 + (1 - 1) * 4)) 2 = Inr [1 / 2, - 1]"
  "unpack_farray_at ex_fileA (1336 + 1 * 96 + (56 + (1 - 1) * 4)) 2 = Inr [1 / 2, 1]"
  by (simp_all add: unpack_farray_at_def eval_nat_numeral ex_fileA_def ex_read)

text \<open>
  Claim C10. For a fine-mesh variable of an \<open>htstrc\<close> component (one that resolves,
  with the length \<open>vLen\<close> of its axial array, on a component that has the channel
  \<open>zht\<close>), on an ascending time index where record \<open>r\<close> is the last one whose time is
  at or before the requested time: if the \<open>vLen\<close> floats decoded at \<open>zht\<close> in record
  \<open>r\<close> hold no -1.0, \<open>getAxialLocations\<close> raises ValueError, not an XTVError.
\<close>

theorem fine_mesh_without_end_mark:
  assumes "get_comp self cid (Some ''htstrc'') = Some cmpt"
      and "map_of (channels cmpt) (strip varName) = Some ch"
      and "dimPosAt ch = Some d"
      and "vTmpl ch = Some tmplInd"
      and "htstrc_vLength self cmpt varName (strip d) tmplInd = Inr vLen"
      and "varName \<in> set fineMeshVars"
      and "map_of (channels cmpt) ''zht'' = Some zch"
      and "sorted (times self)"
      and "r < length (times self)"
      and "times self ! r \<le> time"
      and "\<forall>i. r < i \<and> i < length (times self) \<longrightarrow> time < times self ! i"
      and "unpack_farray_at (xtvFile self)
             (dataStart (SB self) + int r * dataLen (SB self) + startIncrement zch) vLen =
           Inr zht"
      and "- 1 \<notin> set zht"
  shows "getAxialLocations self time cid (Some ''htstrc'') varName = Inl ValueError"
proof -
  have d: "getDimPosAt self cid (Some ''htstrc'') varName = Inr (strip d)"
    by (simp add: getDimPosAt_def assms(1,2,3))
  have s: "strip d \<noteq> ''0D''"
    using assms(5) by (rule htstrc_vLength_not_scalar)
  have b: "bisect_right (times self) time - 1 = int r"
    using bisect_right_last_le [OF assms(8,9,10,11)] by simp
  have "raw_axial_locations self time (Some ''htstrc'') varName (strip d) cmpt tmplInd =
      Inl ValueError"
    using assms(12)
    by (simp add: raw_axial_locations_def assms(5,6,7) attr_Some bnd_Inr b record_offset_def
        trim_unused_absent [OF assms(13)])
  then show ?thesis
    using s by (simp add: getAxialLocations_def d assms(1,2,4) attr_Some bnd_Inr bnd_Inl)
qed

theorem fine_mesh_without_end_mark_witness:
  "get_comp ex_xtvA 140 (Some ''htstrc'') = Some ex_htstrc \<and>
   htstrc_vLength ex_xtvA ex_htstrc ''zht'' ''1dFa'' 1 = Inr 2 \<and>
   ''zht'' \<in> set fineMeshVars \<and>
   sorted (times ex_xtvA) \<and> times ex_xtvA ! 1 = 2 \<and> length (times ex_xtvA) = 3 \<and>
   times ex_xtvA ! 2 = 4 \<and>
   unpack_farray_at (xtvFile ex_xtvA)
     (dataStart (SB ex_xtvA) + 1 * dataLen (SB ex_xtvA) + 56) 2 = Inr [1 / 2, 1] \<and>
   getAxialLocations ex_xtvA 2 140 (Some ''htstrc'') ''zht'' = Inl ValueError \<and>
   getAxialLocations ex_xtvA 1 140 (Some ''htstrc'') ''zht'' = Inr [1 / 2]"
proof -
  let ?ch = "\<lparr>startIncrement = 56, dimPosAt = Some ''1dFa'', freqAt = Some ''TD'',
              vTmpl = Some 1, vLength = Some 2\<rparr>"
  have c: "get_comp ex_xtvA 140 (Some ''htstrc'') = Some ex_htstrc"
    by (simp add: get_comp_def ex_xtvA_def ex_xtv_def)
  have s: "strip ''zht'' = ''zht''" "strip ''1dFa'' = ''1dFa''"
    by (simp_all add: strip_def isspace_def)
  have ch: "map_of (channels ex_htstrc) ''zht'' = Some ?ch"
    by (simp add: ex_htstrc_def)
  have v: "htstrc_vLength ex_xtvA ex_htstrc ''zht'' ''1dFa'' 1 = Inr 2"
    by (simp add: htstrc_vLength_def ch attr_Some bnd_Inr)
  have f: "''zht'' \<in> set fineMeshVars"
    by (simp add: fineMeshVars_def)
  have t: "sorted (times ex_xtvA)" "times ex_xtvA ! 1 = 2" "length (times ex_xtvA) = 3"
    "times ex_xtvA ! 2 = 4"
    by (simp_all add: ex_fields)
  have l: "\<forall>i. 1 < i \<and> i < length (times ex_xtvA) \<longrightarrow> 2 < times ex_xtvA ! i"
  proof (intro allI impI)
    fix i :: nat assume "1 < i \<and> i < length (times ex_xtvA)"
    then have "i = 2" by (simp add: ex_fields)
    then show "2 < times ex_xtvA ! i" by (simp add: ex_fields)
  qed
  have a: "unpack_farray_at (xtvFile ex_xtvA)
     (dataStart (SB ex_xtvA) + 1 * dataLen (SB ex_xtvA) + 56) 2 = Inr [1 / 2, 1]"
    using ex_zht_A(2) by (simp add: ex_fields)
  have a': "unpack_farray_at (xtvFile ex_xtvA)
     (dataStart (SB ex_xtvA) + int 1 * dataLen (SB ex_xtvA) + startIncrement ?ch) 2 =
     Inr [1 / 2, 1]"
    using a by simp
  have ch': "map_of (channels ex_htstrc) (strip ''zht'') = Some ?ch"
    by (simp only: s ch)
  have d: "dimPosAt ?ch = Some ''1dFa''" and vt: "vTmpl ?ch = Some 1"
    by simp_all
  have v': "htstrc_vLength ex_xtvA ex_htstrc ''zht'' (strip ''1dFa'') 1 = Inr 2"
    by (simp only: s v)
  have lt: "1 < length (times ex_xtvA)" and le: "times ex_xtvA ! 1 \<le> 2"
    by (simp_all add: ex_fields)
  have m: "- 1 \<notin> set [1 / 2, 1 :: real]"
    by simp
  have g: "getAxialLocations ex_xtvA 2 140 (Some ''htstrc'') ''zht'' = Inl ValueError"
    by (rule fine_mesh_without_end_mark [OF c ch' d vt v' f ch t(1) lt le l a' m])
  have r: "py_round (1 / 2) 13 = 1 / 2"
    by (rule ex_rounds)
  have h: "getAxialLocations ex_xtvA 1 140 (Some ''htstrc'') ''zht'' = Inr [1 / 2]"
    using ex_zht_A(1)
    by (simp add: ex_axial ex_model r trim_unused_def bisect_right_def bisect_loop.simps
        record_offset_def)
  show ?thesis
    by (intro conjI c v f t a g h)
qed

subsection \<open>The flag of an opened file\<close>

lemma ex_fileC_start:
  "unpack_StartingBlock ex_fileC 0 =
     (Inr \<lparr>dataStart = 1336, dataLen = 96, nPoints = 0, fmtString = ''MUX''\<rparr>, 108)"
  by code_simp

lemma ex_fileC_loop:
  "block_loop ex_fileC 1
     \<lparr>pos = 108, comps = [], store = [], currentComp = None, currentTempl = None,
      recordLength = 24\<rparr> =
   (Some (Inl EOFError),
    \<lparr>pos = 108, comps = [], store = [], currentComp = None, currentTempl = None,
      recordLength = 24\<rparr>)"
  by code_simp

lemma ex_fileC_times:
  "read_times ex_fileC \<lparr>dataStart = 1336, dataLen = 96, nPoints = 0, fmtString = ''MUX''\<rparr> =
     Inr []"
  by (simp add: read_times_def)

text \<open>
  Claim C1 fails in the code. Where the starting block is read, its format is \<open>MUX\<close>
  and the block loop ends with an exception, the handler sets \<open>opened\<close> to False, the
  loop over the times runs, and the assignment after it sets \<open>opened\<close> to True: the
  constructor either raises what the loop over the times raises, or returns an object
  whose flag is True, with the components and templates stored before the exception.
  No returned object has the flag False.
\<close>

theorem XtvFile_init_opened_after_exception:
  assumes "unpack_StartingBlock f 0 = (Inr sb, p)"
      and "fmtString sb = ''MUX''"
      and "block_loop f fuel
             \<lparr>pos = p, comps = [], store = [], currentComp = None, currentTempl = None,
              recordLength = 24\<rparr> = (Some (Inl e), s)"
  shows "XtvFile_init fuel f =
           (case read_times f sb of
              Inl e' \<Rightarrow> Some (Inl e')
            | Inr ts \<Rightarrow>
                Some (Inr \<lparr>xtvFile = f, components = comps s, templ_store = store s,
                           times = ts, SB = sb, opened = Some True\<rparr>))"
proof -
  let ?self1 = "\<lparr>xtvFile = f, components = comps s, templ_store = store s, times = [],
                  SB = sb, opened = None\<rparr>"
  have handler: "(case Inl e :: error + unit of
                    Inl e \<Rightarrow> ?self1\<lparr>opened := Some False\<rparr> | Inr _ \<Rightarrow> ?self1) =
                 ?self1\<lparr>opened := Some False\<rparr>"
    by simp
  show ?thesis
  proof (cases "read_times f sb")
    case (Inl e')
    then show ?thesis
      by (simp add: XtvFile_init_def assms)
  next
    case (Inr ts)
    have "?self1\<lparr>opened := Some False\<rparr>\<lparr>times := ts, opened := Some True\<rparr> =
          \<lparr>xtvFile = f, components = comps s, templ_store = store s, times = ts,
           SB = sb, opened = Some True\<rparr>"
      by simp
    with Inr handler show ?thesis
      by (simp add: XtvFile_init_def assms)
  qed
qed

theorem XtvFile_init_opened_after_exception_witness:
  "unpack_StartingBlock ex_fileC 0 =
     (Inr \<lparr>dataStart = 1336, dataLen = 96, nPoints = 0, fmtString = ''MUX''\<rparr>, 108) \<and>
   fst (block_loop ex_fileC 1
     \<lparr>pos = 108, comps = [], store = [], currentComp = None, currentTempl = None,
      recordLength = 24\<rparr>) = Some (Inl EOFError) \<and>
   XtvFile_init 1 ex_fileC =
     Some (Inr \<lparr>xtvFile = ex_fileC, components = [], templ_store = [], times = [],
                SB = \<lparr>dataStart = 1336, dataLen = 96, nPoints = 0, fmtString = ''MUX''\<rparr>,
                opened = Some True\<rparr>)"
proof -
  have m: "fmtString \<lparr>dataStart = 1336, dataLen = 96, nPoints = 0, fmtString = ''MUX''\<rparr> =
      ''MUX''"
    by simp
  have l: "fst (block_loop ex_fileC 1
     \<lparr>pos = 108, comps = [], store = [], currentComp = None, currentTempl = None,
      recordLength = 24\<rparr>) = Some (Inl EOFError)"
    by (simp only: ex_fileC_loop fst_conv)
  have i: "XtvFile_init 1 ex_fileC =
     Some (Inr \<lparr>xtvFile = ex_fileC, components = [], templ_store = [], times = [],
                SB = \<lparr>dataStart = 1336, dataLen = 96, nPoints = 0, fmtString = ''MUX''\<rparr>,
                opened = Some True\<rparr>)"
    using XtvFile_init_opened_after_exception [OF ex_fileC_start m ex_fileC_loop]
    by (simp add: ex_fileC_times)
  show ?thesis
    by (intro conjI ex_fileC_start l i)
qed


end
